theory Spec2Isabelle
  imports Main "HOL-Library.Multiset" "HOL-Library.Product_Lexorder"
begin

section \<open>Strings as the export code uses them\<close>

text \<open>
  A string is the list of the units that the source's \<^verbatim>\<open>length\<close> and
  \<^verbatim>\<open>substring\<close> count. \<^verbatim>\<open>s.split(c)\<close> with a one-character separator always
  returns at least one piece (\<^verbatim>\<open>''.split('|')\<close> is \<^verbatim>\<open>['']\<close>);
  \<^verbatim>\<open>pieces.join(sep)\<close> puts the separator between neighbours.
\<close>

fun splitStr :: "char \<Rightarrow> string \<Rightarrow> string list" where
  "splitStr c [] = [[]]"
| "splitStr c (x # xs) =
     (if x = c then [] # splitStr c xs
      else (case splitStr c xs of
              [] \<Rightarrow> [[x]]
            | t # ts \<Rightarrow> (x # t) # ts))"

fun joinStr :: "string \<Rightarrow> string list \<Rightarrow> string" where
  "joinStr sep [] = []"
| "joinStr sep [t] = t"
| "joinStr sep (t # u # ts) = t @ sep @ joinStr sep (u # ts)"

text \<open>
  A field of a row that may be missing is a \<open>string option\<close>; \<open>None\<close> is
  \<^verbatim>\<open>undefined\<close>. \<open>truthy\<close> is the test of \<^verbatim>\<open>row.title ? a : b\<close>, \<open>orElse\<close> is
  \<^verbatim>\<open>x || d\<close>, and \<open>render\<close> is what a template literal \<^verbatim>\<open>${x}\<close> prints.
\<close>

fun truthy :: "string option \<Rightarrow> bool" where
  "truthy None = False"
| "truthy (Some s) = (s \<noteq> [])"

fun orElse :: "string option \<Rightarrow> string \<Rightarrow> string" where
  "orElse None d = d"
| "orElse (Some s) d = (if s = [] then d else s)"

fun render :: "string option \<Rightarrow> string" where
  "render None = ''undefined''"
| "render (Some s) = s"

section \<open>Range selectors\<close>

text \<open>
  Modelled from the spec: \<^verbatim>\<open>sortLineSelections\<close> of \<^verbatim>\<open>utils/workspace-util\<close>
  is not among the sources. The spec gives the token grammar
  \<^verbatim>\<open>LINE ':' COL '-' LINE ':' COL\<close> with non-negative integers and orders tokens
  ascending by start line, then start column; the comment in \<^verbatim>\<open>groupResults\<close> shows
  the same order. \<open>startOf\<close> reads the pair (start line, start column) of a token and
  \<^verbatim>\<open>tokens.sort(sortLineSelections)\<close> is the stable sort on that key.
\<close>

definition isDigit :: "char \<Rightarrow> bool" where
  "isDigit c = (48 \<le> (of_char c :: nat) \<and> (of_char c :: nat) \<le> 57)"

definition parseNat :: "string \<Rightarrow> nat" where
  "parseNat s = foldl (\<lambda>n c. 10 * n + (of_char c - 48)) 0 (takeWhile isDigit s)"

definition startOf :: "string \<Rightarrow> nat \<times> nat" where
  "startOf tok =
     (let start = takeWhile (\<lambda>c. c \<noteq> CHR ''-'') tok
      in (parseNat start, parseNat (drop 1 (dropWhile (\<lambda>c. c \<noteq> CHR '':'') start))))"

definition sortLineSelections :: "string list \<Rightarrow> string list" where
  "sortLineSelections toks = sort_key startOf toks"

section \<open>Rows, groups and the row store\<close>

text \<open>
  \<^verbatim>\<open>ReviewFileExportSection\<close>: a group name and the rows of the group. The rows are
  objects that the export mutates in place and shares between arrays, so an array of rows
  is a list of addresses and the rows live in a store.
\<close>

record ReviewFileExportSection =
  group :: string
  lines :: "nat list"

text \<open>
  \<^verbatim>\<open>CsvEntry\<close>, one parsed line of the review file. \<open>filename\<close>, \<open>lines\<close> and
  \<open>comment\<close> are always there; the other text columns may be missing; \<open>code\<close> is set
  or deleted by the export. The type of a present priority is a parameter, since the two
  source files treat it differently. The second file declares it a \<^verbatim>\<open>string\<close> and
  switches on \<^verbatim>\<open>'1'\<close>, \<^verbatim>\<open>'2'\<close>, \<^verbatim>\<open>'3'\<close>: there it is a \<open>string\<close>.
  \<^verbatim>\<open>src/export-factory.ts\<close> declares it a \<^verbatim>\<open>number\<close>, and the rows that
  \<^verbatim>\<open>exportForFormat\<close> gets from the parser (\<^verbatim>\<open>headers: true\<close>) hold the text of the
  column: there it is a \<open>priorityValue\<close>, a number or a text.
\<close>

datatype priorityValue = PNumber int | PText string

record 'p CsvEntry =
  sha :: "string option"
  filename :: string
  url :: "string option"
  lines :: string
  title :: "string option"
  comment :: string
  priority :: "'p option"
  category :: "string option"
  additional :: "string option"
  code :: "string option"

type_synonym 'p store = "nat \<Rightarrow> 'p CsvEntry"

text \<open>
  \<^verbatim>\<open>GroupBy\<close> is declared outside the sources; the spec names the grouping keys
  \<^verbatim>\<open>filename\<close> and \<^verbatim>\<open>category\<close>. \<open>rowAttr g row\<close> is \<^verbatim>\<open>row[groupAttribute]\<close>.
  \<^verbatim>\<open>groupResults\<close> reads it after \<^verbatim>\<open>row.category = row.category || 'Other'\<close>, when
  the category is present; the \<open>None\<close> case below is not reached there.
\<close>

datatype GroupBy = Group_filename | Group_category

fun rowAttr :: "GroupBy \<Rightarrow> 'p CsvEntry \<Rightarrow> string" where
  "rowAttr Group_filename row = filename row"
| "rowAttr Group_category row = (case category row of Some c \<Rightarrow> c | None \<Rightarrow> [])"

section \<open>groupResults\<close>

text \<open>
  \<^verbatim>\<open>match.lines.push(row)\<close> on the first section whose group is the key
  (\<^verbatim>\<open>reviewExportData.find\<close> returns the first match).
\<close>

fun pushToMatch :: "string \<Rightarrow> nat \<Rightarrow> ReviewFileExportSection list \<Rightarrow> ReviewFileExportSection list" where
  "pushToMatch k r [] = []"
| "pushToMatch k r (s # ss) =
     (if group s = k
      then s\<lparr>ReviewFileExportSection.lines := ReviewFileExportSection.lines s @ [r]\<rparr> # ss
      else s # pushToMatch k r ss)"

definition addToGroups :: "string \<Rightarrow> nat \<Rightarrow> ReviewFileExportSection list \<Rightarrow> ReviewFileExportSection list" where
  "addToGroups k r secs =
     (case find (\<lambda>fileRef. group fileRef = k) secs of
        Some match \<Rightarrow> pushToMatch k r secs
      | None \<Rightarrow> secs @ [\<lparr>group = k, lines = [r]\<rparr>])"

text \<open>
  \<^verbatim>\<open>src/export-factory.ts\<close>, the body of \<^verbatim>\<open>rows.forEach\<close> in \<^verbatim>\<open>groupResults\<close>:
  the default category, the sorted range tokens, then the group of the row. Both
  assignments are made for every \<^verbatim>\<open>groupAttribute\<close>.
\<close>

definition groupRow :: "'p CsvEntry \<Rightarrow> 'p CsvEntry" where
  "groupRow row =
     (let row1 = row\<lparr>category := Some (orElse (category row) ''Other'')\<rparr>
      in row1\<lparr>lines := joinStr ''|'' (sortLineSelections (splitStr CHR ''|'' (lines row1)))\<rparr>)"

definition groupResults_step ::
  "GroupBy \<Rightarrow> 'p store \<times> ReviewFileExportSection list \<Rightarrow> nat \<Rightarrow>
   'p store \<times> ReviewFileExportSection list" where
  "groupResults_step groupAttribute acc r =
     (let row = groupRow (fst acc r)
      in ((fst acc)(r := row), addToGroups (rowAttr groupAttribute row) r (snd acc)))"

definition groupResults ::
  "'p store \<Rightarrow> nat list \<Rightarrow> GroupBy \<Rightarrow> 'p store \<times> ReviewFileExportSection list" where
  "groupResults h rows groupAttribute = foldl (groupResults_step groupAttribute) (h, []) rows"

text \<open>The rows of all groups, in group order.\<close>

definition flatten :: "ReviewFileExportSection list \<Rightarrow> nat list" where
  "flatten secs = concat (map ReviewFileExportSection.lines secs)"

section \<open>The factory: configuration and what it calls outside the sources\<close>

text \<open>
  \<open>groupBy\<close>, \<open>includeCodeSelection\<close> and \<open>priorities\<close> are the configuration
  values \<^verbatim>\<open>code-review.groupBy\<close>, \<^verbatim>\<open>code-review.reportWithCodeSelection\<close> and
  \<^verbatim>\<open>code-review.priorities\<close>; \<open>basePath\<close> is \<^verbatim>\<open>this.basePath\<close> and \<open>EOL\<close> is
  \<^verbatim>\<open>os.EOL\<close>. The other fields are the functions the class calls that are not among
  the sources, taken as parameters:
  \<^item> \<open>unescapeEndOfLineFromCsv\<close>, \<open>escapeEndOfLineForCsv\<close> of
    \<^verbatim>\<open>utils/workspace-util\<close>;
  \<^item> \<open>rangeContent filename rangeString\<close>, the text
    \<^verbatim>\<open>stripIndent(getFileContentForRange(toAbsolutePath(workspaceRoot, filename),
    rangeFromStringDefinition(rangeString, 1)))\<close> of \<^verbatim>\<open>src/export-factory.ts\<close>;
  \<^item> \<open>linesContent filename startLine endLine\<close>, the text
    \<^verbatim>\<open>getFileContentForRange(toAbsolutePath(workspaceRoot, removeLeadingSlash(filename)),
    Number(startLine), Number(endLine))\<close> of the second file;
  \<^item> \<open>encode\<close> of \<^verbatim>\<open>js-base64\<close>, \<open>stringify\<close> for
    \<^verbatim>\<open>JSON.stringify(rows, null, 2)\<close> and \<open>template\<close> for the compiled Handlebars
    template applied to the groups;
  \<^item> \<open>arrayProperty name\<close>, what a template literal prints for the property that the
    array of the configured priorities has under a name that is not one of its indices
    (its \<^verbatim>\<open>length\<close>, a method it inherits), \<open>None\<close> when it has none: the JavaScript
    runtime decides it.
\<close>

datatype 'p jsonValue = JText string | JPriority 'p

record 'p ExportFactory =
  groupBy :: GroupBy
  includeCodeSelection :: bool
  priorities :: "string list"
  basePath :: string
  EOL :: string
  unescapeEndOfLineFromCsv :: "string \<Rightarrow> string"
  escapeEndOfLineForCsv :: "string \<Rightarrow> string"
  rangeContent :: "string \<Rightarrow> string \<Rightarrow> string"
  linesContent :: "string \<Rightarrow> string \<Rightarrow> string \<Rightarrow> string"
  encode :: "string \<Rightarrow> string"
  stringify :: "(string \<times> 'p jsonValue) list list \<Rightarrow> string"
  template :: "(string \<times> 'p CsvEntry list) list \<Rightarrow> string"
  arrayProperty :: "string \<Rightarrow> string option"

text \<open>
  What the export does to the file system, in order: reading a range of a source file,
  writing a file, appending to a file.
\<close>

datatype fsEvent =
    ReadRange string string
  | ReadLines string string string
  | WriteFile string string
  | AppendFile string string

record 'p world =
  store :: "'p store"
  fsLog :: "fsEvent list"

section \<open>getCodeForFile\<close>

text \<open>
  The body shared by both files:
  \<^verbatim>\<open>if (result) { result = `${result}${EOL}...${EOL}${EOL}${fileContent}` } else { result = fileContent }\<close>.
\<close>

definition appendSpan :: "string \<Rightarrow> string \<Rightarrow> string \<Rightarrow> string" where
  "appendSpan eol result fileContent =
     (if result \<noteq> [] then result @ eol @ ''...'' @ eol @ eol @ fileContent else fileContent)"

text \<open>
  \<^verbatim>\<open>src/export-factory.ts\<close>: empty pieces of the selector are skipped
  (\<^verbatim>\<open>if (rangeString)\<close>), the result is encoded. The arguments \<open>file\<close> and
  \<open>selector\<close> are the source's \<^verbatim>\<open>filename\<close> and \<^verbatim>\<open>lines\<close>.
\<close>

definition rangeStrings :: "string \<Rightarrow> string list" where
  "rangeStrings selector = filter (\<lambda>rangeString. rangeString \<noteq> []) (splitStr CHR ''|'' selector)"

definition codeResult :: "'p ExportFactory \<Rightarrow> string \<Rightarrow> string \<Rightarrow> string" where
  "codeResult fac file selector =
     foldl (\<lambda>result rangeString. appendSpan (EOL fac) result (rangeContent fac file rangeString))
       [] (rangeStrings selector)"

definition getCodeForFile :: "'p ExportFactory \<Rightarrow> string \<Rightarrow> string \<Rightarrow> string" where
  "getCodeForFile fac file selector = encode fac (codeResult fac file selector)"

definition getCodeForFile_reads :: "string \<Rightarrow> string \<Rightarrow> fsEvent list" where
  "getCodeForFile_reads file selector = map (ReadRange file) (rangeStrings selector)"

text \<open>
  The second file: every piece is split at \<^verbatim>\<open>-\<close> into \<^verbatim>\<open>[start, end]\<close> and the
  first \<^verbatim>\<open>:\<close>-piece of each is the line. A piece without \<^verbatim>\<open>-\<close> leaves
  \<^verbatim>\<open>end\<close> undefined, and \<^verbatim>\<open>end.split(':')\<close> throws a TypeError: \<open>None\<close>.
\<close>

definition firstPiece :: "char \<Rightarrow> string \<Rightarrow> string" where
  "firstPiece c s = (case splitStr c s of [] \<Rightarrow> [] | t # ts \<Rightarrow> t)"

definition spanLines :: "string \<Rightarrow> (string \<times> string) option" where
  "spanLines rng =
     (case splitStr CHR ''-'' rng of
        start # end # rest \<Rightarrow> Some (firstPiece CHR '':'' start, firstPiece CHR '':'' end)
      | _ \<Rightarrow> None)"

fun codeLoop0 :: "'p ExportFactory \<Rightarrow> string \<Rightarrow> string \<Rightarrow> string list \<Rightarrow> string option" where
  "codeLoop0 fac file result [] = Some result"
| "codeLoop0 fac file result (rng # rest) =
     (case spanLines rng of
        None \<Rightarrow> None
      | Some (startLine, endLine) \<Rightarrow>
          codeLoop0 fac file
            (appendSpan (EOL fac) result (linesContent fac file startLine endLine)) rest)"

definition getCodeForFile0 :: "'p ExportFactory \<Rightarrow> string \<Rightarrow> string \<Rightarrow> string option" where
  "getCodeForFile0 fac file selector = codeLoop0 fac file [] (splitStr CHR ''|'' selector)"

text \<open>The reads of the loop: one for each piece, up to the first piece that throws.\<close>

definition getCodeForFile0_reads :: "string \<Rightarrow> string \<Rightarrow> fsEvent list" where
  "getCodeForFile0_reads file selector =
     concat (map (\<lambda>rng. case spanLines rng of
                             None \<Rightarrow> []
                           | Some (startLine, endLine) \<Rightarrow> [ReadLines file startLine endLine])
                 (takeWhile (\<lambda>rng. spanLines rng \<noteq> None) (splitStr CHR ''|'' selector)))"

text \<open>The text that the loop of the second file reads for one piece of the selector.\<close>

definition spanText0 :: "'p ExportFactory \<Rightarrow> string \<Rightarrow> string \<Rightarrow> string" where
  "spanText0 fac file rng =
     (case spanLines rng of
        None \<Rightarrow> []
      | Some (startLine, endLine) \<Rightarrow> linesContent fac file startLine endLine)"

section \<open>priorityName\<close>

text \<open>The decimal digits of a number, as a template literal prints it.\<close>

fun showNat :: "nat \<Rightarrow> string" where
  "showNat n =
     (if n < 10 then [''0123456789'' ! n]
      else showNat (n div 10) @ [''0123456789'' ! (n mod 10)])"

declare showNat.simps [simp del]

text \<open>
  A property name is an index of an array when it is the decimal text of a number,
  without sign, space or leading zero.
\<close>

definition arrayIndex :: "string \<Rightarrow> nat option" where
  "arrayIndex name = (if name = showNat (parseNat name) then Some (parseNat name) else None)"

text \<open>
  \<^verbatim>\<open>src/export-factory.ts\<close>: \<^verbatim>\<open>priorityMap[priority]\<close> on the configured array.
  Reading an array at an index it does not have, or at \<^verbatim>\<open>undefined\<close>, gives
  \<^verbatim>\<open>undefined\<close>: \<open>None\<close>. A number reads the element at that index. A text reads the
  property of that name: the element when the text is an index, and otherwise what the
  array has under the name.
\<close>

definition priorityName :: "'p ExportFactory \<Rightarrow> priorityValue option \<Rightarrow> string option" where
  "priorityName fac p =
     (case p of
        None \<Rightarrow> None
      | Some (PNumber i) \<Rightarrow>
          if 0 \<le> i \<and> nat i < length (priorities fac) then Some (priorities fac ! nat i)
          else None
      | Some (PText name) \<Rightarrow>
          (case arrayIndex name of
             Some n \<Rightarrow> if n < length (priorities fac) then Some (priorities fac ! n) else None
           | None \<Rightarrow> arrayProperty fac name))"

text \<open>The second file: a switch with a default.\<close>

definition priorityName0 :: "string option \<Rightarrow> string" where
  "priorityName0 p =
     (if p = Some ''1'' then ''low''
      else if p = Some ''2'' then ''medium''
      else if p = Some ''3'' then ''high''
      else ''none'')"

section \<open>The lines of the CSV renderers\<close>

text \<open>
  The six CSV renderers (three in each file) compute \<^verbatim>\<open>descShort\<close> and
  \<^verbatim>\<open>title\<close> with the same two lines, and build the description from the same
  pieces, in Markdown for GitLab and GitHub and in JIRA markup for JIRA.
\<close>

definition descShort :: "'p CsvEntry \<Rightarrow> string" where
  "descShort row =
     (if length (comment row) > 100 then take 100 (comment row) @ ''...'' else comment row)"

definition csvTitle :: "'p CsvEntry \<Rightarrow> string" where
  "csvTitle row =
     (case title row of
        None \<Rightarrow> descShort row
      | Some t \<Rightarrow> if t \<noteq> [] then take 255 t else descShort row)"

definition quoted :: "string \<Rightarrow> string" where
  "quoted s = [CHR 0x22] @ s @ [CHR 0x22]"

definition csvLine :: "string \<Rightarrow> string list \<Rightarrow> string" where
  "csvLine eol cols = joinStr '','' (map quoted cols) @ eol"

definition markdownDescription :: "string \<Rightarrow> string \<Rightarrow> 'p CsvEntry \<Rightarrow> string" where
  "markdownDescription eol prioritySection row =
     (let fileRow = (if truthy (url row)
                     then ''- file: ['' @ filename row @ '']('' @ render (url row) @ '')'' @ eol
                     else filename row @ eol);
          linesRow = ''- lines: '' @ lines row @ eol;
          shaRow = (if truthy (sha row) then ''- SHA: '' @ render (sha row) @ eol @ eol else []);
          commentSection = ''## Comment'' @ eol @ comment row @ eol;
          additional = (if truthy (additional row)
                        then ''## Additional information'' @ eol @ render (additional row) @ eol
                        else []);
          category = (if truthy (category row)
                      then ''## Category'' @ eol @ render (category row) @ eol @ eol
                      else []);
          code = (if truthy (code row)
                  then eol @ ''## Source Code'' @ eol @ eol @ replicate 3 (CHR 0x60) @ eol
                       @ render (code row) @ replicate 3 (CHR 0x60) @ eol
                  else [])
      in prioritySection @ category @ ''## Affected'' @ eol @ fileRow @ linesRow @ shaRow
         @ commentSection @ eol @ additional @ code)"

definition jiraDescription :: "string \<Rightarrow> 'p CsvEntry \<Rightarrow> string" where
  "jiraDescription eol row =
     (let fileRow = (if truthy (url row)
                     then ''* file: ['' @ filename row @ ''|'' @ render (url row) @ '']'' @ eol
                     else filename row @ eol);
          linesRow = ''* lines: '' @ lines row @ eol;
          shaRow = (if truthy (sha row) then ''* SHA: '' @ render (sha row) @ eol @ eol else []);
          categorySection = ''h2. Category'' @ eol @ render (category row) @ eol @ eol;
          commentSection = ''h2. Comment'' @ eol @ comment row @ eol;
          additional = (if truthy (additional row)
                        then ''h2. Additional information'' @ eol @ render (additional row) @ eol
                        else []);
          code = (if truthy (code row)
                  then eol @ ''h2. Source Code'' @ eol @ eol @ ''{code}'' @ eol
                       @ render (code row) @ ''{code}'' @ eol
                  else [])
      in ''h2. Affected'' @ eol @ fileRow @ linesRow @ shaRow @ categorySection
         @ commentSection @ eol @ additional @ code)"

definition jiraColumns :: "string \<Rightarrow> string \<Rightarrow> 'p CsvEntry \<Rightarrow> string list" where
  "jiraColumns eol priorityColumn row =
     [''[code review] '' @ csvTitle row, jiraDescription eol row, priorityColumn,
      render (sha row), filename row, render (url row), lines row, render (title row),
      render (category row), comment row, render (additional row)]"

section \<open>The handler map of src/export-factory.ts\<close>

datatype ExportFormat = Html | Gitlab | Github | Jira | Json

fun fileExtension :: "ExportFormat \<Rightarrow> string" where
  "fileExtension Html = ''html''"
| "fileExtension Gitlab = ''gitlab.csv''"
| "fileExtension Github = ''github.csv''"
| "fileExtension Jira = ''jira.csv''"
| "fileExtension Json = ''json''"

fun storeOutside :: "ExportFormat \<Rightarrow> bool" where
  "storeOutside Html = True"
| "storeOutside Gitlab = False"
| "storeOutside Github = False"
| "storeOutside Jira = False"
| "storeOutside Json = True"

fun writeFileHeader :: "'p ExportFactory \<Rightarrow> ExportFormat \<Rightarrow> string \<Rightarrow> fsEvent list" where
  "writeFileHeader fac Html outputFile = []"
| "writeFileHeader fac Gitlab outputFile = [WriteFile outputFile (''title,description'' @ EOL fac)]"
| "writeFileHeader fac Github outputFile =
     [WriteFile outputFile (''title,description,labels,state,assignee'' @ EOL fac)]"
| "writeFileHeader fac Jira outputFile =
     [WriteFile outputFile
        (''Summary,Description,Priority,sha,filename,url,lines,title,category,comment,additional''
         @ EOL fac)]"
| "writeFileHeader fac Json outputFile = []"

text \<open>
  \<^verbatim>\<open>this.includeCodeSelection ? (row.code = this.getCodeForFile(row.filename, row.lines)) : delete row.code\<close>,
  and the reads of the source file that the call makes.
\<close>

definition withCode :: "'p ExportFactory \<Rightarrow> 'p CsvEntry \<Rightarrow> 'p CsvEntry" where
  "withCode fac row =
     (if includeCodeSelection fac
      then row\<lparr>code := Some (getCodeForFile fac (filename row) (lines row))\<rparr>
      else row\<lparr>code := None\<rparr>)"

definition codeReads :: "'p ExportFactory \<Rightarrow> 'p CsvEntry \<Rightarrow> fsEvent list" where
  "codeReads fac row =
     (if includeCodeSelection fac then getCodeForFile_reads (filename row) (lines row) else [])"

text \<open>
  \<^verbatim>\<open>row.priority ? `## Priority${EOL}${this.priorityName(row.priority)}${EOL}${EOL}` : ''\<close>;
  a number is truthy when it is not zero, a text when it is not empty (the text
  \<^verbatim>\<open>'0'\<close> is).
\<close>

fun truthyPriority :: "priorityValue option \<Rightarrow> bool" where
  "truthyPriority None = False"
| "truthyPriority (Some (PNumber i)) = (i \<noteq> 0)"
| "truthyPriority (Some (PText s)) = (s \<noteq> [])"

definition prioritySection :: "priorityValue ExportFactory \<Rightarrow> priorityValue CsvEntry \<Rightarrow> string" where
  "prioritySection fac row =
     (if truthyPriority (priority row)
      then ''## Priority'' @ EOL fac @ render (priorityName fac (priority row)) @ EOL fac @ EOL fac
      else [])"

definition handleData_html :: "priorityValue ExportFactory \<Rightarrow> string \<Rightarrow> priorityValue world \<Rightarrow> nat \<Rightarrow> priorityValue world" where
  "handleData_html fac outputFile w r =
     (let row = store w r;
          row' = row\<lparr>code := Some (if includeCodeSelection fac
                                     then getCodeForFile fac (filename row) (lines row)
                                     else [])\<rparr>
      in \<lparr>store = (store w)(r := row'), fsLog = fsLog w @ codeReads fac row\<rparr>)"

definition handleData_gitlab :: "priorityValue ExportFactory \<Rightarrow> string \<Rightarrow> priorityValue world \<Rightarrow> nat \<Rightarrow> priorityValue world" where
  "handleData_gitlab fac outputFile w r =
     (let row = (store w r)\<lparr>comment := escapeEndOfLineForCsv fac (comment (store w r))\<rparr>;
          row' = withCode fac row;
          description = markdownDescription (EOL fac) (prioritySection fac row') row'
      in \<lparr>store = (store w)(r := row'),
          fsLog = fsLog w @ codeReads fac row
                  @ [AppendFile outputFile
                       (csvLine (EOL fac) [''[code review] '' @ csvTitle row', description])]\<rparr>)"

definition handleData_github :: "priorityValue ExportFactory \<Rightarrow> string \<Rightarrow> priorityValue world \<Rightarrow> nat \<Rightarrow> priorityValue world" where
  "handleData_github fac outputFile w r =
     (let row = (store w r)\<lparr>comment := escapeEndOfLineForCsv fac (comment (store w r))\<rparr>;
          row' = withCode fac row;
          description = markdownDescription (EOL fac) (prioritySection fac row') row'
      in \<lparr>store = (store w)(r := row'),
          fsLog = fsLog w @ codeReads fac row
                  @ [AppendFile outputFile
                       (csvLine (EOL fac)
                          [''[code review] '' @ csvTitle row', description,
                           ''code-review'', ''open'', []])]\<rparr>)"

definition handleData_jira :: "priorityValue ExportFactory \<Rightarrow> string \<Rightarrow> priorityValue world \<Rightarrow> nat \<Rightarrow> priorityValue world" where
  "handleData_jira fac outputFile w r =
     (let row = (store w r)\<lparr>comment := escapeEndOfLineForCsv fac (comment (store w r))\<rparr>;
          row' = withCode fac row
      in \<lparr>store = (store w)(r := row'),
          fsLog = fsLog w @ codeReads fac row
                  @ [AppendFile outputFile
                       (csvLine (EOL fac)
                          (jiraColumns (EOL fac) (render (priorityName fac (priority row'))) row'))]\<rparr>)"

definition handleData_json :: "priorityValue ExportFactory \<Rightarrow> string \<Rightarrow> priorityValue world \<Rightarrow> nat \<Rightarrow> priorityValue world" where
  "handleData_json fac outputFile w r =
     \<lparr>store = (store w)(r := withCode fac (store w r)), fsLog = fsLog w @ codeReads fac (store w r)\<rparr>"

fun handleData :: "priorityValue ExportFactory \<Rightarrow> ExportFormat \<Rightarrow> string \<Rightarrow> priorityValue world \<Rightarrow> nat \<Rightarrow> priorityValue world" where
  "handleData fac Html = handleData_html fac"
| "handleData fac Gitlab = handleData_gitlab fac"
| "handleData fac Github = handleData_github fac"
| "handleData fac Jira = handleData_jira fac"
| "handleData fac Json = handleData_json fac"

text \<open>
  The object that \<^verbatim>\<open>JSON.stringify\<close> prints for a row: its present keys, \<^verbatim>\<open>code\<close>
  last since the export adds it.
\<close>

definition jsonKey :: "string \<Rightarrow> string option \<Rightarrow> (string \<times> 'p jsonValue) list" where
  "jsonKey k v = (case v of None \<Rightarrow> [] | Some s \<Rightarrow> [(k, JText s)])"

definition toJson :: "'p CsvEntry \<Rightarrow> (string \<times> 'p jsonValue) list" where
  "toJson row =
     jsonKey ''sha'' (sha row) @ [(''filename'', JText (filename row))] @ jsonKey ''url'' (url row)
     @ [(''lines'', JText (lines row))] @ jsonKey ''title'' (title row)
     @ [(''comment'', JText (comment row))]
     @ (case priority row of None \<Rightarrow> [] | Some p \<Rightarrow> [(''priority'', JPriority p)])
     @ jsonKey ''category'' (category row) @ jsonKey ''additional'' (additional row)
     @ jsonKey ''code'' (code row)"

text \<open>
  Modelled from the spec: \<^verbatim>\<open>sortCsvEntryForLines\<close> of \<^verbatim>\<open>utils/workspace-util\<close>
  is not among the sources; the rows of a group are put in ascending document order of
  their ranges. \<open>sortGroup\<close> is \<^verbatim>\<open>group.lines.sort(sortCsvEntryForLines)\<close>.
\<close>

definition sortGroup :: "'p store \<Rightarrow> ReviewFileExportSection \<Rightarrow> ReviewFileExportSection" where
  "sortGroup h sec =
     sec\<lparr>ReviewFileExportSection.lines :=
           sort_key (\<lambda>r. startOf (lines (h r))) (ReviewFileExportSection.lines sec)\<rparr>"

text \<open>What the template is applied to: every group with its rows as they are in the store.\<close>

definition sectionData ::
  "'p store \<Rightarrow> ReviewFileExportSection list \<Rightarrow> (string \<times> 'p CsvEntry list) list" where
  "sectionData h secs = map (\<lambda>sec. (group sec, map h (ReviewFileExportSection.lines sec))) secs"

definition reviewExportData ::
  "'p ExportFactory \<Rightarrow> 'p store \<Rightarrow> nat list \<Rightarrow> 'p store \<times> ReviewFileExportSection list" where
  "reviewExportData fac h rows =
     (let grouped = groupResults h rows (groupBy fac)
      in (fst grouped,
          if groupBy fac = Group_filename then map (sortGroup (fst grouped)) (snd grouped)
          else snd grouped))"

fun handleEnd :: "priorityValue ExportFactory \<Rightarrow> ExportFormat \<Rightarrow> string \<Rightarrow> priorityValue world \<Rightarrow> nat list \<Rightarrow> priorityValue world" where
  "handleEnd fac Html outputFile w rows =
     (let grouped = reviewExportData fac (store w) rows
      in \<lparr>store = fst grouped,
          fsLog = fsLog w
                  @ [WriteFile outputFile (template fac (sectionData (fst grouped) (snd grouped)))]\<rparr>)"
| "handleEnd fac Json outputFile w rows =
     w\<lparr>fsLog := fsLog w @ [WriteFile outputFile (stringify fac (map (\<lambda>r. toJson (store w r)) rows))]\<rparr>"
| "handleEnd fac fmt outputFile w rows = w"

text \<open>
  \<^verbatim>\<open>exportForFormat\<close>. The parser hands every parsed row, a fresh object, to the
  \<^verbatim>\<open>'data'\<close> callback: \<open>rows\<close> are their addresses in parsing order. The callback
  unescapes the comment, and for a format with \<^verbatim>\<open>storeOutside\<close> calls
  \<^verbatim>\<open>handleData\<close>, pushes the row it returns (the same object) and then calls
  \<^verbatim>\<open>handleData\<close> again for its return value.
\<close>

definition unescapeRow :: "'p ExportFactory \<Rightarrow> 'p world \<Rightarrow> nat \<Rightarrow> 'p world" where
  "unescapeRow fac w r =
     w\<lparr>store := (store w)(r := (store w r)\<lparr>comment := unescapeEndOfLineFromCsv fac (comment (store w r))\<rparr>)\<rparr>"

definition onData ::
  "priorityValue ExportFactory \<Rightarrow> ExportFormat \<Rightarrow> string \<Rightarrow> priorityValue world \<times> nat list \<Rightarrow> nat \<Rightarrow> priorityValue world \<times> nat list" where
  "onData fac fmt outputFile acc r =
     (let w = unescapeRow fac (fst acc) r
      in if storeOutside fmt
         then (handleData fac fmt outputFile (handleData fac fmt outputFile w r) r, snd acc @ [r])
         else (handleData fac fmt outputFile w r, snd acc))"

definition exportForFormat :: "priorityValue ExportFactory \<Rightarrow> ExportFormat \<Rightarrow> priorityValue world \<Rightarrow> nat list \<Rightarrow> priorityValue world" where
  "exportForFormat fac fmt w rows =
     (let outputFile = basePath fac @ ''.'' @ fileExtension fmt;
          w0 = w\<lparr>fsLog := fsLog w @ writeFileHeader fac fmt outputFile\<rparr>;
          acc = foldl (onData fac fmt outputFile) (w0, []) rows
      in handleEnd fac fmt outputFile (fst acc) (if storeOutside fmt then snd acc else rows))"

text \<open>
  The parts of \<^verbatim>\<open>exportForFormat\<close> by name. \<open>outputFileOf\<close> is its
  \<^verbatim>\<open>outputFile\<close>. \<open>rowsParsed\<close> is the export when the parser has emitted the
  \<^verbatim>\<open>'data'\<close> events of the rows and not yet \<^verbatim>\<open>'end'\<close>: the header is written,
  the callback has run for every row, the rows of a format with \<^verbatim>\<open>storeOutside\<close> are
  pushed. \<open>templateInput\<close> is the argument of
  \<^verbatim>\<open>templateCompiled(reviewExportData)\<close> in the HTML \<^verbatim>\<open>handleEnd\<close>: the groups, with
  their rows as \<^verbatim>\<open>groupResults\<close> leaves them.
\<close>

definition outputFileOf :: "priorityValue ExportFactory \<Rightarrow> ExportFormat \<Rightarrow> string" where
  "outputFileOf fac fmt = basePath fac @ ''.'' @ fileExtension fmt"

definition rowsParsed ::
  "priorityValue ExportFactory \<Rightarrow> ExportFormat \<Rightarrow> priorityValue world \<Rightarrow> nat list \<Rightarrow>
   priorityValue world \<times> nat list" where
  "rowsParsed fac fmt w rows =
     foldl (onData fac fmt (outputFileOf fac fmt))
       (w\<lparr>fsLog := fsLog w @ writeFileHeader fac fmt (outputFileOf fac fmt)\<rparr>, []) rows"

definition templateInput ::
  "'p ExportFactory \<Rightarrow> 'p store \<Rightarrow> nat list \<Rightarrow> (string \<times> 'p CsvEntry list) list" where
  "templateInput fac h rows =
     sectionData (fst (reviewExportData fac h rows)) (snd (reviewExportData fac h rows))"

section \<open>The second source file: one export function per format\<close>

text \<open>
  \<^verbatim>\<open>groupResults\<close> of the second file: the priority becomes its name, the category gets
  its default, the range tokens are left as they are.
\<close>

definition groupRow0 :: "string CsvEntry \<Rightarrow> string CsvEntry" where
  "groupRow0 row =
     row\<lparr>priority := Some (priorityName0 (priority row)),
         category := Some (orElse (category row) ''Other'')\<rparr>"

definition groupResults0_step ::
  "GroupBy \<Rightarrow> string store \<times> ReviewFileExportSection list \<Rightarrow> nat \<Rightarrow>
   string store \<times> ReviewFileExportSection list" where
  "groupResults0_step groupAttribute acc r =
     (let row = groupRow0 (fst acc r)
      in ((fst acc)(r := row), addToGroups (rowAttr groupAttribute row) r (snd acc)))"

definition groupResults0 ::
  "string store \<Rightarrow> nat list \<Rightarrow> GroupBy \<Rightarrow> string store \<times> ReviewFileExportSection list" where
  "groupResults0 h rows groupAttribute = foldl (groupResults0_step groupAttribute) (h, []) rows"

text \<open>
  \<^verbatim>\<open>this.includeCodeSelection ? (row.code = this.getCodeForFile(row.filename, row.lines)) : delete row.code\<close>
  in the second file, where \<^verbatim>\<open>getCodeForFile\<close> can throw: \<open>None\<close>.
\<close>

definition withCode0 :: "string ExportFactory \<Rightarrow> string CsvEntry \<Rightarrow> string CsvEntry option" where
  "withCode0 fac row =
     (if includeCodeSelection fac
      then (case getCodeForFile0 fac (filename row) (lines row) of
              None \<Rightarrow> None
            | Some c \<Rightarrow> Some (row\<lparr>code := Some c\<rparr>))
      else Some (row\<lparr>code := None\<rparr>))"

definition codeReads0 :: "string ExportFactory \<Rightarrow> string CsvEntry \<Rightarrow> fsEvent list" where
  "codeReads0 fac row =
     (if includeCodeSelection fac then getCodeForFile0_reads (filename row) (lines row) else [])"

definition prioritySection0 :: "string ExportFactory \<Rightarrow> string CsvEntry \<Rightarrow> string" where
  "prioritySection0 fac row =
     (if truthy (priority row)
      then ''## Priority'' @ EOL fac @ priorityName0 (priority row) @ EOL fac @ EOL fac
      else [])"

text \<open>
  The \<^verbatim>\<open>'data'\<close> callbacks of \<^verbatim>\<open>exportAsGitLabCsv\<close>, \<^verbatim>\<open>exportAsGitHubCsv\<close> and
  \<^verbatim>\<open>exportAsJiraCsv\<close>. The comment is used as the parser gave it.
\<close>

definition exportAsGitLabCsv_data ::
  "string ExportFactory \<Rightarrow> string \<Rightarrow> string world \<Rightarrow> nat \<Rightarrow> string world option" where
  "exportAsGitLabCsv_data fac outputFile w r =
     (case withCode0 fac (store w r) of
        None \<Rightarrow> None
      | Some row \<Rightarrow>
          Some \<lparr>store = (store w)(r := row),
                fsLog = fsLog w @ codeReads0 fac (store w r)
                        @ [AppendFile outputFile
                             (csvLine (EOL fac)
                                [''[code review] '' @ csvTitle row,
                                 markdownDescription (EOL fac) (prioritySection0 fac row) row])]\<rparr>)"

definition exportAsGitHubCsv_data ::
  "string ExportFactory \<Rightarrow> string \<Rightarrow> string world \<Rightarrow> nat \<Rightarrow> string world option" where
  "exportAsGitHubCsv_data fac outputFile w r =
     (case withCode0 fac (store w r) of
        None \<Rightarrow> None
      | Some row \<Rightarrow>
          Some \<lparr>store = (store w)(r := row),
                fsLog = fsLog w @ codeReads0 fac (store w r)
                        @ [AppendFile outputFile
                             (csvLine (EOL fac)
                                [''[code review] '' @ csvTitle row,
                                 markdownDescription (EOL fac) (prioritySection0 fac row) row,
                                 ''code-review'', ''open'', []])]\<rparr>)"

text \<open>
  \<^verbatim>\<open>// JIRA prioritys are the other way around\<close>: the switch of
  \<^verbatim>\<open>exportAsJiraCsv\<close>; \<^verbatim>\<open>${priority}\<close> prints the digits of the number.
\<close>

definition jiraPriority0 :: "string option \<Rightarrow> nat" where
  "jiraPriority0 p =
     (if p = Some ''1'' then 3
      else if p = Some ''2'' then 2
      else if p = Some ''3'' then 1
      else 3)"

definition exportAsJiraCsv_data ::
  "string ExportFactory \<Rightarrow> string \<Rightarrow> string world \<Rightarrow> nat \<Rightarrow> string world option" where
  "exportAsJiraCsv_data fac outputFile w r =
     (case withCode0 fac (store w r) of
        None \<Rightarrow> None
      | Some row \<Rightarrow>
          Some \<lparr>store = (store w)(r := row),
                fsLog = fsLog w @ codeReads0 fac (store w r)
                        @ [AppendFile outputFile
                             (csvLine (EOL fac)
                                (jiraColumns (EOL fac) (showNat (jiraPriority0 (priority row))) row))]\<rparr>)"

text \<open>
  \<^verbatim>\<open>exportAsJson\<close>: the callback sets or deletes the code and pushes the row; at the end
  the pushed rows are written. A callback that throws ends the export without the file.
\<close>

definition exportAsJson_data ::
  "string ExportFactory \<Rightarrow> string world \<times> nat list \<Rightarrow> nat \<Rightarrow> (string world \<times> nat list) option" where
  "exportAsJson_data fac acc r =
     (case withCode0 fac (store (fst acc) r) of
        None \<Rightarrow> None
      | Some row \<Rightarrow>
          Some (\<lparr>store = (store (fst acc))(r := row),
                 fsLog = fsLog (fst acc) @ codeReads0 fac (store (fst acc) r)\<rparr>,
                snd acc @ [r]))"

fun foldOption :: "('a \<Rightarrow> 'b \<Rightarrow> 'a option) \<Rightarrow> 'a \<Rightarrow> 'b list \<Rightarrow> 'a option" where
  "foldOption f a [] = Some a"
| "foldOption f a (x # xs) = (case f a x of None \<Rightarrow> None | Some a' \<Rightarrow> foldOption f a' xs)"

definition exportAsJson :: "string ExportFactory \<Rightarrow> string world \<Rightarrow> nat list \<Rightarrow> string world option" where
  "exportAsJson fac w rows =
     (case foldOption (exportAsJson_data fac) (w, []) rows of
        None \<Rightarrow> None
      | Some acc \<Rightarrow>
          Some ((fst acc)\<lparr>fsLog := fsLog (fst acc)
                  @ [WriteFile (basePath fac @ ''.json'')
                       (stringify fac (map (\<lambda>r. toJson (store (fst acc) r)) (snd acc)))]\<rparr>))"

text \<open>
  \<^verbatim>\<open>exportAsHtml\<close>: the callback sets the code (the empty string without the code
  selection) and pushes the row; at the end the rows are grouped and the template is
  applied.
\<close>

definition exportAsHtml_data ::
  "string ExportFactory \<Rightarrow> string world \<times> nat list \<Rightarrow> nat \<Rightarrow> (string world \<times> nat list) option" where
  "exportAsHtml_data fac acc r =
     (let row = store (fst acc) r
      in if includeCodeSelection fac
         then (case getCodeForFile0 fac (filename row) (lines row) of
                 None \<Rightarrow> None
               | Some c \<Rightarrow>
                   Some (\<lparr>store = (store (fst acc))(r := row\<lparr>code := Some c\<rparr>),
                          fsLog = fsLog (fst acc) @ codeReads0 fac row\<rparr>,
                         snd acc @ [r]))
         else Some ((fst acc)\<lparr>store := (store (fst acc))(r := row\<lparr>code := Some []\<rparr>)\<rparr>,
                    snd acc @ [r]))"

definition exportAsHtml :: "string ExportFactory \<Rightarrow> string world \<Rightarrow> nat list \<Rightarrow> string world option" where
  "exportAsHtml fac w rows =
     (case foldOption (exportAsHtml_data fac) (w, []) rows of
        None \<Rightarrow> None
      | Some acc \<Rightarrow>
          (let grouped = groupResults0 (store (fst acc)) (snd acc) (groupBy fac)
           in Some \<lparr>store = fst grouped,
                    fsLog = fsLog (fst acc)
                      @ [WriteFile (basePath fac @ ''.html'')
                           (template fac (sectionData (fst grouped) (snd grouped)))]\<rparr>))"

text \<open>
  The argument of \<^verbatim>\<open>template(reviewExportData)\<close> in \<^verbatim>\<open>exportAsHtml\<close>: the groups of
  the second file's \<^verbatim>\<open>groupResults\<close>, with their rows as it leaves them.
\<close>

definition templateInput0 ::
  "string ExportFactory \<Rightarrow> string store \<Rightarrow> nat list \<Rightarrow> (string \<times> string CsvEntry list) list" where
  "templateInput0 fac h rows =
     sectionData (fst (groupResults0 h rows (groupBy fac))) (snd (groupResults0 h rows (groupBy fac)))"

section \<open>A concrete workspace\<close>

text \<open>
  Modelled from the spec: line breaks of a free-text field are stored as an escape
  sequence that is reversed on reading. The sequence here is a backslash followed by
  \<^verbatim>\<open>n\<close>, for the line feed; the functions stand for \<^verbatim>\<open>escapeEndOfLineForCsv\<close> and
  \<^verbatim>\<open>unescapeEndOfLineFromCsv\<close>, which are not among the sources.
\<close>

fun escapeNewlines :: "string \<Rightarrow> string" where
  "escapeNewlines [] = []"
| "escapeNewlines (c # s) =
     (if c = CHR 0x0A then CHR 0x5C # CHR ''n'' # escapeNewlines s else c # escapeNewlines s)"

fun unescapeNewlines :: "string \<Rightarrow> string" where
  "unescapeNewlines (a # b # s) =
     (if a = CHR 0x5C \<and> b = CHR ''n'' then CHR 0x0A # unescapeNewlines s
      else a # unescapeNewlines (b # s))"
| "unescapeNewlines s = s"

text \<open>
  The readers of source code are not among the sources either. For the examples that
  read code they are readers of a source file of four lines, by whole lines (lines count
  from 1): \<open>exampleLines\<close> takes the first and the last line as the second file
  passes them, \<open>exampleRange\<close> takes a range token. In the example factory the
  encoding is the identity, the JSON text and the template print only the keys of
  the objects and the names of the groups, and of the properties that the array of the
  priorities has beside its elements only the length is there.
\<close>

definition exampleSource :: "string list" where
  "exampleSource = [''alpha'', ''beta'', ''gamma'', ''delta'']"

definition exampleLines :: "string \<Rightarrow> string \<Rightarrow> string \<Rightarrow> string" where
  "exampleLines file startLine endLine =
     joinStr [CHR 0x0A]
       (take (parseNat endLine + 1 - parseNat startLine) (drop (parseNat startLine - 1) exampleSource))"

definition exampleRange :: "string \<Rightarrow> string \<Rightarrow> string" where
  "exampleRange file rangeString =
     (case spanLines rangeString of
        None \<Rightarrow> []
      | Some (startLine, endLine) \<Rightarrow> exampleLines file startLine endLine)"

definition exampleFactory :: "'p ExportFactory" where
  "exampleFactory =
     \<lparr>groupBy = Group_filename,
      includeCodeSelection = False,
      priorities = [''none'', ''low'', ''medium'', ''high''],
      basePath = ''code-review'',
      EOL = [CHR 0x0A],
      unescapeEndOfLineFromCsv = unescapeNewlines,
      escapeEndOfLineForCsv = escapeNewlines,
      rangeContent = exampleRange,
      linesContent = exampleLines,
      encode = (\<lambda>s. s),
      stringify = (\<lambda>objs. concat (map (\<lambda>obj. concat (map fst obj)) objs)),
      template = (\<lambda>secs. concat (map fst secs)),
      arrayProperty = (\<lambda>name. if name = ''length'' then Some ''4'' else None)\<rparr>"

definition exampleRow :: "'p CsvEntry" where
  "exampleRow =
     \<lparr>sha = None, filename = ''a.ts'', url = None, lines = ''3:0-3:5|1:0-2:4'', title = None,
      comment = ''hi'', priority = None, category = None, additional = None, code = None\<rparr>"

text \<open>The store in which every address holds the same row.\<close>

definition storeOf :: "'p CsvEntry \<Rightarrow> 'p store" where
  "storeOf row = (\<lambda>r. row)"

text \<open>
  A store of two kinds of rows: the row at the address 2 has the category \<^verbatim>\<open>Bug\<close>, the
  row at every other address has none.
\<close>

definition exampleStore :: "'p store" where
  "exampleStore = (storeOf exampleRow)(2 := exampleRow\<lparr>category := Some ''Bug''\<rparr>)"

section \<open>Splitting and joining\<close>

lemma splitStr_nonempty: "splitStr c s \<noteq> []"
  by (induction s) (auto split: list.splits)

lemma splitStr_no_sep: "t \<in> set (splitStr c s) \<Longrightarrow> c \<notin> set t"
  by (induction s arbitrary: t) (auto split: if_splits list.splits)

lemma splitStr_plain: "c \<notin> set t \<Longrightarrow> splitStr c t = [t]"
  by (induction t) auto

lemma splitStr_append:
  "c \<notin> set t \<Longrightarrow> splitStr c (t @ c # s) = t # splitStr c s"
  by (induction t) auto

lemma splitStr_joinStr:
  "ts \<noteq> [] \<Longrightarrow> (\<And>t. t \<in> set ts \<Longrightarrow> c \<notin> set t) \<Longrightarrow> splitStr c (joinStr [c] ts) = ts"
proof (induction "[c]" ts rule: joinStr.induct)
  case 1
  then show ?case by simp
next
  case (2 t)
  then show ?case by (simp add: splitStr_plain)
next
  case (3 t u ts)
  have "c \<notin> set t" using 3 by simp
  moreover have "splitStr c (joinStr [c] (u # ts)) = u # ts" using 3 by simp
  ultimately show ?case by (simp add: splitStr_append)
qed

lemma sortLineSelections_sorted: "sorted (map startOf (sortLineSelections ts))"
  by (simp add: sortLineSelections_def)

lemma sortLineSelections_set: "set (sortLineSelections ts) = set ts"
  by (simp add: sortLineSelections_def)

lemma sortLineSelections_nonempty: "ts \<noteq> [] \<Longrightarrow> sortLineSelections ts \<noteq> []"
  by (metis sortLineSelections_set set_empty)

lemma sortLineSelections_idem: "sortLineSelections (sortLineSelections ts) = sortLineSelections ts"
  unfolding sortLineSelections_def by (rule sort_key_id_if_sorted) simp

lemma split_sorted_tokens:
  "splitStr CHR ''|'' (joinStr ''|'' (sortLineSelections (splitStr CHR ''|'' s)))
     = sortLineSelections (splitStr CHR ''|'' s)"
proof (rule splitStr_joinStr)
  show "sortLineSelections (splitStr CHR ''|'' s) \<noteq> []"
    by (simp add: sortLineSelections_nonempty splitStr_nonempty)
next
  fix t assume "t \<in> set (sortLineSelections (splitStr CHR ''|'' s))"
  then show "CHR ''|'' \<notin> set t"
    by (simp add: sortLineSelections_set splitStr_no_sep)
qed

lemma groupRow_idem: "groupRow (groupRow row) = groupRow row"
  by (cases "category row")
     (simp_all add: groupRow_def Let_def split_sorted_tokens sortLineSelections_idem)

section \<open>The store and the groups after groupResults\<close>

lemma groupResults_step_fst:
  "fst (groupResults_step g acc r) = (fst acc)(r := groupRow (fst acc r))"
  by (simp add: groupResults_step_def Let_def)

lemma foldl_groupResults_step_store:
  "fst (foldl (groupResults_step g) acc rows) =
     (\<lambda>r. if r \<in> set rows then groupRow (fst acc r) else fst acc r)"
proof (induction rows arbitrary: acc)
  case Nil
  then show ?case by simp
next
  case (Cons x xs)
  show ?case
    by (auto simp: Cons.IH groupResults_step_fst groupRow_idem fun_eq_iff)
qed

lemma groupResults_store:
  "fst (groupResults h rows g) = (\<lambda>r. if r \<in> set rows then groupRow (h r) else h r)"
  by (simp add: groupResults_def foldl_groupResults_step_store fun_eq_iff)

lemma flatten_pushToMatch:
  "\<exists>s \<in> set secs. group s = k \<Longrightarrow>
   mset (flatten (pushToMatch k r secs)) = mset (flatten secs) + {#r#}"
  by (induction secs) (auto simp: flatten_def)

lemma find_group_Some:
  "find (\<lambda>fileRef. group fileRef = k) secs = Some m \<Longrightarrow> \<exists>s \<in> set secs. group s = k"
  by (induction secs) (auto split: if_splits)

lemma flatten_addToGroups:
  "mset (flatten (addToGroups k r secs)) = mset (flatten secs) + {#r#}"
proof (cases "find (\<lambda>fileRef. group fileRef = k) secs")
  case None
  then show ?thesis by (simp add: addToGroups_def flatten_def)
next
  case (Some m)
  then show ?thesis
    by (simp add: addToGroups_def flatten_pushToMatch find_group_Some)
qed

lemma foldl_groupResults_step_flatten:
  "mset (flatten (snd (foldl (groupResults_step g) acc rows))) =
     mset (flatten (snd acc)) + mset rows"
proof (induction rows arbitrary: acc)
  case Nil
  then show ?case by simp
next
  case (Cons x xs)
  have "mset (flatten (snd (groupResults_step g acc x))) = mset (flatten (snd acc)) + {#x#}"
    by (simp add: groupResults_step_def Let_def flatten_addToGroups)
  then show ?case by (simp add: Cons.IH)
qed

lemma foldl_groupResults0_step_flatten:
  "mset (flatten (snd (foldl (groupResults0_step g) acc rows))) =
     mset (flatten (snd acc)) + mset rows"
proof (induction rows arbitrary: acc)
  case Nil
  then show ?case by simp
next
  case (Cons x xs)
  have "mset (flatten (snd (groupResults0_step g acc x))) = mset (flatten (snd acc)) + {#x#}"
    by (simp add: groupResults0_step_def Let_def flatten_addToGroups)
  then show ?case by (simp add: Cons.IH)
qed

lemma groupRow_lines:
  "lines (groupRow row) = joinStr ''|'' (sortLineSelections (splitStr CHR ''|'' (lines row)))"
  by (simp add: groupRow_def Let_def)

lemma reviewExportData_store:
  "fst (reviewExportData fac h rows) = fst (groupResults h rows (groupBy fac))"
  by (simp add: reviewExportData_def Let_def)

section \<open>The per-row transforms and the parts of the export\<close>

lemma csvTitle_rule:
  "csvTitle row =
     (if truthy (title row) then take 255 (render (title row))
      else if length (comment row) > 100 then take 100 (comment row) @ ''...''
      else comment row)"
  by (cases "title row") (simp_all add: csvTitle_def descShort_def)

lemma withCode_title_comment:
  "title (withCode fac row) = title row \<and> comment (withCode fac row) = comment row"
  by (simp add: withCode_def)

lemma withCode0_title_comment:
  "withCode0 fac row = Some row' \<Longrightarrow> title row' = title row \<and> comment row' = comment row"
  by (auto simp: withCode0_def split: if_splits option.splits)

lemma handleData_jira_held:
  "title (store (handleData_jira fac out w r) r) = title (store w r)
   \<and> comment (store (handleData_jira fac out w r) r)
       = escapeEndOfLineForCsv fac (comment (store w r))
   \<and> category (store (handleData_jira fac out w r) r) = category (store w r)"
  by (simp add: handleData_jira_def Let_def withCode_def)

lemma handleData_gitlab_log:
  "fsLog (handleData_gitlab fac out w r)
     = fsLog w @ codeReads fac (store w r)
       @ [AppendFile out
            (csvLine (EOL fac)
               [''[code review] '' @ csvTitle (store (handleData_gitlab fac out w r) r),
                markdownDescription (EOL fac)
                  (prioritySection fac (store (handleData_gitlab fac out w r) r))
                  (store (handleData_gitlab fac out w r) r)])]"
  by (simp add: handleData_gitlab_def Let_def codeReads_def)

lemma handleData_github_log:
  "fsLog (handleData_github fac out w r)
     = fsLog w @ codeReads fac (store w r)
       @ [AppendFile out
            (csvLine (EOL fac)
               [''[code review] '' @ csvTitle (store (handleData_github fac out w r) r),
                markdownDescription (EOL fac)
                  (prioritySection fac (store (handleData_github fac out w r) r))
                  (store (handleData_github fac out w r) r),
                ''code-review'', ''open'', []])]"
  by (simp add: handleData_github_def Let_def codeReads_def)

lemma handleData_jira_log:
  "fsLog (handleData_jira fac out w r)
     = fsLog w @ codeReads fac (store w r)
       @ [AppendFile out
            (csvLine (EOL fac)
               (jiraColumns (EOL fac)
                  (render (priorityName fac (priority (store (handleData_jira fac out w r) r))))
                  (store (handleData_jira fac out w r) r)))]"
  by (simp add: handleData_jira_def Let_def codeReads_def)

lemma jiraColumns_Cons:
  "jiraColumns eol p row = (''[code review] '' @ csvTitle row) # tl (jiraColumns eol p row)"
  by (simp add: jiraColumns_def)

lemma exportAsGitLabCsv_data_log:
  assumes "exportAsGitLabCsv_data fac out w r = Some w'"
  shows "fsLog w' = fsLog w @ codeReads0 fac (store w r)
           @ [AppendFile out
                (csvLine (EOL fac)
                   ((''[code review] '' @ csvTitle (store w r)) # [markdownDescription (EOL fac) (prioritySection0 fac (store w' r)) (store w' r)]))]"
proof -
  have "withCode0 fac (store w r) \<noteq> None"
    using assms by (cases "withCode0 fac (store w r)") (simp_all add: exportAsGitLabCsv_data_def)
  then obtain row where row: "withCode0 fac (store w r) = Some row"
    by blast
  have t: "csvTitle row = csvTitle (store w r)"
    using withCode0_title_comment [OF row] by (simp add: csvTitle_rule)
  have w': "w' = \<lparr>store = (store w)(r := row),
                fsLog = fsLog w @ codeReads0 fac (store w r)
                        @ [AppendFile out
                             (csvLine (EOL fac)
                                ((''[code review] '' @ csvTitle row) # [markdownDescription (EOL fac) (prioritySection0 fac row) row]))]\<rparr>"
    using assms row by (simp add: exportAsGitLabCsv_data_def)
  show ?thesis
    by (simp add: w' t)
qed

lemma exportAsGitHubCsv_data_log:
  assumes "exportAsGitHubCsv_data fac out w r = Some w'"
  shows "fsLog w' = fsLog w @ codeReads0 fac (store w r)
           @ [AppendFile out
                (csvLine (EOL fac)
                   ((''[code review] '' @ csvTitle (store w r)) # [markdownDescription (EOL fac) (prioritySection0 fac (store w' r)) (store w' r), ''code-review'', ''open'', []]))]"
proof -
  have "withCode0 fac (store w r) \<noteq> None"
    using assms by (cases "withCode0 fac (store w r)") (simp_all add: exportAsGitHubCsv_data_def)
  then obtain row where row: "withCode0 fac (store w r) = Some row"
    by blast
  have t: "csvTitle row = csvTitle (store w r)"
    using withCode0_title_comment [OF row] by (simp add: csvTitle_rule)
  have w': "w' = \<lparr>store = (store w)(r := row),
                fsLog = fsLog w @ codeReads0 fac (store w r)
                        @ [AppendFile out
                             (csvLine (EOL fac)
                                ((''[code review] '' @ csvTitle row) # [markdownDescription (EOL fac) (prioritySection0 fac row) row, ''code-review'', ''open'', []]))]\<rparr>"
    using assms row by (simp add: exportAsGitHubCsv_data_def)
  show ?thesis
    by (simp add: w' t)
qed

lemma exportAsJiraCsv_data_log:
  assumes "exportAsJiraCsv_data fac out w r = Some w'"
  shows "fsLog w' = fsLog w @ codeReads0 fac (store w r)
           @ [AppendFile out
                (csvLine (EOL fac)
                   ((''[code review] '' @ csvTitle (store w r)) # tl (jiraColumns (EOL fac) (showNat (jiraPriority0 (priority (store w' r)))) (store w' r))))]"
proof -
  have "withCode0 fac (store w r) \<noteq> None"
    using assms by (cases "withCode0 fac (store w r)") (simp_all add: exportAsJiraCsv_data_def)
  then obtain row where row: "withCode0 fac (store w r) = Some row"
    by blast
  have t: "csvTitle row = csvTitle (store w r)"
    using withCode0_title_comment [OF row] by (simp add: csvTitle_rule)
  have w': "w' = \<lparr>store = (store w)(r := row),
                fsLog = fsLog w @ codeReads0 fac (store w r)
                        @ [AppendFile out
                             (csvLine (EOL fac)
                                ((''[code review] '' @ csvTitle row) # tl (jiraColumns (EOL fac) (showNat (jiraPriority0 (priority row))) row)))]\<rparr>"
    using assms row by (simp add: exportAsJiraCsv_data_def jiraColumns_def)
  show ?thesis
    by (simp add: w' t)
qed

lemma handleData_store_other:
  "r' \<noteq> r \<Longrightarrow> store (handleData fac fmt out w r) r' = store w r'"
  by (cases fmt)
     (simp_all add: handleData_html_def handleData_gitlab_def handleData_github_def
        handleData_jira_def handleData_json_def Let_def)

lemma handleData_comment:
  "comment (store (handleData fac fmt out w r) r)
     = (if storeOutside fmt then comment (store w r)
        else escapeEndOfLineForCsv fac (comment (store w r)))"
  by (cases fmt)
     (simp_all add: handleData_html_def handleData_gitlab_def handleData_github_def
        handleData_jira_def handleData_json_def Let_def withCode_def)

lemma onData_store_other:
  "r' \<noteq> r \<Longrightarrow> store (fst (onData fac fmt out acc r)) r' = store (fst acc) r'"
  by (simp add: onData_def Let_def handleData_store_other unescapeRow_def)

lemma onData_comment:
  "comment (store (fst (onData fac fmt out acc r)) r)
     = (if storeOutside fmt then unescapeEndOfLineFromCsv fac (comment (store (fst acc) r))
        else escapeEndOfLineForCsv fac (unescapeEndOfLineFromCsv fac (comment (store (fst acc) r))))"
  by (simp add: onData_def Let_def handleData_comment unescapeRow_def)

lemma foldl_onData_store_other:
  "r \<notin> set rows \<Longrightarrow> store (fst (foldl (onData fac fmt out) acc rows)) r = store (fst acc) r"
  by (induction rows arbitrary: acc) (simp_all add: onData_store_other)

lemma foldl_onData_comment:
  "distinct rows \<Longrightarrow> r \<in> set rows \<Longrightarrow>
   comment (store (fst (foldl (onData fac fmt out) acc rows)) r)
     = (if storeOutside fmt then unescapeEndOfLineFromCsv fac (comment (store (fst acc) r))
        else escapeEndOfLineForCsv fac (unescapeEndOfLineFromCsv fac (comment (store (fst acc) r))))"
proof (induction rows arbitrary: acc)
  case Nil
  then show ?case by simp
next
  case (Cons x xs)
  show ?case
  proof (cases "r = x")
    case True
    then have "r \<notin> set xs" using Cons.prems by simp
    then show ?thesis
      using True by (simp add: foldl_onData_store_other onData_comment)
  next
    case False
    then have "r \<in> set xs" "distinct xs" using Cons.prems by simp_all
    then show ?thesis
      using False Cons.IH [of "onData fac fmt out acc x"] by (simp add: onData_store_other)
  qed
qed

lemma foldl_onData_data:
  "snd (foldl (onData fac fmt out) acc rows)
     = (if storeOutside fmt then snd acc @ rows else snd acc)"
  by (induction rows arbitrary: acc) (simp_all add: onData_def Let_def)

lemma groupRow_comment: "comment (groupRow row) = comment row"
  by (simp add: groupRow_def Let_def)

lemma groupResults_comment: "comment (fst (groupResults h rows g) r) = comment (h r)"
  by (simp add: groupResults_store groupRow_comment)

lemma handleEnd_comment:
  "comment (store (handleEnd fac fmt out w rows) r) = comment (store w r)"
  by (cases fmt) (simp_all add: Let_def reviewExportData_store groupResults_comment)






lemma handleData_category:
  "category (store (handleData fac fmt out w r) r') = category (store w r')"
  by (cases fmt)
     (simp_all add: handleData_html_def handleData_gitlab_def handleData_github_def
        handleData_jira_def handleData_json_def Let_def withCode_def)

lemma onData_category:
  "category (store (fst (onData fac fmt out acc r)) r') = category (store (fst acc) r')"
  by (simp add: onData_def Let_def handleData_category unescapeRow_def)

lemma foldl_onData_category:
  "category (store (fst (foldl (onData fac fmt out) acc rows)) r) = category (store (fst acc) r)"
  by (induction rows arbitrary: acc) (simp_all add: onData_category)

lemma groupRow_category: "category (groupRow row) = Some (orElse (category row) ''Other'')"
  by (simp add: groupRow_def Let_def)

lemma groupResults_category:
  "category (fst (groupResults h rows g) r)
     = (if r \<in> set rows then Some (orElse (category (h r)) ''Other'') else category (h r))"
  by (simp add: groupResults_store groupRow_category)

lemma orElse_orElse: "orElse (Some (orElse c d)) d = orElse c d"
  by (cases c) simp_all

lemma groupResults0_step_category:
  "category (fst (groupResults0_step g acc x) r)
     = (if r = x then Some (orElse (category (fst acc r)) ''Other'')
        else category (fst acc r))"
  by (simp add: groupResults0_step_def Let_def groupRow0_def)

lemma foldl_groupResults0_step_category:
  "category (fst (foldl (groupResults0_step g) acc rows) r)
     = (if r \<in> set rows then Some (orElse (category (fst acc r)) ''Other'')
        else category (fst acc r))"
proof (induction rows arbitrary: acc)
  case Nil
  then show ?case by simp
next
  case (Cons x xs)
  show ?case
  proof (cases "r = x")
    case True
    then show ?thesis
      using Cons.IH [of "groupResults0_step g acc x"]
      by (simp add: groupResults0_step_category orElse_orElse del: orElse.simps)
  next
    case False
    then show ?thesis
      using Cons.IH [of "groupResults0_step g acc x"]
      by (simp add: groupResults0_step_category del: orElse.simps)
  qed
qed

lemma groupResults0_category:
  "category (fst (groupResults0 h rows g) r)
     = (if r \<in> set rows then Some (orElse (category (h r)) ''Other'') else category (h r))"
  by (simp add: groupResults0_def foldl_groupResults0_step_category)

lemma handleEnd_category:
  "category (store (handleEnd fac fmt out w rows) r)
     = (if fmt = Html \<and> r \<in> set rows then Some (orElse (category (store w r)) ''Other'')
        else category (store w r))"
  by (cases fmt) (simp_all add: Let_def reviewExportData_store groupResults_category)

lemma exportForFormat_category:
  "category (store (exportForFormat fac fmt w rows) r)
     = (if fmt = Html \<and> r \<in> set rows then Some (orElse (category (store w r)) ''Other'')
        else category (store w r))"
  by (simp add: exportForFormat_def Let_def handleEnd_category foldl_onData_category
      foldl_onData_data)

lemma toJson_category:
  "(''category'', v) \<in> set (toJson row) \<longleftrightarrow> (\<exists>c. category row = Some c \<and> v = JText c)"
  by (auto simp: toJson_def jsonKey_def split: option.splits)

lemma markdownDescription_category:
  "markdownDescription eol ps row
     = ps
       @ (if truthy (category row) then ''## Category'' @ eol @ render (category row) @ eol @ eol
          else [])
       @ markdownDescription eol [] (row\<lparr>category := None\<rparr>)"
  by (simp add: markdownDescription_def Let_def)

lemma withCode0_priority:
  "withCode0 fac row = Some row' \<Longrightarrow> priority row' = priority row"
  by (auto simp: withCode0_def split: if_splits option.splits)

lemma exportAsJiraCsv_data_line:
  assumes "exportAsJiraCsv_data fac out w r = Some w'"
  shows "fsLog w' = fsLog w @ codeReads0 fac (store w r)
           @ [AppendFile out
                (csvLine (EOL fac)
                   (jiraColumns (EOL fac) (showNat (jiraPriority0 (priority (store w r))))
                      (store w' r)))]"
proof -
  have "withCode0 fac (store w r) \<noteq> None"
    using assms by (cases "withCode0 fac (store w r)") (simp_all add: exportAsJiraCsv_data_def)
  then obtain row where row: "withCode0 fac (store w r) = Some row"
    by blast
  have p: "priority row = priority (store w r)"
    using withCode0_priority [OF row] .
  have w': "w' = \<lparr>store = (store w)(r := row),
                fsLog = fsLog w @ codeReads0 fac (store w r)
                        @ [AppendFile out
                             (csvLine (EOL fac)
                                (jiraColumns (EOL fac) (showNat (jiraPriority0 (priority row))) row))]\<rparr>"
    using assms row by (simp add: exportAsJiraCsv_data_def)
  show ?thesis
    by (simp add: w' p)
qed

lemma handleData_jira_line:
  "fsLog (handleData fac Jira out w r)
     = fsLog w @ codeReads fac (store w r)
       @ [AppendFile out
            (csvLine (EOL fac)
               (jiraColumns (EOL fac) (render (priorityName fac (priority (store w r))))
                  (store (handleData fac Jira out w r) r)))]"
  by (simp add: handleData_jira_def Let_def codeReads_def withCode_def)

lemma exportForFormat_parts:
  "exportForFormat fac fmt w rows
     = handleEnd fac fmt (outputFileOf fac fmt) (fst (rowsParsed fac fmt w rows))
         (if storeOutside fmt then snd (rowsParsed fac fmt w rows) else rows)"
  by (simp add: exportForFormat_def rowsParsed_def outputFileOf_def Let_def)

lemma rowsParsed_snoc:
  "rowsParsed fac fmt w (pre @ [r]) = onData fac fmt (outputFileOf fac fmt) (rowsParsed fac fmt w pre) r"
  by (simp add: rowsParsed_def)

lemma rowsParsed_data:
  "snd (rowsParsed fac fmt w rows) = (if storeOutside fmt then rows else [])"
  by (simp add: rowsParsed_def foldl_onData_data)

lemma rowsParsed_store_other:
  "r \<notin> set rows \<Longrightarrow> store (fst (rowsParsed fac fmt w rows)) r = store w r"
  by (simp add: rowsParsed_def foldl_onData_store_other)

lemma rowsParsed_comment:
  "distinct rows \<Longrightarrow> r \<in> set rows \<Longrightarrow>
   comment (store (fst (rowsParsed fac fmt w rows)) r)
     = (if storeOutside fmt then unescapeEndOfLineFromCsv fac (comment (store w r))
        else escapeEndOfLineForCsv fac (unescapeEndOfLineFromCsv fac (comment (store w r))))"
  by (simp add: rowsParsed_def foldl_onData_comment)

lemma rowsParsed_category:
  "category (store (fst (rowsParsed fac fmt w rows)) r) = category (store w r)"
  by (simp add: rowsParsed_def foldl_onData_category)

lemma exportForFormat_html_log:
  "fsLog (exportForFormat fac Html w rows)
     = fsLog (fst (rowsParsed fac Html w rows))
       @ [WriteFile (outputFileOf fac Html)
            (template fac (templateInput fac (store (fst (rowsParsed fac Html w rows))) rows))]"
  by (simp add: exportForFormat_parts rowsParsed_data templateInput_def Let_def)

lemma exportForFormat_json_log':
  "fsLog (exportForFormat fac Json w rows)
     = fsLog (fst (rowsParsed fac Json w rows))
       @ [WriteFile (outputFileOf fac Json)
            (stringify fac (map (\<lambda>r. toJson (store (fst (rowsParsed fac Json w rows)) r)) rows))]"
  by (simp add: exportForFormat_parts rowsParsed_data)

lemma flatten_sortGroup:
  "mset (flatten (map (sortGroup h) secs)) = mset (flatten secs)"
  by (induction secs) (simp_all add: flatten_def sortGroup_def)

lemma reviewExportData_flatten:
  "mset (flatten (snd (reviewExportData fac h rows))) = mset rows"
proof -
  have g: "mset (flatten (snd (groupResults h rows k))) = mset rows" for k
    using foldl_groupResults_step_flatten [of k "(h, [])" rows]
    by (simp add: groupResults_def flatten_def)
  show ?thesis
    by (simp add: reviewExportData_def Let_def flatten_sortGroup g)
qed

lemma sectionData_rows:
  "concat (map snd (sectionData h secs)) = map h (flatten secs)"
  by (induction secs) (simp_all add: sectionData_def flatten_def)

lemma templateInput_rows:
  "mset (concat (map snd (templateInput fac h rows)))
     = image_mset (fst (groupResults h rows (groupBy fac))) (mset rows)"
proof -
  have "mset (map (fst (reviewExportData fac h rows)) (flatten (snd (reviewExportData fac h rows))))
          = image_mset (fst (reviewExportData fac h rows)) (mset (flatten (snd (reviewExportData fac h rows))))"
    by simp
  then show ?thesis
    by (simp only: templateInput_def sectionData_rows reviewExportData_flatten reviewExportData_store)
qed

lemma templateInput0_rows:
  "mset (concat (map snd (templateInput0 fac h rows)))
     = image_mset (fst (groupResults0 h rows (groupBy fac))) (mset rows)"
proof -
  have f: "mset (flatten (snd (groupResults0 h rows (groupBy fac)))) = mset rows"
    using foldl_groupResults0_step_flatten [of "groupBy fac" "(h, [])" rows]
    by (simp add: groupResults0_def flatten_def)
  have "mset (map (fst (groupResults0 h rows (groupBy fac))) (flatten (snd (groupResults0 h rows (groupBy fac)))))
          = image_mset (fst (groupResults0 h rows (groupBy fac))) (mset (flatten (snd (groupResults0 h rows (groupBy fac)))))"
    by simp
  then show ?thesis
    by (simp only: templateInput0_def sectionData_rows f)
qed

section \<open>C1: the range tokens of a row after grouping\<close>

text \<open>
  C1 (as the code has it). \<^verbatim>\<open>groupResults\<close> of \<^verbatim>\<open>src/export-factory.ts\<close> re-sorts
  the range tokens of every row it groups, for every grouping key: after grouping, the
  \<open>lines\<close> of a grouped row are its former tokens, joined again, in ascending order of
  (start line, start column), a reordering of the same tokens. The test
  \<^verbatim>\<open>this.groupBy === Group.filename\<close> of the HTML \<^verbatim>\<open>handleEnd\<close> guards the order of the
  rows inside a group, and leaves the rows themselves as \<^verbatim>\<open>groupResults\<close> made them.
\<close>

theorem groupResults_sorts_tokens_for_every_key:
  assumes "r \<in> set rows"
  shows "lines (fst (groupResults h rows g) r)
           = joinStr ''|'' (sortLineSelections (splitStr CHR ''|'' (lines (h r))))
       \<and> splitStr CHR ''|'' (lines (fst (groupResults h rows g) r))
           = sortLineSelections (splitStr CHR ''|'' (lines (h r)))
       \<and> sorted (map startOf (splitStr CHR ''|'' (lines (fst (groupResults h rows g) r))))
       \<and> mset (splitStr CHR ''|'' (lines (fst (groupResults h rows g) r)))
           = mset (splitStr CHR ''|'' (lines (h r)))
       \<and> fst (reviewExportData fac h rows) r = fst (groupResults h rows (groupBy fac)) r"
proof -
  have l: "lines (fst (groupResults h rows g) r)
             = joinStr ''|'' (sortLineSelections (splitStr CHR ''|'' (lines (h r))))"
    using assms by (simp add: groupResults_store groupRow_lines)
  have s: "splitStr CHR ''|'' (lines (fst (groupResults h rows g) r))
             = sortLineSelections (splitStr CHR ''|'' (lines (h r)))"
    by (simp add: l split_sorted_tokens)
  have m: "mset (sortLineSelections (splitStr CHR ''|'' (lines (h r))))
             = mset (splitStr CHR ''|'' (lines (h r)))"
    by (simp add: sortLineSelections_def)
  show ?thesis
    using l s m by (simp add: sortLineSelections_sorted reviewExportData_store)
qed

theorem groupResults_sorts_tokens_for_every_key_witness:
  "(0::nat) \<in> set [0]
   \<and> lines (fst (groupResults (\<lambda>r. exampleRow :: priorityValue CsvEntry) [0] Group_category) 0)
       = ''1:0-2:4|3:0-3:5''
   \<and> lines (fst (groupResults (\<lambda>r. exampleRow :: priorityValue CsvEntry) [0] Group_filename) 0)
       = ''1:0-2:4|3:0-3:5''"
proof -
  have m: "(0::nat) \<in> set [0]" by simp
  have t: "joinStr ''|'' (sortLineSelections (splitStr CHR ''|'' (lines (exampleRow :: priorityValue CsvEntry))))
             = ''1:0-2:4|3:0-3:5''"
    by (simp add: exampleRow_def sortLineSelections_def startOf_def parseNat_def isDigit_def)
  show ?thesis
    using groupResults_sorts_tokens_for_every_key [OF m, of "\<lambda>r. exampleRow :: priorityValue CsvEntry" Group_category]
          groupResults_sorts_tokens_for_every_key [OF m, of "\<lambda>r. exampleRow :: priorityValue CsvEntry" Group_filename]
          t
    by simp
qed

text \<open>
  C1 as the spec states it fails: grouping by \<^verbatim>\<open>category\<close> a row whose tokens are out
  of order, \<^verbatim>\<open>3:0-3:5|1:0-2:4\<close>, puts them in order, in \<^verbatim>\<open>groupResults\<close> and so in
  what the HTML \<^verbatim>\<open>handleEnd\<close> hands to the template.
\<close>

theorem tokens_sorted_when_grouping_by_category:
  "lines (exampleRow :: priorityValue CsvEntry) = ''3:0-3:5|1:0-2:4''
   \<and> lines (fst (groupResults (storeOf (exampleRow :: priorityValue CsvEntry)) [0] Group_category) 0)
       = ''1:0-2:4|3:0-3:5''
   \<and> lines (fst (reviewExportData (exampleFactory\<lparr>groupBy := Group_category\<rparr>)
                  (storeOf (exampleRow :: priorityValue CsvEntry)) [0]) 0)
       = ''1:0-2:4|3:0-3:5''"
  by (simp add: storeOf_def reviewExportData_def groupResults_def groupResults_step_def groupRow_def
      exampleRow_def exampleFactory_def sortLineSelections_def startOf_def parseNat_def isDigit_def)

section \<open>C2: grouping keeps every row once\<close>

text \<open>
  C2. For every store, every sequence of rows and every grouping key (\<^verbatim>\<open>filename\<close>
  among them), in both source files: the rows of the groups that \<^verbatim>\<open>groupResults\<close>
  returns, concatenated in group order, are the given rows as a multiset. The rows are
  the same objects; \<^verbatim>\<open>groupResults\<close> updates their fields in place.
\<close>

theorem groupResults_keeps_every_row:
  "mset (flatten (snd (groupResults h rows g))) = mset rows
   \<and> mset (flatten (snd (groupResults0 h0 rows g))) = mset rows"
  using foldl_groupResults_step_flatten [of g "(h, [])" rows]
        foldl_groupResults0_step_flatten [of g "(h0, [])" rows]
  by (simp add: groupResults_def groupResults0_def flatten_def)

theorem groupResults_keeps_every_row_witness:
  "mset (flatten (snd (groupResults
       (\<lambda>r. (exampleRow :: priorityValue CsvEntry)\<lparr>filename := (if r = 1 then ''b.ts'' else ''a.ts'')\<rparr>)
       [0, 1, 2] Group_filename))) = {#0, 1, 2#}
   \<and> snd (groupResults
       (\<lambda>r. (exampleRow :: priorityValue CsvEntry)\<lparr>filename := (if r = 1 then ''b.ts'' else ''a.ts'')\<rparr>)
       [0, 1, 2] Group_filename)
      = [\<lparr>group = ''a.ts'', lines = [0, 2]\<rparr>, \<lparr>group = ''b.ts'', lines = [1]\<rparr>]"
proof -
  have "snd (groupResults
       (\<lambda>r. (exampleRow :: priorityValue CsvEntry)\<lparr>filename := (if r = 1 then ''b.ts'' else ''a.ts'')\<rparr>)
       [0, 1, 2] Group_filename)
      = [\<lparr>group = ''a.ts'', lines = [0, 2]\<rparr>, \<lparr>group = ''b.ts'', lines = [1]\<rparr>]"
    by (simp add: groupResults_def groupResults_step_def groupRow_def addToGroups_def
        exampleRow_def Let_def)
  then show ?thesis
    using groupResults_keeps_every_row
      [of "\<lambda>r. (exampleRow :: priorityValue CsvEntry)\<lparr>filename := (if r = 1 then ''b.ts'' else ''a.ts'')\<rparr>"
          "[0, 1, 2]" Group_filename]
    by simp
qed

section \<open>C3: the title of a CSV line\<close>

lemma csvTitle_same:
  "title a = title b \<Longrightarrow> comment a = comment b \<Longrightarrow> csvTitle a = csvTitle b"
  by (simp add: csvTitle_rule)

lemma csvTitle_withCode: "csvTitle (withCode fac row) = csvTitle row"
  by (rule csvTitle_same) (simp_all add: withCode_def)

lemma withCode0_None:
  "(withCode0 fac row = None)
     = (includeCodeSelection fac \<and> getCodeForFile0 fac (filename row) (lines row) = None)"
  by (simp add: withCode0_def split: option.splits)

lemma handleData_gitlab_written:
  "fsLog (handleData fac Gitlab out w r)
     = fsLog w @ codeReads fac (store w r)
       @ [AppendFile out
            (csvLine (EOL fac)
               [''[code review] ''
                  @ csvTitle ((store w r)\<lparr>comment := escapeEndOfLineForCsv fac (comment (store w r))\<rparr>),
                markdownDescription (EOL fac)
                  (prioritySection fac (store (handleData fac Gitlab out w r) r))
                  (store (handleData fac Gitlab out w r) r)])]"
  by (simp add: handleData_gitlab_def Let_def codeReads_def csvTitle_withCode)

lemma handleData_github_written:
  "fsLog (handleData fac Github out w r)
     = fsLog w @ codeReads fac (store w r)
       @ [AppendFile out
            (csvLine (EOL fac)
               [''[code review] ''
                  @ csvTitle ((store w r)\<lparr>comment := escapeEndOfLineForCsv fac (comment (store w r))\<rparr>),
                markdownDescription (EOL fac)
                  (prioritySection fac (store (handleData fac Github out w r) r))
                  (store (handleData fac Github out w r) r),
                ''code-review'', ''open'', []])]"
  by (simp add: handleData_github_def Let_def codeReads_def csvTitle_withCode)

lemma handleData_jira_written:
  "fsLog (handleData fac Jira out w r)
     = fsLog w @ codeReads fac (store w r)
       @ [AppendFile out
            (csvLine (EOL fac)
               ((''[code review] ''
                   @ csvTitle ((store w r)\<lparr>comment := escapeEndOfLineForCsv fac (comment (store w r))\<rparr>))
                # tl (jiraColumns (EOL fac)
                        (render (priorityName fac (priority (store w r))))
                        (store (handleData fac Jira out w r) r))))]"
proof -
  have t: "csvTitle (store (handleData fac Jira out w r) r)
             = csvTitle ((store w r)\<lparr>comment := escapeEndOfLineForCsv fac (comment (store w r))\<rparr>)"
    using handleData_jira_held [of fac out w r] by (intro csvTitle_same) simp_all
  have p: "priority (store (handleData fac Jira out w r) r) = priority (store w r)"
    by (simp add: handleData_jira_def Let_def withCode_def)
  have "fsLog (handleData fac Jira out w r)
     = fsLog w @ codeReads fac (store w r)
       @ [AppendFile out
            (csvLine (EOL fac)
               (jiraColumns (EOL fac)
                  (render (priorityName fac (priority (store (handleData fac Jira out w r) r))))
                  (store (handleData fac Jira out w r) r)))]"
    using handleData_jira_log [of fac out w r] by simp
  then show ?thesis
    by (subst (asm) jiraColumns_Cons) (simp only: t p)
qed

lemma exportAsGitLabCsv_data_written:
  "map_option fsLog (exportAsGitLabCsv_data fac out w r)
     = map_option
         (\<lambda>row'. fsLog w @ codeReads0 fac (store w r)
            @ [AppendFile out
                 (csvLine (EOL fac)
                    [''[code review] '' @ csvTitle (store w r),
                     markdownDescription (EOL fac) (prioritySection0 fac row') row'])])
         (withCode0 fac (store w r))"
proof (cases "withCode0 fac (store w r)")
  case None
  then show ?thesis by (simp add: exportAsGitLabCsv_data_def)
next
  case (Some row)
  have "csvTitle row = csvTitle (store w r)"
    using withCode0_title_comment [OF Some] by (simp add: csvTitle_rule)
  then show ?thesis
    using Some by (simp add: exportAsGitLabCsv_data_def)
qed

lemma exportAsGitHubCsv_data_written:
  "map_option fsLog (exportAsGitHubCsv_data fac out w r)
     = map_option
         (\<lambda>row'. fsLog w @ codeReads0 fac (store w r)
            @ [AppendFile out
                 (csvLine (EOL fac)
                    [''[code review] '' @ csvTitle (store w r),
                     markdownDescription (EOL fac) (prioritySection0 fac row') row',
                     ''code-review'', ''open'', []])])
         (withCode0 fac (store w r))"
proof (cases "withCode0 fac (store w r)")
  case None
  then show ?thesis by (simp add: exportAsGitHubCsv_data_def)
next
  case (Some row)
  have "csvTitle row = csvTitle (store w r)"
    using withCode0_title_comment [OF Some] by (simp add: csvTitle_rule)
  then show ?thesis
    using Some by (simp add: exportAsGitHubCsv_data_def)
qed

lemma exportAsJiraCsv_data_written:
  "map_option fsLog (exportAsJiraCsv_data fac out w r)
     = map_option
         (\<lambda>row'. fsLog w @ codeReads0 fac (store w r)
            @ [AppendFile out
                 (csvLine (EOL fac)
                    ((''[code review] '' @ csvTitle (store w r))
                     # tl (jiraColumns (EOL fac) (showNat (jiraPriority0 (priority row'))) row')))])
         (withCode0 fac (store w r))"
proof (cases "withCode0 fac (store w r)")
  case None
  then show ?thesis by (simp add: exportAsJiraCsv_data_def)
next
  case (Some row)
  have "csvTitle row = csvTitle (store w r)"
    using withCode0_title_comment [OF Some] by (simp add: csvTitle_rule)
  then show ?thesis
    using Some by (simp add: exportAsJiraCsv_data_def jiraColumns_def)
qed

lemma escapeNewlines_append:
  "escapeNewlines (a @ b) = escapeNewlines a @ escapeNewlines b"
  by (induction a) simp_all

lemma escapeNewlines_replicate:
  "c \<noteq> CHR 0x0A \<Longrightarrow> escapeNewlines (replicate n c) = replicate n c"
  by (induction n) simp_all

lemma unescapeNewlines_plain:
  "CHR 0x5C \<notin> set s \<Longrightarrow> unescapeNewlines s = s"
  by (induction s rule: unescapeNewlines.induct) auto

text \<open>
  C3 (as the code has it). \<open>csvTitle\<close> is the title rule on the row a renderer
  holds: with a non-empty \<open>title\<close> the title cut to 255 characters; without one and
  with a \<open>comment\<close> of more than 100 characters the first 100 characters of the comment
  and \<^verbatim>\<open>...\<close>, 103 characters; otherwise the comment. The three callbacks of the
  second file apply it to the parsed row, and write their line whenever reading the code
  does not throw. The three \<^verbatim>\<open>handleData\<close> of \<^verbatim>\<open>src/export-factory.ts\<close> apply it
  to the row they are given with its comment passed through
  \<^verbatim>\<open>escapeEndOfLineForCsv\<close>: a line break counts with the length of its escape
  sequence.
\<close>

theorem csv_title_from_written_comment:
  fixes fac :: "priorityValue ExportFactory" and fac0 :: "string ExportFactory"
    and row :: "'p CsvEntry" and row0 :: "string CsvEntry"
  shows
    "(truthy (title row) \<longrightarrow>
        csvTitle row = take 255 (render (title row)) \<and> length (csvTitle row) \<le> 255)
   \<and> (\<not> truthy (title row) \<and> length (comment row) > 100 \<longrightarrow>
        csvTitle row = take 100 (comment row) @ ''...'' \<and> length (csvTitle row) = 103)
   \<and> (\<not> truthy (title row) \<and> length (comment row) \<le> 100 \<longrightarrow> csvTitle row = comment row)
   \<and> fsLog (handleData fac Gitlab out w r)
       = fsLog w @ codeReads fac (store w r)
         @ [AppendFile out
              (csvLine (EOL fac)
                 [''[code review] ''
                    @ csvTitle ((store w r)\<lparr>comment := escapeEndOfLineForCsv fac (comment (store w r))\<rparr>),
                  markdownDescription (EOL fac)
                    (prioritySection fac (store (handleData fac Gitlab out w r) r))
                    (store (handleData fac Gitlab out w r) r)])]
   \<and> fsLog (handleData fac Github out w r)
       = fsLog w @ codeReads fac (store w r)
         @ [AppendFile out
              (csvLine (EOL fac)
                 [''[code review] ''
                    @ csvTitle ((store w r)\<lparr>comment := escapeEndOfLineForCsv fac (comment (store w r))\<rparr>),
                  markdownDescription (EOL fac)
                    (prioritySection fac (store (handleData fac Github out w r) r))
                    (store (handleData fac Github out w r) r),
                  ''code-review'', ''open'', []])]
   \<and> fsLog (handleData fac Jira out w r)
       = fsLog w @ codeReads fac (store w r)
         @ [AppendFile out
              (csvLine (EOL fac)
                 ((''[code review] ''
                     @ csvTitle ((store w r)\<lparr>comment := escapeEndOfLineForCsv fac (comment (store w r))\<rparr>))
                  # tl (jiraColumns (EOL fac)
                          (render (priorityName fac (priority (store w r))))
                          (store (handleData fac Jira out w r) r))))]
   \<and> (withCode0 fac0 row0 = None)
       = (includeCodeSelection fac0 \<and> getCodeForFile0 fac0 (filename row0) (lines row0) = None)
   \<and> map_option fsLog (exportAsGitLabCsv_data fac0 out w0 r)
       = map_option
           (\<lambda>row'. fsLog w0 @ codeReads0 fac0 (store w0 r)
              @ [AppendFile out
                   (csvLine (EOL fac0)
                      [''[code review] '' @ csvTitle (store w0 r),
                       markdownDescription (EOL fac0) (prioritySection0 fac0 row') row'])])
           (withCode0 fac0 (store w0 r))
   \<and> map_option fsLog (exportAsGitHubCsv_data fac0 out w0 r)
       = map_option
           (\<lambda>row'. fsLog w0 @ codeReads0 fac0 (store w0 r)
              @ [AppendFile out
                   (csvLine (EOL fac0)
                      [''[code review] '' @ csvTitle (store w0 r),
                       markdownDescription (EOL fac0) (prioritySection0 fac0 row') row',
                       ''code-review'', ''open'', []])])
           (withCode0 fac0 (store w0 r))
   \<and> map_option fsLog (exportAsJiraCsv_data fac0 out w0 r)
       = map_option
           (\<lambda>row'. fsLog w0 @ codeReads0 fac0 (store w0 r)
              @ [AppendFile out
                   (csvLine (EOL fac0)
                      ((''[code review] '' @ csvTitle (store w0 r))
                       # tl (jiraColumns (EOL fac0) (showNat (jiraPriority0 (priority row'))) row')))])
           (withCode0 fac0 (store w0 r))"
proof -
  have a: "truthy (title row) \<longrightarrow>
        csvTitle row = take 255 (render (title row)) \<and> length (csvTitle row) \<le> 255"
    by (simp add: csvTitle_rule)
  have b: "\<not> truthy (title row) \<and> length (comment row) > 100 \<longrightarrow>
        csvTitle row = take 100 (comment row) @ ''...'' \<and> length (csvTitle row) = 103"
    by (simp add: csvTitle_rule)
  have c: "\<not> truthy (title row) \<and> length (comment row) \<le> 100 \<longrightarrow> csvTitle row = comment row"
    by (simp add: csvTitle_rule)
  note d = handleData_gitlab_written [of fac out w r]
  note e = handleData_github_written [of fac out w r]
  note f = handleData_jira_written [of fac out w r]
  note g = withCode0_None [of fac0 row0]
  note h = exportAsGitLabCsv_data_written [of fac0 out w0 r]
  note i = exportAsGitHubCsv_data_written [of fac0 out w0 r]
  note j = exportAsJiraCsv_data_written [of fac0 out w0 r]
  show ?thesis
    by (rule conjI [OF a conjI [OF b conjI [OF c conjI [OF d conjI [OF e conjI [OF f
          conjI [OF g conjI [OF h conjI [OF i j]]]]]]]]])
qed

theorem csv_title_from_written_comment_witness:
  "truthy (title ((exampleRow :: string CsvEntry)\<lparr>title := Some ''Fix''\<rparr>))
   \<and> csvTitle ((exampleRow :: string CsvEntry)\<lparr>title := Some ''Fix''\<rparr>) = ''Fix''
   \<and> \<not> truthy (title ((exampleRow :: string CsvEntry)\<lparr>comment := replicate 101 CHR ''x''\<rparr>))
   \<and> length (comment ((exampleRow :: string CsvEntry)\<lparr>comment := replicate 101 CHR ''x''\<rparr>)) > 100
   \<and> csvTitle ((exampleRow :: string CsvEntry)\<lparr>comment := replicate 101 CHR ''x''\<rparr>)
       = replicate 100 CHR ''x'' @ ''...''
   \<and> length (csvTitle ((exampleRow :: string CsvEntry)\<lparr>comment := replicate 101 CHR ''x''\<rparr>)) = 103
   \<and> \<not> truthy (title (exampleRow :: string CsvEntry))
   \<and> length (comment (exampleRow :: string CsvEntry)) \<le> 100
   \<and> csvTitle (exampleRow :: string CsvEntry) = ''hi''
   \<and> fsLog (handleData exampleFactory Gitlab ''o.csv''
         \<lparr>store = storeOf (exampleRow\<lparr>comment := replicate 99 CHR ''x'' @ [CHR 0x0A]\<rparr>),
          fsLog = []\<rparr> 0)
       = [AppendFile ''o.csv''
            (csvLine [CHR 0x0A]
               [''[code review] '' @ replicate 99 CHR ''x'' @ [CHR 0x5C] @ ''...'',
                ''## Affected'' @ [CHR 0x0A] @ ''a.ts'' @ [CHR 0x0A]
                @ ''- lines: 3:0-3:5|1:0-2:4'' @ [CHR 0x0A]
                @ ''## Comment'' @ [CHR 0x0A] @ replicate 99 CHR ''x'' @ [CHR 0x5C] @ ''n''
                @ [CHR 0x0A] @ [CHR 0x0A]])]
   \<and> fsLog (handleData exampleFactory Github ''o.csv''
         \<lparr>store = storeOf (exampleRow\<lparr>comment := replicate 99 CHR ''x'' @ [CHR 0x0A]\<rparr>),
          fsLog = []\<rparr> 0)
       = [AppendFile ''o.csv''
            (csvLine [CHR 0x0A]
               [''[code review] '' @ replicate 99 CHR ''x'' @ [CHR 0x5C] @ ''...'',
                ''## Affected'' @ [CHR 0x0A] @ ''a.ts'' @ [CHR 0x0A]
                @ ''- lines: 3:0-3:5|1:0-2:4'' @ [CHR 0x0A]
                @ ''## Comment'' @ [CHR 0x0A] @ replicate 99 CHR ''x'' @ [CHR 0x5C] @ ''n''
                @ [CHR 0x0A] @ [CHR 0x0A],
                ''code-review'', ''open'', []])]
   \<and> fsLog (handleData exampleFactory Jira ''o.csv''
         \<lparr>store = storeOf (exampleRow\<lparr>comment := replicate 99 CHR ''x'' @ [CHR 0x0A]\<rparr>),
          fsLog = []\<rparr> 0)
       = [AppendFile ''o.csv''
            (csvLine [CHR 0x0A]
               [''[code review] '' @ replicate 99 CHR ''x'' @ [CHR 0x5C] @ ''...'',
                ''h2. Affected'' @ [CHR 0x0A] @ ''a.ts'' @ [CHR 0x0A]
                @ ''* lines: 3:0-3:5|1:0-2:4'' @ [CHR 0x0A]
                @ ''h2. Category'' @ [CHR 0x0A] @ ''undefined'' @ [CHR 0x0A] @ [CHR 0x0A]
                @ ''h2. Comment'' @ [CHR 0x0A] @ replicate 99 CHR ''x'' @ [CHR 0x5C] @ ''n''
                @ [CHR 0x0A] @ [CHR 0x0A],
                ''undefined'', ''undefined'', ''a.ts'', ''undefined'', ''3:0-3:5|1:0-2:4'',
                ''undefined'', ''undefined'', replicate 99 CHR ''x'' @ [CHR 0x5C] @ ''n'',
                ''undefined''])]
   \<and> map_option fsLog (exportAsGitLabCsv_data exampleFactory ''o.csv''
         \<lparr>store = storeOf (exampleRow\<lparr>comment := replicate 101 CHR ''x''\<rparr>), fsLog = []\<rparr> 0)
       = Some [AppendFile ''o.csv''
            (csvLine [CHR 0x0A]
               [''[code review] '' @ replicate 100 CHR ''x'' @ ''...'',
                ''## Affected'' @ [CHR 0x0A] @ ''a.ts'' @ [CHR 0x0A]
                @ ''- lines: 3:0-3:5|1:0-2:4'' @ [CHR 0x0A]
                @ ''## Comment'' @ [CHR 0x0A] @ replicate 101 CHR ''x''
                @ [CHR 0x0A] @ [CHR 0x0A]])]
   \<and> map_option fsLog (exportAsGitHubCsv_data exampleFactory ''o.csv''
         \<lparr>store = storeOf (exampleRow\<lparr>comment := replicate 101 CHR ''x''\<rparr>), fsLog = []\<rparr> 0)
       = Some [AppendFile ''o.csv''
            (csvLine [CHR 0x0A]
               [''[code review] '' @ replicate 100 CHR ''x'' @ ''...'',
                ''## Affected'' @ [CHR 0x0A] @ ''a.ts'' @ [CHR 0x0A]
                @ ''- lines: 3:0-3:5|1:0-2:4'' @ [CHR 0x0A]
                @ ''## Comment'' @ [CHR 0x0A] @ replicate 101 CHR ''x''
                @ [CHR 0x0A] @ [CHR 0x0A],
                ''code-review'', ''open'', []])]
   \<and> map_option fsLog (exportAsJiraCsv_data exampleFactory ''o.csv''
         \<lparr>store = storeOf (exampleRow\<lparr>comment := replicate 101 CHR ''x''\<rparr>), fsLog = []\<rparr> 0)
       = Some [AppendFile ''o.csv''
            (csvLine [CHR 0x0A]
               [''[code review] '' @ replicate 100 CHR ''x'' @ ''...'',
                ''h2. Affected'' @ [CHR 0x0A] @ ''a.ts'' @ [CHR 0x0A]
                @ ''* lines: 3:0-3:5|1:0-2:4'' @ [CHR 0x0A]
                @ ''h2. Category'' @ [CHR 0x0A] @ ''undefined'' @ [CHR 0x0A] @ [CHR 0x0A]
                @ ''h2. Comment'' @ [CHR 0x0A] @ replicate 101 CHR ''x''
                @ [CHR 0x0A] @ [CHR 0x0A],
                ''3'', ''undefined'', ''a.ts'', ''undefined'', ''3:0-3:5|1:0-2:4'',
                ''undefined'', ''undefined'', replicate 101 CHR ''x'', ''undefined''])]"
proof -
  let ?T = "(exampleRow :: string CsvEntry)\<lparr>title := Some ''Fix''\<rparr>"
  let ?L = "(exampleRow :: string CsvEntry)\<lparr>comment := replicate 101 CHR ''x''\<rparr>"
  let ?B = "(exampleRow :: priorityValue CsvEntry)\<lparr>comment := replicate 99 CHR ''x'' @ [CHR 0x0A]\<rparr>"
  let ?E = "?B\<lparr>comment := replicate 99 CHR ''x'' @ [CHR 0x5C] @ ''n''\<rparr>"
  have t: "truthy (title ?T)"
    by (simp add: exampleRow_def)
  have l1: "\<not> truthy (title ?L)" and l2: "length (comment ?L) > 100"
    by (simp_all add: exampleRow_def)
  have s1: "\<not> truthy (title (exampleRow :: string CsvEntry))"
    and s2: "length (comment (exampleRow :: string CsvEntry)) \<le> 100"
    by (simp_all add: exampleRow_def)
  have e1: "\<not> truthy (title ?E)" and e2: "length (comment ?E) > 100"
    by (simp_all add: exampleRow_def)
  note t1 = csv_title_from_written_comment [where row = ?T]
  note t2 = csv_title_from_written_comment [where row = ?L]
  note t3 = csv_title_from_written_comment [where row = "exampleRow :: string CsvEntry"]
  note t4 = csv_title_from_written_comment
      [where row = ?E and fac = exampleFactory and out = "''o.csv''" and r = 0
         and w = "\<lparr>store = storeOf ?B, fsLog = []\<rparr>"
         and ?fac0.0 = exampleFactory and ?w0.0 = "\<lparr>store = storeOf ?L, fsLog = []\<rparr>"
         and ?row0.0 = ?L]
  have c1: "csvTitle ?T = ''Fix''"
    using t1 [THEN conjunct1, rule_format, OF t, THEN conjunct1] by (simp add: exampleRow_def)
  have c2: "csvTitle ?L = replicate 100 CHR ''x'' @ ''...''"
    using t2 [THEN conjunct2, THEN conjunct1, rule_format, OF conjI [OF l1 l2], THEN conjunct1]
    by (simp add: exampleRow_def)
  have c3: "length (csvTitle ?L) = 103"
    using t2 [THEN conjunct2, THEN conjunct1, rule_format, OF conjI [OF l1 l2], THEN conjunct2] .
  have c4: "csvTitle (exampleRow :: string CsvEntry) = ''hi''"
    using t3 [THEN conjunct2, THEN conjunct2, THEN conjunct1, rule_format, OF conjI [OF s1 s2]]
    by (simp add: exampleRow_def)
  have c5: "csvTitle ?E = replicate 99 CHR ''x'' @ [CHR 0x5C] @ ''...''"
    using t4 [THEN conjunct2, THEN conjunct1, rule_format, OF conjI [OF e1 e2], THEN conjunct1]
    by (simp add: exampleRow_def)
  have esc: "(store \<lparr>store = storeOf ?B, fsLog = []\<rparr> 0)
               \<lparr>comment := escapeEndOfLineForCsv (exampleFactory :: priorityValue ExportFactory)
                   (comment (store \<lparr>store = storeOf ?B, fsLog = []\<rparr> 0))\<rparr> = ?E"
    by (simp add: storeOf_def exampleFactory_def exampleRow_def escapeNewlines_append
        escapeNewlines_replicate)
  have nc: "withCode0 exampleFactory (store \<lparr>store = storeOf ?L, fsLog = []\<rparr> 0)
              = Some (?L\<lparr>code := None\<rparr>)"
    by (simp add: withCode0_def storeOf_def exampleFactory_def)
  have tl: "csvTitle (store \<lparr>store = storeOf ?L, fsLog = []\<rparr> 0) = replicate 100 CHR ''x'' @ ''...''"
    using c2 by (simp add: storeOf_def)
  have g1: "fsLog (handleData exampleFactory Gitlab ''o.csv'' \<lparr>store = storeOf ?B, fsLog = []\<rparr> 0)
       = [AppendFile ''o.csv''
            (csvLine [CHR 0x0A]
               [''[code review] '' @ replicate 99 CHR ''x'' @ [CHR 0x5C] @ ''...'',
                ''## Affected'' @ [CHR 0x0A] @ ''a.ts'' @ [CHR 0x0A]
                @ ''- lines: 3:0-3:5|1:0-2:4'' @ [CHR 0x0A]
                @ ''## Comment'' @ [CHR 0x0A] @ replicate 99 CHR ''x'' @ [CHR 0x5C] @ ''n''
                @ [CHR 0x0A] @ [CHR 0x0A]])]"
    unfolding t4 [THEN conjunct2, THEN conjunct2, THEN conjunct2, THEN conjunct1] esc c5
    by (simp add: handleData_gitlab_def Let_def withCode_def codeReads_def markdownDescription_def
        prioritySection_def storeOf_def exampleFactory_def exampleRow_def escapeNewlines_append
        escapeNewlines_replicate)
  have g2: "fsLog (handleData exampleFactory Github ''o.csv'' \<lparr>store = storeOf ?B, fsLog = []\<rparr> 0)
       = [AppendFile ''o.csv''
            (csvLine [CHR 0x0A]
               [''[code review] '' @ replicate 99 CHR ''x'' @ [CHR 0x5C] @ ''...'',
                ''## Affected'' @ [CHR 0x0A] @ ''a.ts'' @ [CHR 0x0A]
                @ ''- lines: 3:0-3:5|1:0-2:4'' @ [CHR 0x0A]
                @ ''## Comment'' @ [CHR 0x0A] @ replicate 99 CHR ''x'' @ [CHR 0x5C] @ ''n''
                @ [CHR 0x0A] @ [CHR 0x0A],
                ''code-review'', ''open'', []])]"
    unfolding t4 [THEN conjunct2, THEN conjunct2, THEN conjunct2, THEN conjunct2, THEN conjunct1]
      esc c5
    by (simp add: handleData_github_def Let_def withCode_def codeReads_def markdownDescription_def
        prioritySection_def storeOf_def exampleFactory_def exampleRow_def escapeNewlines_append
        escapeNewlines_replicate)
  have g3: "fsLog (handleData exampleFactory Jira ''o.csv'' \<lparr>store = storeOf ?B, fsLog = []\<rparr> 0)
       = [AppendFile ''o.csv''
            (csvLine [CHR 0x0A]
               [''[code review] '' @ replicate 99 CHR ''x'' @ [CHR 0x5C] @ ''...'',
                ''h2. Affected'' @ [CHR 0x0A] @ ''a.ts'' @ [CHR 0x0A]
                @ ''* lines: 3:0-3:5|1:0-2:4'' @ [CHR 0x0A]
                @ ''h2. Category'' @ [CHR 0x0A] @ ''undefined'' @ [CHR 0x0A] @ [CHR 0x0A]
                @ ''h2. Comment'' @ [CHR 0x0A] @ replicate 99 CHR ''x'' @ [CHR 0x5C] @ ''n''
                @ [CHR 0x0A] @ [CHR 0x0A],
                ''undefined'', ''undefined'', ''a.ts'', ''undefined'', ''3:0-3:5|1:0-2:4'',
                ''undefined'', ''undefined'', replicate 99 CHR ''x'' @ [CHR 0x5C] @ ''n'',
                ''undefined''])]"
    unfolding t4 [THEN conjunct2, THEN conjunct2, THEN conjunct2, THEN conjunct2, THEN conjunct2,
        THEN conjunct1] esc c5
    by (simp add: handleData_jira_def Let_def withCode_def codeReads_def jiraColumns_def
        jiraDescription_def priorityName_def storeOf_def exampleFactory_def exampleRow_def
        escapeNewlines_append escapeNewlines_replicate)
  have h1: "map_option fsLog (exportAsGitLabCsv_data exampleFactory ''o.csv''
         \<lparr>store = storeOf ?L, fsLog = []\<rparr> 0)
       = Some [AppendFile ''o.csv''
            (csvLine [CHR 0x0A]
               [''[code review] '' @ replicate 100 CHR ''x'' @ ''...'',
                ''## Affected'' @ [CHR 0x0A] @ ''a.ts'' @ [CHR 0x0A]
                @ ''- lines: 3:0-3:5|1:0-2:4'' @ [CHR 0x0A]
                @ ''## Comment'' @ [CHR 0x0A] @ replicate 101 CHR ''x''
                @ [CHR 0x0A] @ [CHR 0x0A]])]"
    unfolding t4 [THEN conjunct2, THEN conjunct2, THEN conjunct2, THEN conjunct2, THEN conjunct2,
        THEN conjunct2, THEN conjunct2, THEN conjunct1] nc tl
    by (simp add: codeReads0_def markdownDescription_def prioritySection0_def storeOf_def
        exampleFactory_def exampleRow_def)
  have h2: "map_option fsLog (exportAsGitHubCsv_data exampleFactory ''o.csv''
         \<lparr>store = storeOf ?L, fsLog = []\<rparr> 0)
       = Some [AppendFile ''o.csv''
            (csvLine [CHR 0x0A]
               [''[code review] '' @ replicate 100 CHR ''x'' @ ''...'',
                ''## Affected'' @ [CHR 0x0A] @ ''a.ts'' @ [CHR 0x0A]
                @ ''- lines: 3:0-3:5|1:0-2:4'' @ [CHR 0x0A]
                @ ''## Comment'' @ [CHR 0x0A] @ replicate 101 CHR ''x''
                @ [CHR 0x0A] @ [CHR 0x0A],
                ''code-review'', ''open'', []])]"
    unfolding t4 [THEN conjunct2, THEN conjunct2, THEN conjunct2, THEN conjunct2, THEN conjunct2,
        THEN conjunct2, THEN conjunct2, THEN conjunct2, THEN conjunct1] nc tl
    by (simp add: codeReads0_def markdownDescription_def prioritySection0_def storeOf_def
        exampleFactory_def exampleRow_def)
  have h3: "map_option fsLog (exportAsJiraCsv_data exampleFactory ''o.csv''
         \<lparr>store = storeOf ?L, fsLog = []\<rparr> 0)
       = Some [AppendFile ''o.csv''
            (csvLine [CHR 0x0A]
               [''[code review] '' @ replicate 100 CHR ''x'' @ ''...'',
                ''h2. Affected'' @ [CHR 0x0A] @ ''a.ts'' @ [CHR 0x0A]
                @ ''* lines: 3:0-3:5|1:0-2:4'' @ [CHR 0x0A]
                @ ''h2. Category'' @ [CHR 0x0A] @ ''undefined'' @ [CHR 0x0A] @ [CHR 0x0A]
                @ ''h2. Comment'' @ [CHR 0x0A] @ replicate 101 CHR ''x''
                @ [CHR 0x0A] @ [CHR 0x0A],
                ''3'', ''undefined'', ''a.ts'', ''undefined'', ''3:0-3:5|1:0-2:4'',
                ''undefined'', ''undefined'', replicate 101 CHR ''x'', ''undefined''])]"
    unfolding t4 [THEN conjunct2, THEN conjunct2, THEN conjunct2, THEN conjunct2, THEN conjunct2,
        THEN conjunct2, THEN conjunct2, THEN conjunct2, THEN conjunct2] nc tl
    by (simp add: codeReads0_def jiraColumns_def jiraDescription_def jiraPriority0_def
        showNat.simps storeOf_def exampleFactory_def exampleRow_def)
  from t c1 l1 l2 c2 c3 s1 s2 c4 g1 g2 g3 h1 h2 h3 show ?thesis by (intro conjI)
qed

lemma unescapeNewlines_replicate:
  "c \<noteq> CHR 0x5C \<Longrightarrow> unescapeNewlines (replicate n c @ s) = replicate n c @ unescapeNewlines s"
proof (induction n)
  case 0
  then show ?case by simp
next
  case (Suc n)
  then show ?case
    by (cases "replicate n c @ s") simp_all
qed

text \<open>
  C3 as the spec states it fails in \<^verbatim>\<open>src/export-factory.ts\<close>. A row without a
  title has a comment of 100 characters, 99 times \<^verbatim>\<open>x\<close> and a line break: the GitLab
  export writes a title of 103 characters, cut inside the escape sequence, and not the
  comment. The same line is written when the review file holds the line break as its
  escape sequence and \<^verbatim>\<open>handleData\<close> is given the comment of 100 characters.
\<close>

theorem short_comment_with_line_break_is_cut:
  "title (exampleRow :: priorityValue CsvEntry) = None
   \<and> length (replicate 99 CHR ''x'' @ [CHR 0x0A]) = 100
   \<and> fsLog (exportForFormat exampleFactory Gitlab
         \<lparr>store = storeOf (exampleRow\<lparr>comment := replicate 99 CHR ''x'' @ [CHR 0x0A]\<rparr>),
          fsLog = []\<rparr> [0])
       = [WriteFile ''code-review.gitlab.csv'' (''title,description'' @ [CHR 0x0A]),
          AppendFile ''code-review.gitlab.csv''
            (csvLine [CHR 0x0A]
               [''[code review] '' @ replicate 99 CHR ''x'' @ [CHR 0x5C] @ ''...'',
                ''## Affected'' @ [CHR 0x0A] @ ''a.ts'' @ [CHR 0x0A]
                @ ''- lines: 3:0-3:5|1:0-2:4'' @ [CHR 0x0A]
                @ ''## Comment'' @ [CHR 0x0A] @ replicate 99 CHR ''x'' @ [CHR 0x5C] @ ''n''
                @ [CHR 0x0A] @ [CHR 0x0A]])]
   \<and> comment (store (unescapeRow exampleFactory
         \<lparr>store = storeOf (exampleRow\<lparr>comment := replicate 99 CHR ''x'' @ [CHR 0x5C] @ ''n''\<rparr>),
          fsLog = []\<rparr> 0) 0)
       = replicate 99 CHR ''x'' @ [CHR 0x0A]
   \<and> fsLog (exportForFormat exampleFactory Gitlab
         \<lparr>store = storeOf (exampleRow\<lparr>comment := replicate 99 CHR ''x'' @ [CHR 0x5C] @ ''n''\<rparr>),
          fsLog = []\<rparr> [0])
       = [WriteFile ''code-review.gitlab.csv'' (''title,description'' @ [CHR 0x0A]),
          AppendFile ''code-review.gitlab.csv''
            (csvLine [CHR 0x0A]
               [''[code review] '' @ replicate 99 CHR ''x'' @ [CHR 0x5C] @ ''...'',
                ''## Affected'' @ [CHR 0x0A] @ ''a.ts'' @ [CHR 0x0A]
                @ ''- lines: 3:0-3:5|1:0-2:4'' @ [CHR 0x0A]
                @ ''## Comment'' @ [CHR 0x0A] @ replicate 99 CHR ''x'' @ [CHR 0x5C] @ ''n''
                @ [CHR 0x0A] @ [CHR 0x0A]])]"
proof -
  have u1: "unescapeNewlines (replicate 99 CHR ''x'' @ [CHR 0x0A]) = replicate 99 CHR ''x'' @ [CHR 0x0A]"
    by (simp add: unescapeNewlines_replicate)
  have u2: "unescapeNewlines (replicate 99 CHR ''x'' @ [CHR 0x5C, CHR ''n''])
              = replicate 99 CHR ''x'' @ [CHR 0x0A]"
    by (simp add: unescapeNewlines_replicate)
  have e: "escapeNewlines (replicate 99 CHR ''x'' @ [CHR 0x0A])
              = replicate 99 CHR ''x'' @ [CHR 0x5C] @ ''n''"
    by (simp add: escapeNewlines_append escapeNewlines_replicate)
  show ?thesis
    by (simp add: storeOf_def exportForFormat_def onData_def unescapeRow_def handleData_gitlab_def
        Let_def withCode_def codeReads_def csvTitle_def descShort_def markdownDescription_def
        prioritySection_def exampleFactory_def exampleRow_def u1 u2 e)
qed

section \<open>C4: the comment that handleData is given\<close>

lemma templateInput_comments:
  "mset (map comment (concat (map snd (templateInput fac h rows))))
     = image_mset (\<lambda>x. comment (h x)) (mset rows)"
proof -
  have "mset (map comment (concat (map snd (templateInput fac h rows))))
          = image_mset comment (mset (concat (map snd (templateInput fac h rows))))"
    by simp
  also have "\<dots> = image_mset comment (image_mset (fst (groupResults h rows (groupBy fac))) (mset rows))"
    by (simp only: templateInput_rows)
  also have "\<dots> = image_mset (\<lambda>x. comment (h x)) (mset rows)"
    by (simp add: multiset.map_comp comp_def groupResults_comment)
  finally show ?thesis .
qed

lemma rowsParsed_html_comments:
  assumes "distinct rows"
  shows "mset (map comment
            (concat (map snd (templateInput fac (store (fst (rowsParsed fac Html w rows))) rows))))
           = image_mset (\<lambda>x. unescapeEndOfLineFromCsv fac (comment (store w x))) (mset rows)"
proof -
  have "image_mset (\<lambda>x. comment (store (fst (rowsParsed fac Html w rows)) x)) (mset rows)
          = image_mset (\<lambda>x. unescapeEndOfLineFromCsv fac (comment (store w x))) (mset rows)"
    by (rule image_mset_cong) (simp add: rowsParsed_comment assms)
  then show ?thesis
    by (simp only: templateInput_comments)
qed

lemma onData_handleData:
  "fst (onData fac fmt out acc r)
     = (if storeOutside fmt
        then handleData fac fmt out (handleData fac fmt out (unescapeRow fac (fst acc) r) r) r
        else handleData fac fmt out (unescapeRow fac (fst acc) r) r)"
  by (simp add: onData_def Let_def)

text \<open>
  C4. Let the parsed rows be distinct objects, and let \<open>r\<close> be one of them, after the
  rows \<open>pre\<close>. In \<^verbatim>\<open>exportForFormat\<close>, for every format, the \<^verbatim>\<open>'data'\<close> callback of
  \<open>r\<close> calls \<^verbatim>\<open>handleData\<close> (twice for a format with \<^verbatim>\<open>storeOutside\<close>) on the row
  whose comment is \<^verbatim>\<open>unescapeEndOfLineFromCsv\<close> of the stored comment: the callbacks of
  the earlier rows have not touched it, and the first \<^verbatim>\<open>handleData\<close> of HTML and JSON
  leaves the comment as it is. The JSON text is made from the rows in that state, and the
  HTML template is applied to groups that hold every parsed row with its comment
  unescaped. What \<^verbatim>\<open>handleData\<close> of GitLab, GitHub and JIRA does with the comment it is
  given is to pass it through \<^verbatim>\<open>escapeEndOfLineForCsv\<close>, and the row keeps that text.
\<close>

theorem comment_unescaped_before_handleData:
  fixes fac :: "priorityValue ExportFactory"
  assumes "distinct rows" and "rows = pre @ r # post"
  shows
    "fst (rowsParsed fac fmt w (pre @ [r]))
       = (if storeOutside fmt
          then handleData fac fmt (outputFileOf fac fmt)
                 (handleData fac fmt (outputFileOf fac fmt)
                    (unescapeRow fac (fst (rowsParsed fac fmt w pre)) r) r) r
          else handleData fac fmt (outputFileOf fac fmt)
                 (unescapeRow fac (fst (rowsParsed fac fmt w pre)) r) r)
   \<and> comment (store (unescapeRow fac (fst (rowsParsed fac fmt w pre)) r) r)
       = unescapeEndOfLineFromCsv fac (comment (store w r))
   \<and> comment (store (handleData fac fmt (outputFileOf fac fmt)
                        (unescapeRow fac (fst (rowsParsed fac fmt w pre)) r) r) r)
       = (if storeOutside fmt then unescapeEndOfLineFromCsv fac (comment (store w r))
          else escapeEndOfLineForCsv fac (unescapeEndOfLineFromCsv fac (comment (store w r))))
   \<and> exportForFormat fac fmt w rows
       = handleEnd fac fmt (outputFileOf fac fmt) (fst (rowsParsed fac fmt w rows))
           (if storeOutside fmt then snd (rowsParsed fac fmt w rows) else rows)
   \<and> comment (store (fst (rowsParsed fac fmt w rows)) r)
       = (if storeOutside fmt then unescapeEndOfLineFromCsv fac (comment (store w r))
          else escapeEndOfLineForCsv fac (unescapeEndOfLineFromCsv fac (comment (store w r))))
   \<and> comment (store (exportForFormat fac fmt w rows) r)
       = comment (store (fst (rowsParsed fac fmt w rows)) r)
   \<and> fsLog (exportForFormat fac Json w rows)
       = fsLog (fst (rowsParsed fac Json w rows))
         @ [WriteFile (outputFileOf fac Json)
              (stringify fac (map (\<lambda>x. toJson (store (fst (rowsParsed fac Json w rows)) x)) rows))]
   \<and> fsLog (exportForFormat fac Html w rows)
       = fsLog (fst (rowsParsed fac Html w rows))
         @ [WriteFile (outputFileOf fac Html)
              (template fac (templateInput fac (store (fst (rowsParsed fac Html w rows))) rows))]
   \<and> mset (map comment
        (concat (map snd (templateInput fac (store (fst (rowsParsed fac Html w rows))) rows))))
       = image_mset (\<lambda>x. unescapeEndOfLineFromCsv fac (comment (store w x))) (mset rows)"
proof -
  let ?out = "outputFileOf fac fmt"
  let ?acc = "rowsParsed fac fmt w pre"
  have np: "r \<notin> set pre" and m: "r \<in> set rows"
    using assms by auto
  have a: "fst (rowsParsed fac fmt w (pre @ [r]))
       = (if storeOutside fmt
          then handleData fac fmt ?out (handleData fac fmt ?out (unescapeRow fac (fst ?acc) r) r) r
          else handleData fac fmt ?out (unescapeRow fac (fst ?acc) r) r)"
    by (simp only: rowsParsed_snoc onData_handleData)
  have b: "comment (store (unescapeRow fac (fst ?acc) r) r)
       = unescapeEndOfLineFromCsv fac (comment (store w r))"
    by (simp add: unescapeRow_def rowsParsed_store_other [OF np])
  have c: "comment (store (handleData fac fmt ?out (unescapeRow fac (fst ?acc) r) r) r)
       = (if storeOutside fmt then unescapeEndOfLineFromCsv fac (comment (store w r))
          else escapeEndOfLineForCsv fac (unescapeEndOfLineFromCsv fac (comment (store w r))))"
    by (simp only: handleData_comment b)
  note d = exportForFormat_parts [of fac fmt w rows]
  note e = rowsParsed_comment [OF assms(1) m, of fac fmt w]
  have f: "comment (store (exportForFormat fac fmt w rows) r)
       = comment (store (fst (rowsParsed fac fmt w rows)) r)"
    by (simp only: exportForFormat_parts handleEnd_comment)
  note g = exportForFormat_json_log' [of fac w rows]
  note h = exportForFormat_html_log [of fac w rows]
  note i = rowsParsed_html_comments [OF assms(1), of fac w]
  show ?thesis
    by (rule conjI [OF a conjI [OF b conjI [OF c conjI [OF d conjI [OF e conjI [OF f
          conjI [OF g conjI [OF h i]]]]]]]])
qed

theorem comment_unescaped_before_handleData_witness:
  "distinct [0::nat, 2] \<and> [0::nat, 2] = [0] @ 2 # []
   \<and> comment (store (unescapeRow exampleFactory (fst (rowsParsed exampleFactory Html
         \<lparr>store = storeOf (exampleRow\<lparr>comment := ''a'' @ [CHR 0x5C] @ ''nb''\<rparr>), fsLog = []\<rparr> [0])) 2) 2)
       = ''a'' @ [CHR 0x0A] @ ''b''
   \<and> comment (store (unescapeRow exampleFactory (fst (rowsParsed exampleFactory Gitlab
         \<lparr>store = storeOf (exampleRow\<lparr>comment := ''a'' @ [CHR 0x5C] @ ''nb''\<rparr>), fsLog = []\<rparr> [0])) 2) 2)
       = ''a'' @ [CHR 0x0A] @ ''b''
   \<and> comment (store (unescapeRow exampleFactory (fst (rowsParsed exampleFactory Github
         \<lparr>store = storeOf (exampleRow\<lparr>comment := ''a'' @ [CHR 0x5C] @ ''nb''\<rparr>), fsLog = []\<rparr> [0])) 2) 2)
       = ''a'' @ [CHR 0x0A] @ ''b''
   \<and> comment (store (unescapeRow exampleFactory (fst (rowsParsed exampleFactory Jira
         \<lparr>store = storeOf (exampleRow\<lparr>comment := ''a'' @ [CHR 0x5C] @ ''nb''\<rparr>), fsLog = []\<rparr> [0])) 2) 2)
       = ''a'' @ [CHR 0x0A] @ ''b''
   \<and> comment (store (unescapeRow exampleFactory (fst (rowsParsed exampleFactory Json
         \<lparr>store = storeOf (exampleRow\<lparr>comment := ''a'' @ [CHR 0x5C] @ ''nb''\<rparr>), fsLog = []\<rparr> [0])) 2) 2)
       = ''a'' @ [CHR 0x0A] @ ''b''
   \<and> comment (store (handleData exampleFactory Html (outputFileOf exampleFactory Html)
         (unescapeRow exampleFactory (fst (rowsParsed exampleFactory Html
            \<lparr>store = storeOf (exampleRow\<lparr>comment := ''a'' @ [CHR 0x5C] @ ''nb''\<rparr>), fsLog = []\<rparr> [0])) 2) 2) 2)
       = ''a'' @ [CHR 0x0A] @ ''b''
   \<and> comment (store (exportForFormat exampleFactory Json
         \<lparr>store = storeOf (exampleRow\<lparr>comment := ''a'' @ [CHR 0x5C] @ ''nb''\<rparr>), fsLog = []\<rparr> [0, 2]) 2)
       = ''a'' @ [CHR 0x0A] @ ''b''
   \<and> mset (map comment (concat (map snd (templateInput exampleFactory
         (store (fst (rowsParsed exampleFactory Html
            \<lparr>store = storeOf (exampleRow\<lparr>comment := ''a'' @ [CHR 0x5C] @ ''nb''\<rparr>), fsLog = []\<rparr> [0, 2])))
         [0, 2]))))
       = {#''a'' @ [CHR 0x0A] @ ''b'', ''a'' @ [CHR 0x0A] @ ''b''#}"
proof -
  let ?w = "\<lparr>store = storeOf ((exampleRow :: priorityValue CsvEntry)\<lparr>comment := ''a'' @ [CHR 0x5C] @ ''nb''\<rparr>),
             fsLog = []\<rparr>"
  have d: "distinct [0::nat, 2]" and s: "[0::nat, 2] = [0] @ 2 # []"
    by simp_all
  have u: "unescapeEndOfLineFromCsv (exampleFactory :: priorityValue ExportFactory)
             (comment (store ?w x)) = ''a'' @ [CHR 0x0A] @ ''b''" for x
    by (simp add: storeOf_def exampleFactory_def)
  note t = comment_unescaped_before_handleData [OF d s, where fac = exampleFactory and w = ?w]
  have f: "comment (store (unescapeRow exampleFactory (fst (rowsParsed exampleFactory fmt ?w [0])) 2) 2)
       = ''a'' @ [CHR 0x0A] @ ''b''" for fmt
    using t [of fmt, THEN conjunct2, THEN conjunct1] by (simp only: u)
  have h: "comment (store (handleData exampleFactory Html (outputFileOf exampleFactory Html)
         (unescapeRow exampleFactory (fst (rowsParsed exampleFactory Html ?w [0])) 2) 2) 2)
       = ''a'' @ [CHR 0x0A] @ ''b''"
    using t [of Html, THEN conjunct2, THEN conjunct2, THEN conjunct1] by (simp add: storeOf_def exampleFactory_def)
  have j: "comment (store (exportForFormat exampleFactory Json ?w [0, 2]) 2)
       = ''a'' @ [CHR 0x0A] @ ''b''"
    using t [of Json, THEN conjunct2, THEN conjunct2, THEN conjunct2, THEN conjunct2,
        THEN conjunct1]
      t [of Json, THEN conjunct2, THEN conjunct2, THEN conjunct2, THEN conjunct2,
        THEN conjunct2, THEN conjunct1]
    by (simp add: storeOf_def exampleFactory_def)
  have k: "mset (map comment (concat (map snd (templateInput exampleFactory
         (store (fst (rowsParsed exampleFactory Html ?w [0, 2]))) [0, 2]))))
       = {#''a'' @ [CHR 0x0A] @ ''b'', ''a'' @ [CHR 0x0A] @ ''b''#}"
    using t [of Html, THEN conjunct2, THEN conjunct2, THEN conjunct2, THEN conjunct2,
        THEN conjunct2, THEN conjunct2, THEN conjunct2, THEN conjunct2]
    by (simp add: storeOf_def exampleFactory_def)
  from d s f [of Html] f [of Gitlab] f [of Github] f [of Jira] f [of Json] h j k
  show ?thesis by (intro conjI)
qed

section \<open>C5: the default category\<close>

lemma templateInput_categories:
  "mset (map category (concat (map snd (templateInput fac h rows))))
     = image_mset (\<lambda>x. Some (orElse (category (h x)) ''Other'')) (mset rows)"
proof -
  have "mset (map category (concat (map snd (templateInput fac h rows))))
          = image_mset category (mset (concat (map snd (templateInput fac h rows))))"
    by simp
  also have "\<dots> = image_mset category (image_mset (fst (groupResults h rows (groupBy fac))) (mset rows))"
    by (simp only: templateInput_rows)
  also have "\<dots> = image_mset (\<lambda>x. category (fst (groupResults h rows (groupBy fac)) x)) (mset rows)"
    by (simp add: multiset.map_comp comp_def)
  also have "\<dots> = image_mset (\<lambda>x. Some (orElse (category (h x)) ''Other'')) (mset rows)"
    by (rule image_mset_cong) (simp add: groupResults_category)
  finally show ?thesis .
qed

lemma templateInput0_categories:
  "mset (map category (concat (map snd (templateInput0 fac h rows))))
     = image_mset (\<lambda>x. Some (orElse (category (h x)) ''Other'')) (mset rows)"
proof -
  have "mset (map category (concat (map snd (templateInput0 fac h rows))))
          = image_mset category (mset (concat (map snd (templateInput0 fac h rows))))"
    by simp
  also have "\<dots> = image_mset category (image_mset (fst (groupResults0 h rows (groupBy fac))) (mset rows))"
    by (simp only: templateInput0_rows)
  also have "\<dots> = image_mset (\<lambda>x. category (fst (groupResults0 h rows (groupBy fac)) x)) (mset rows)"
    by (simp add: multiset.map_comp comp_def)
  also have "\<dots> = image_mset (\<lambda>x. Some (orElse (category (h x)) ''Other'')) (mset rows)"
    by (rule image_mset_cong) (simp add: groupResults0_category)
  finally show ?thesis .
qed

lemma rowsParsed_html_categories:
  "mset (map category
      (concat (map snd (templateInput fac (store (fst (rowsParsed fac Html w rows))) rows))))
     = image_mset (\<lambda>x. Some (orElse (category (store w x)) ''Other'')) (mset rows)"
  by (simp only: templateInput_categories rowsParsed_category)

lemma exportAsHtml_data_Some:
  "exportAsHtml_data fac acc r = Some acc' \<Longrightarrow>
   snd acc' = snd acc @ [r] \<and> category (store (fst acc') x) = category (store (fst acc) x)"
  by (auto simp: exportAsHtml_data_def Let_def split: if_splits option.splits)

lemma foldOption_exportAsHtml_data_Some:
  "foldOption (exportAsHtml_data fac) acc rows = Some acc' \<Longrightarrow>
   snd acc' = snd acc @ rows \<and> category (store (fst acc') x) = category (store (fst acc) x)"
proof (induction rows arbitrary: acc)
  case Nil
  then show ?case by simp
next
  case (Cons y ys)
  from Cons.prems obtain a where a: "exportAsHtml_data fac acc y = Some a"
    and r: "foldOption (exportAsHtml_data fac) a ys = Some acc'"
    by (auto split: option.splits)
  show ?case
    using Cons.IH [OF r] exportAsHtml_data_Some [OF a, of x] by simp
qed

lemma foldOption_exportAsHtml_data_plain:
  "\<not> includeCodeSelection fac \<Longrightarrow> foldOption (exportAsHtml_data fac) acc rows \<noteq> None"
  by (induction rows arbitrary: acc) (simp_all add: exportAsHtml_data_def Let_def)

lemma exportAsHtml_None:
  "(exportAsHtml fac w rows = None) = (foldOption (exportAsHtml_data fac) (w, []) rows = None)"
  by (simp add: exportAsHtml_def Let_def split: option.splits)

lemma exportAsHtml_Some:
  assumes "foldOption (exportAsHtml_data fac) (w, []) rows = Some acc"
  shows "exportAsHtml fac w rows
           = Some \<lparr>store = fst (groupResults0 (store (fst acc)) rows (groupBy fac)),
                   fsLog = fsLog (fst acc)
                     @ [WriteFile (basePath fac @ ''.html'')
                          (template fac (templateInput0 fac (store (fst acc)) rows))]\<rparr>
       \<and> mset (map category (concat (map snd (templateInput0 fac (store (fst acc)) rows))))
           = image_mset (\<lambda>x. Some (orElse (category (store w x)) ''Other'')) (mset rows)"
proof -
  have s: "snd acc = rows" and c: "category (store (fst acc) x) = category (store w x)" for x
    using foldOption_exportAsHtml_data_Some [OF assms] by simp_all
  have "exportAsHtml fac w rows
           = Some \<lparr>store = fst (groupResults0 (store (fst acc)) rows (groupBy fac)),
                   fsLog = fsLog (fst acc)
                     @ [WriteFile (basePath fac @ ''.html'')
                          (template fac (templateInput0 fac (store (fst acc)) rows))]\<rparr>"
    using assms s by (simp add: exportAsHtml_def Let_def templateInput0_def)
  moreover have "mset (map category (concat (map snd (templateInput0 fac (store (fst acc)) rows))))
           = image_mset (\<lambda>x. Some (orElse (category (store w x)) ''Other'')) (mset rows)"
    by (simp only: templateInput0_categories c)
  ultimately show ?thesis ..
qed

lemma exportAsJson_data_Some:
  "exportAsJson_data fac acc r = Some acc' \<Longrightarrow>
   snd acc' = snd acc @ [r] \<and> category (store (fst acc') x) = category (store (fst acc) x)"
  by (auto simp: exportAsJson_data_def withCode0_def split: if_splits option.splits)

lemma foldOption_exportAsJson_data_Some:
  "foldOption (exportAsJson_data fac) acc rows = Some acc' \<Longrightarrow>
   snd acc' = snd acc @ rows \<and> category (store (fst acc') x) = category (store (fst acc) x)"
proof (induction rows arbitrary: acc)
  case Nil
  then show ?case by simp
next
  case (Cons y ys)
  from Cons.prems obtain a where a: "exportAsJson_data fac acc y = Some a"
    and r: "foldOption (exportAsJson_data fac) a ys = Some acc'"
    by (auto split: option.splits)
  show ?case
    using Cons.IH [OF r] exportAsJson_data_Some [OF a, of x] by simp
qed

lemma exportAsJson_Some:
  assumes "exportAsJson fac w rows = Some W"
  shows "category (store W x) = category (store w x)
       \<and> fsLog W = butlast (fsLog W)
           @ [WriteFile (basePath fac @ ''.json'')
                (stringify fac (map (\<lambda>y. toJson (store W y)) rows))]"
proof -
  from assms obtain acc where acc: "foldOption (exportAsJson_data fac) (w, []) rows = Some acc"
    and W: "W = (fst acc)\<lparr>fsLog := fsLog (fst acc)
                  @ [WriteFile (basePath fac @ ''.json'')
                       (stringify fac (map (\<lambda>r. toJson (store (fst acc) r)) (snd acc)))]\<rparr>"
    by (auto simp: exportAsJson_def split: option.splits)
  have s: "snd acc = rows" and c: "category (store (fst acc) x) = category (store w x)"
    using foldOption_exportAsJson_data_Some [OF acc] by simp_all
  show ?thesis
    by (simp add: W s c)
qed

lemma data0_category:
  "exportAsGitLabCsv_data fac out w r = Some w' \<Longrightarrow> category (store w' x) = category (store w x)"
  "exportAsGitHubCsv_data fac out w r = Some w' \<Longrightarrow> category (store w' x) = category (store w x)"
  "exportAsJiraCsv_data fac out w r = Some w' \<Longrightarrow> category (store w' x) = category (store w x)"
  by (auto simp: exportAsGitLabCsv_data_def exportAsGitHubCsv_data_def exportAsJiraCsv_data_def
      withCode0_def split: option.splits if_splits)

lemma jiraColumns_category: "jiraColumns eol p row ! 8 = render (category row)"
  by (simp add: jiraColumns_def)

text \<open>
  C5 (as the code has it). \<^verbatim>\<open>groupResults\<close>, in both source files and for every
  grouping key, gives every row it groups the category \<^verbatim>\<open>Other\<close> when the category
  is missing or empty, and keeps a category that is there. Only the HTML exports call
  it, at the end: in \<^verbatim>\<open>src/export-factory.ts\<close> the HTML \<^verbatim>\<open>handleEnd\<close> writes the
  template applied to groups that hold every parsed row with the default category, and
  so does \<^verbatim>\<open>exportAsHtml\<close> of the second file whenever reading the code does not
  throw. No \<^verbatim>\<open>handleData\<close> and no callback of the second file changes a category, and
  the other exports end without grouping: when \<^verbatim>\<open>exportForFormat\<close> is done the
  category of a row is as it was stored, for every format but HTML. Their lines and
  objects are built from the row in that state: the Markdown description of GitLab and
  GitHub has its category section, after the priority section, only for a category that
  is not empty, the JIRA line prints the category as it is in its ninth column, and the
  JSON object has the key \<^verbatim>\<open>category\<close> only for a category that is there.
\<close>

theorem default_category_only_when_grouping:
  fixes fac :: "priorityValue ExportFactory" and fac0 :: "string ExportFactory"
    and row :: "'p CsvEntry"
  shows
    "(\<not> truthy c \<longrightarrow> orElse c ''Other'' = ''Other'')
   \<and> (truthy c \<longrightarrow> Some (orElse c ''Other'') = c)
   \<and> category (fst (groupResults h rows g) x)
       = (if x \<in> set rows then Some (orElse (category (h x)) ''Other'') else category (h x))
   \<and> category (fst (groupResults0 h0 rows g) x)
       = (if x \<in> set rows then Some (orElse (category (h0 x)) ''Other'') else category (h0 x))
   \<and> fsLog (exportForFormat fac Html w rows)
       = fsLog (fst (rowsParsed fac Html w rows))
         @ [WriteFile (outputFileOf fac Html)
              (template fac (templateInput fac (store (fst (rowsParsed fac Html w rows))) rows))]
   \<and> mset (map category
        (concat (map snd (templateInput fac (store (fst (rowsParsed fac Html w rows))) rows))))
       = image_mset (\<lambda>x. Some (orElse (category (store w x)) ''Other'')) (mset rows)
   \<and> (exportAsHtml fac0 w0 rows = None)
       = (foldOption (exportAsHtml_data fac0) (w0, []) rows = None)
   \<and> (\<forall>acc. foldOption (exportAsHtml_data fac0) (w0, []) rows = Some acc \<longrightarrow>
         exportAsHtml fac0 w0 rows
           = Some \<lparr>store = fst (groupResults0 (store (fst acc)) rows (groupBy fac0)),
                   fsLog = fsLog (fst acc)
                     @ [WriteFile (basePath fac0 @ ''.html'')
                          (template fac0 (templateInput0 fac0 (store (fst acc)) rows))]\<rparr>
         \<and> mset (map category (concat (map snd (templateInput0 fac0 (store (fst acc)) rows))))
             = image_mset (\<lambda>x. Some (orElse (category (store w0 x)) ''Other'')) (mset rows))
   \<and> (\<not> includeCodeSelection fac0 \<longrightarrow>
         foldOption (exportAsHtml_data fac0) (w0, []) rows \<noteq> None)
   \<and> category (store (handleData fac fmt out w r) x) = category (store w x)
   \<and> category (store (exportForFormat fac fmt w rows) x)
       = (if fmt = Html \<and> x \<in> set rows then Some (orElse (category (store w x)) ''Other'')
          else category (store w x))
   \<and> fsLog (handleData fac Gitlab out w r)
       = fsLog w @ codeReads fac (store w r)
         @ [AppendFile out
              (csvLine (EOL fac)
                 [''[code review] '' @ csvTitle (store (handleData fac Gitlab out w r) r),
                  markdownDescription (EOL fac)
                    (prioritySection fac (store (handleData fac Gitlab out w r) r))
                    (store (handleData fac Gitlab out w r) r)])]
   \<and> fsLog (handleData fac Github out w r)
       = fsLog w @ codeReads fac (store w r)
         @ [AppendFile out
              (csvLine (EOL fac)
                 [''[code review] '' @ csvTitle (store (handleData fac Github out w r) r),
                  markdownDescription (EOL fac)
                    (prioritySection fac (store (handleData fac Github out w r) r))
                    (store (handleData fac Github out w r) r),
                  ''code-review'', ''open'', []])]
   \<and> fsLog (handleData fac Jira out w r)
       = fsLog w @ codeReads fac (store w r)
         @ [AppendFile out
              (csvLine (EOL fac)
                 (jiraColumns (EOL fac) (render (priorityName fac (priority (store w r))))
                    (store (handleData fac Jira out w r) r)))]
   \<and> fsLog (exportForFormat fac Json w rows)
       = fsLog (fst (rowsParsed fac Json w rows))
         @ [WriteFile (outputFileOf fac Json)
              (stringify fac (map (\<lambda>x. toJson (store (exportForFormat fac Json w rows) x)) rows))]
   \<and> (\<forall>w'. exportAsGitLabCsv_data fac0 out w0 r = Some w' \<longrightarrow>
         category (store w' x) = category (store w0 x)
         \<and> fsLog w' = fsLog w0 @ codeReads0 fac0 (store w0 r)
             @ [AppendFile out
                  (csvLine (EOL fac0)
                     [''[code review] '' @ csvTitle (store w0 r),
                      markdownDescription (EOL fac0) (prioritySection0 fac0 (store w' r))
                        (store w' r)])])
   \<and> (\<forall>w'. exportAsGitHubCsv_data fac0 out w0 r = Some w' \<longrightarrow>
         category (store w' x) = category (store w0 x)
         \<and> fsLog w' = fsLog w0 @ codeReads0 fac0 (store w0 r)
             @ [AppendFile out
                  (csvLine (EOL fac0)
                     [''[code review] '' @ csvTitle (store w0 r),
                      markdownDescription (EOL fac0) (prioritySection0 fac0 (store w' r))
                        (store w' r),
                      ''code-review'', ''open'', []])])
   \<and> (\<forall>w'. exportAsJiraCsv_data fac0 out w0 r = Some w' \<longrightarrow>
         category (store w' x) = category (store w0 x)
         \<and> fsLog w' = fsLog w0 @ codeReads0 fac0 (store w0 r)
             @ [AppendFile out
                  (csvLine (EOL fac0)
                     (jiraColumns (EOL fac0) (showNat (jiraPriority0 (priority (store w0 r))))
                        (store w' r)))])
   \<and> (\<forall>W. exportAsJson fac0 w0 rows = Some W \<longrightarrow>
         category (store W x) = category (store w0 x)
         \<and> fsLog W = butlast (fsLog W)
             @ [WriteFile (basePath fac0 @ ''.json'')
                  (stringify fac0 (map (\<lambda>y. toJson (store W y)) rows))])
   \<and> markdownDescription eol ps row
       = ps
         @ (if truthy (category row)
            then ''## Category'' @ eol @ render (category row) @ eol @ eol
            else [])
         @ markdownDescription eol [] (row\<lparr>category := None\<rparr>)
   \<and> jiraColumns eol col row ! 8 = render (category row)
   \<and> ((''category'', v) \<in> set (toJson row))
       = (\<exists>c. category row = Some c \<and> v = JText c)"
proof -
  have a: "(\<not> truthy c \<longrightarrow> orElse c ''Other'' = ''Other'')"
    by (cases c) simp_all
  have b: "(truthy c \<longrightarrow> Some (orElse c ''Other'') = c)"
    by (cases c) simp_all
  have c: "category (fst (groupResults h rows g) x)
       = (if x \<in> set rows then Some (orElse (category (h x)) ''Other'') else category (h x))"
    by (rule groupResults_category)
  have d: "category (fst (groupResults0 h0 rows g) x)
       = (if x \<in> set rows then Some (orElse (category (h0 x)) ''Other'') else category (h0 x))"
    by (rule groupResults0_category)
  have e: "fsLog (exportForFormat fac Html w rows)
       = fsLog (fst (rowsParsed fac Html w rows))
         @ [WriteFile (outputFileOf fac Html)
              (template fac (templateInput fac (store (fst (rowsParsed fac Html w rows))) rows))]"
    by (rule exportForFormat_html_log)
  have f: "mset (map category
        (concat (map snd (templateInput fac (store (fst (rowsParsed fac Html w rows))) rows))))
       = image_mset (\<lambda>x. Some (orElse (category (store w x)) ''Other'')) (mset rows)"
    by (rule rowsParsed_html_categories)
  have g: "(exportAsHtml fac0 w0 rows = None)
       = (foldOption (exportAsHtml_data fac0) (w0, []) rows = None)"
    by (rule exportAsHtml_None)
  have h: "(\<forall>acc. foldOption (exportAsHtml_data fac0) (w0, []) rows = Some acc \<longrightarrow>
         exportAsHtml fac0 w0 rows
           = Some \<lparr>store = fst (groupResults0 (store (fst acc)) rows (groupBy fac0)),
                   fsLog = fsLog (fst acc)
                     @ [WriteFile (basePath fac0 @ ''.html'')
                          (template fac0 (templateInput0 fac0 (store (fst acc)) rows))]\<rparr>
         \<and> mset (map category (concat (map snd (templateInput0 fac0 (store (fst acc)) rows))))
             = image_mset (\<lambda>x. Some (orElse (category (store w0 x)) ''Other'')) (mset rows))"
    using exportAsHtml_Some [of fac0 w0 rows] by blast
  have i: "(\<not> includeCodeSelection fac0 \<longrightarrow>
         foldOption (exportAsHtml_data fac0) (w0, []) rows \<noteq> None)"
    using foldOption_exportAsHtml_data_plain [of fac0 "(w0, [])" rows] by blast
  have j: "category (store (handleData fac fmt out w r) x) = category (store w x)"
    by (rule handleData_category)
  have k: "category (store (exportForFormat fac fmt w rows) x)
       = (if fmt = Html \<and> x \<in> set rows then Some (orElse (category (store w x)) ''Other'')
          else category (store w x))"
    by (rule exportForFormat_category)
  have l: "fsLog (handleData fac Gitlab out w r)
       = fsLog w @ codeReads fac (store w r)
         @ [AppendFile out
              (csvLine (EOL fac)
                 [''[code review] '' @ csvTitle (store (handleData fac Gitlab out w r) r),
                  markdownDescription (EOL fac)
                    (prioritySection fac (store (handleData fac Gitlab out w r) r))
                    (store (handleData fac Gitlab out w r) r)])]"
    using handleData_gitlab_log [of fac out w r] by simp
  have m: "fsLog (handleData fac Github out w r)
       = fsLog w @ codeReads fac (store w r)
         @ [AppendFile out
              (csvLine (EOL fac)
                 [''[code review] '' @ csvTitle (store (handleData fac Github out w r) r),
                  markdownDescription (EOL fac)
                    (prioritySection fac (store (handleData fac Github out w r) r))
                    (store (handleData fac Github out w r) r),
                  ''code-review'', ''open'', []])]"
    using handleData_github_log [of fac out w r] by simp
  have n: "fsLog (handleData fac Jira out w r)
       = fsLog w @ codeReads fac (store w r)
         @ [AppendFile out
              (csvLine (EOL fac)
                 (jiraColumns (EOL fac) (render (priorityName fac (priority (store w r))))
                    (store (handleData fac Jira out w r) r)))]"
    by (rule handleData_jira_line)
  have o: "fsLog (exportForFormat fac Json w rows)
       = fsLog (fst (rowsParsed fac Json w rows))
         @ [WriteFile (outputFileOf fac Json)
              (stringify fac (map (\<lambda>x. toJson (store (exportForFormat fac Json w rows) x)) rows))]"
    using exportForFormat_json_log' [of fac w rows]
    by (simp add: exportForFormat_parts [of fac Json])
  have p: "(\<forall>w'. exportAsGitLabCsv_data fac0 out w0 r = Some w' \<longrightarrow>
         category (store w' x) = category (store w0 x)
         \<and> fsLog w' = fsLog w0 @ codeReads0 fac0 (store w0 r)
             @ [AppendFile out
                  (csvLine (EOL fac0)
                     [''[code review] '' @ csvTitle (store w0 r),
                      markdownDescription (EOL fac0) (prioritySection0 fac0 (store w' r))
                        (store w' r)])])"
    using data0_category(1) [of fac0 out w0 r _ x] exportAsGitLabCsv_data_log [of fac0 out w0 r]
    by blast
  have q: "(\<forall>w'. exportAsGitHubCsv_data fac0 out w0 r = Some w' \<longrightarrow>
         category (store w' x) = category (store w0 x)
         \<and> fsLog w' = fsLog w0 @ codeReads0 fac0 (store w0 r)
             @ [AppendFile out
                  (csvLine (EOL fac0)
                     [''[code review] '' @ csvTitle (store w0 r),
                      markdownDescription (EOL fac0) (prioritySection0 fac0 (store w' r))
                        (store w' r),
                      ''code-review'', ''open'', []])])"
    using data0_category(2) [of fac0 out w0 r _ x] exportAsGitHubCsv_data_log [of fac0 out w0 r]
    by blast
  have s: "(\<forall>w'. exportAsJiraCsv_data fac0 out w0 r = Some w' \<longrightarrow>
         category (store w' x) = category (store w0 x)
         \<and> fsLog w' = fsLog w0 @ codeReads0 fac0 (store w0 r)
             @ [AppendFile out
                  (csvLine (EOL fac0)
                     (jiraColumns (EOL fac0) (showNat (jiraPriority0 (priority (store w0 r))))
                        (store w' r)))])"
    using data0_category(3) [of fac0 out w0 r _ x] exportAsJiraCsv_data_line [of fac0 out w0 r]
    by blast
  have t: "(\<forall>W. exportAsJson fac0 w0 rows = Some W \<longrightarrow>
         category (store W x) = category (store w0 x)
         \<and> fsLog W = butlast (fsLog W)
             @ [WriteFile (basePath fac0 @ ''.json'')
                  (stringify fac0 (map (\<lambda>y. toJson (store W y)) rows))])"
    using exportAsJson_Some [of fac0 w0 rows _ x] by blast
  have u: "markdownDescription eol ps row
       = ps
         @ (if truthy (category row)
            then ''## Category'' @ eol @ render (category row) @ eol @ eol
            else [])
         @ markdownDescription eol [] (row\<lparr>category := None\<rparr>)"
    by (rule markdownDescription_category)
  have v: "jiraColumns eol col row ! 8 = render (category row)"
    by (rule jiraColumns_category)
  have y: "((''category'', v) \<in> set (toJson row))
       = (\<exists>c. category row = Some c \<and> v = JText c)"
    by (rule toJson_category)
  show ?thesis
    by (rule conjI [OF a conjI [OF b conjI [OF c conjI [OF d conjI [OF e conjI [OF f conjI [OF g conjI [OF h conjI [OF i conjI [OF j conjI [OF k conjI [OF l conjI [OF m conjI [OF n conjI [OF o conjI [OF p conjI [OF q conjI [OF s conjI [OF t conjI [OF u conjI [OF v y]]]]]]]]]]]]]]]]]]]]])
qed

theorem default_category_only_when_grouping_witness:
  "\<not> truthy (category (exampleRow :: string CsvEntry))
   \<and> orElse (category (exampleRow :: string CsvEntry)) ''Other'' = ''Other''
   \<and> truthy (Some ''Bug'') \<and> Some (orElse (Some ''Bug'') ''Other'') = Some ''Bug''
   \<and> category (fst (groupResults (exampleStore :: priorityValue store) [0, 2] Group_category) 0)
       = Some ''Other''
   \<and> category (fst (groupResults (exampleStore :: priorityValue store) [0, 2] Group_category) 2)
       = Some ''Bug''
   \<and> category (fst (groupResults0 exampleStore [0, 2] Group_filename) 0) = Some ''Other''
   \<and> category (fst (groupResults0 exampleStore [0, 2] Group_filename) 2) = Some ''Bug''
   \<and> mset (map category (concat (map snd (templateInput exampleFactory
         (store (fst (rowsParsed exampleFactory Html \<lparr>store = exampleStore, fsLog = []\<rparr> [0, 2])))
         [0, 2]))))
       = {#Some ''Other'', Some ''Bug''#}
   \<and> category (store (exportForFormat exampleFactory Html
         \<lparr>store = exampleStore, fsLog = []\<rparr> [0, 2]) 0) = Some ''Other''
   \<and> category (store (exportForFormat exampleFactory Json
         \<lparr>store = exampleStore, fsLog = []\<rparr> [0, 2]) 0) = None
   \<and> \<not> includeCodeSelection (exampleFactory :: string ExportFactory)
   \<and> (\<exists>acc. foldOption (exportAsHtml_data exampleFactory)
               (\<lparr>store = exampleStore, fsLog = []\<rparr>, []) [0, 2] = Some acc
         \<and> exportAsHtml exampleFactory \<lparr>store = exampleStore, fsLog = []\<rparr> [0, 2]
             = Some \<lparr>store = fst (groupResults0 (store (fst acc)) [0, 2] Group_filename),
                     fsLog = fsLog (fst acc)
                       @ [WriteFile ''code-review.html''
                            (template exampleFactory
                               (templateInput0 exampleFactory (store (fst acc)) [0, 2]))]\<rparr>
         \<and> mset (map category (concat (map snd
                 (templateInput0 exampleFactory (store (fst acc)) [0, 2]))))
             = {#Some ''Other'', Some ''Bug''#})
   \<and> (\<exists>w'. exportAsGitLabCsv_data exampleFactory ''o.csv''
               \<lparr>store = exampleStore, fsLog = []\<rparr> 0 = Some w'
         \<and> category (store w' 0) = None
         \<and> fsLog w'
             = [AppendFile ''o.csv''
                  (csvLine [CHR 0x0A]
                     [''[code review] hi'',
                      ''## Affected'' @ [CHR 0x0A] @ ''a.ts'' @ [CHR 0x0A]
                      @ ''- lines: 3:0-3:5|1:0-2:4'' @ [CHR 0x0A]
                      @ ''## Comment'' @ [CHR 0x0A] @ ''hi'' @ [CHR 0x0A] @ [CHR 0x0A]])])
   \<and> (\<exists>w'. exportAsGitHubCsv_data exampleFactory ''o.csv''
               \<lparr>store = exampleStore, fsLog = []\<rparr> 2 = Some w'
         \<and> category (store w' 2) = Some ''Bug''
         \<and> fsLog w'
             = [AppendFile ''o.csv''
                  (csvLine [CHR 0x0A]
                     [''[code review] hi'',
                      ''## Category'' @ [CHR 0x0A] @ ''Bug'' @ [CHR 0x0A] @ [CHR 0x0A]
                      @ ''## Affected'' @ [CHR 0x0A] @ ''a.ts'' @ [CHR 0x0A]
                      @ ''- lines: 3:0-3:5|1:0-2:4'' @ [CHR 0x0A]
                      @ ''## Comment'' @ [CHR 0x0A] @ ''hi'' @ [CHR 0x0A] @ [CHR 0x0A],
                      ''code-review'', ''open'', []])])
   \<and> (\<exists>w'. exportAsJiraCsv_data exampleFactory ''o.csv''
               \<lparr>store = exampleStore, fsLog = []\<rparr> 0 = Some w'
         \<and> category (store w' 0) = None
         \<and> fsLog w'
             = [AppendFile ''o.csv''
                  (csvLine [CHR 0x0A]
                     [''[code review] hi'',
                      ''h2. Affected'' @ [CHR 0x0A] @ ''a.ts'' @ [CHR 0x0A]
                      @ ''* lines: 3:0-3:5|1:0-2:4'' @ [CHR 0x0A]
                      @ ''h2. Category'' @ [CHR 0x0A] @ ''undefined'' @ [CHR 0x0A] @ [CHR 0x0A]
                      @ ''h2. Comment'' @ [CHR 0x0A] @ ''hi'' @ [CHR 0x0A] @ [CHR 0x0A],
                      ''3'', ''undefined'', ''a.ts'', ''undefined'', ''3:0-3:5|1:0-2:4'',
                      ''undefined'', ''undefined'', ''hi'', ''undefined''])])
   \<and> (\<exists>W. exportAsJson exampleFactory \<lparr>store = exampleStore, fsLog = []\<rparr> [0, 2] = Some W
         \<and> category (store W 0) = None \<and> category (store W 2) = Some ''Bug'')"
proof -
  let ?wa = "\<lparr>store = exampleStore, fsLog = []\<rparr> :: priorityValue world"
  let ?wb = "\<lparr>store = exampleStore, fsLog = []\<rparr> :: string world"
  have n: "\<not> truthy (category (exampleRow :: string CsvEntry))"
    by (simp add: exampleRow_def)
  have y: "truthy (Some ''Bug'')"
    by simp
  have nic: "\<not> includeCodeSelection (exampleFactory :: string ExportFactory)"
    by (simp add: exampleFactory_def)
  have gb: "groupBy (exampleFactory :: string ExportFactory) = Group_filename"
    and bp: "basePath (exampleFactory :: string ExportFactory) = ''code-review''"
    by (simp_all add: exampleFactory_def)
  note t = default_category_only_when_grouping
      [where fac = exampleFactory and ?fac0.0 = exampleFactory and w = ?wa and ?w0.0 = ?wb
         and rows = "[0, 2]" and out = "''o.csv''"]
  have a1: "orElse (category (exampleRow :: string CsvEntry)) ''Other'' = ''Other''"
    using t [where c = "category (exampleRow :: string CsvEntry)", THEN conjunct1, rule_format, OF n] .
  have a2: "Some (orElse (Some ''Bug'') ''Other'') = Some ''Bug''"
    using t [where c = "Some ''Bug''", THEN conjunct2, THEN conjunct1, rule_format, OF y] .
  have g1: "category (fst (groupResults (exampleStore :: priorityValue store) [0, 2] Group_category) 0)
       = Some ''Other''"
    using t [where h = "exampleStore :: priorityValue store" and g = Group_category and x = 0,
        THEN conjunct2, THEN conjunct2, THEN conjunct1]
    by (simp add: exampleStore_def storeOf_def exampleRow_def)
  have g2: "category (fst (groupResults (exampleStore :: priorityValue store) [0, 2] Group_category) 2)
       = Some ''Bug''"
    using t [where h = "exampleStore :: priorityValue store" and g = Group_category and x = 2,
        THEN conjunct2, THEN conjunct2, THEN conjunct1]
    by (simp add: exampleStore_def storeOf_def exampleRow_def)
  have g3: "category (fst (groupResults0 exampleStore [0, 2] Group_filename) 0) = Some ''Other''"
    using t [where ?h0.0 = exampleStore and g = Group_filename and x = 0,
        THEN conjunct2, THEN conjunct2, THEN conjunct2, THEN conjunct1]
    by (simp add: exampleStore_def storeOf_def exampleRow_def)
  have g4: "category (fst (groupResults0 exampleStore [0, 2] Group_filename) 2) = Some ''Bug''"
    using t [where ?h0.0 = exampleStore and g = Group_filename and x = 2,
        THEN conjunct2, THEN conjunct2, THEN conjunct2, THEN conjunct1]
    by (simp add: exampleStore_def storeOf_def exampleRow_def)
  have m1: "mset (map category (concat (map snd (templateInput exampleFactory
         (store (fst (rowsParsed exampleFactory Html ?wa [0, 2]))) [0, 2]))))
       = {#Some ''Other'', Some ''Bug''#}"
    using t [THEN conjunct2, THEN conjunct2, THEN conjunct2, THEN conjunct2, THEN conjunct2,
        THEN conjunct1]
    by (simp add: exampleStore_def storeOf_def exampleRow_def)
  have k1: "category (store (exportForFormat exampleFactory Html ?wa [0, 2]) 0) = Some ''Other''"
    using t [where fmt = Html and x = 0, THEN conjunct2, THEN conjunct2, THEN conjunct2,
        THEN conjunct2, THEN conjunct2, THEN conjunct2, THEN conjunct2, THEN conjunct2,
        THEN conjunct2, THEN conjunct2, THEN conjunct1]
    by (simp add: exampleStore_def storeOf_def exampleRow_def)
  have k2: "category (store (exportForFormat exampleFactory Json ?wa [0, 2]) 0) = None"
    using t [where fmt = Json and x = 0, THEN conjunct2, THEN conjunct2, THEN conjunct2,
        THEN conjunct2, THEN conjunct2, THEN conjunct2, THEN conjunct2, THEN conjunct2,
        THEN conjunct2, THEN conjunct2, THEN conjunct1]
    by (simp add: exampleStore_def storeOf_def exampleRow_def)
  have "foldOption (exportAsHtml_data exampleFactory) (?wb, []) [0, 2] \<noteq> None"
    using t [THEN conjunct2, THEN conjunct2, THEN conjunct2, THEN conjunct2, THEN conjunct2,
        THEN conjunct2, THEN conjunct2, THEN conjunct2, THEN conjunct1, rule_format, OF nic] .
  then obtain acc where acc: "foldOption (exportAsHtml_data exampleFactory) (?wb, []) [0, 2] = Some acc"
    by blast
  have hh: "exportAsHtml exampleFactory ?wb [0, 2]
             = Some \<lparr>store = fst (groupResults0 (store (fst acc)) [0, 2] Group_filename),
                     fsLog = fsLog (fst acc)
                       @ [WriteFile ''code-review.html''
                            (template exampleFactory
                               (templateInput0 exampleFactory (store (fst acc)) [0, 2]))]\<rparr>
         \<and> mset (map category (concat (map snd
                 (templateInput0 exampleFactory (store (fst acc)) [0, 2]))))
             = {#Some ''Other'', Some ''Bug''#}"
    using t [THEN conjunct2, THEN conjunct2, THEN conjunct2, THEN conjunct2, THEN conjunct2,
        THEN conjunct2, THEN conjunct2, THEN conjunct1, rule_format, OF acc]
    by (simp add: gb bp exampleStore_def storeOf_def exampleRow_def)
  have h: "\<exists>acc. foldOption (exportAsHtml_data exampleFactory) (?wb, []) [0, 2] = Some acc
         \<and> exportAsHtml exampleFactory ?wb [0, 2]
             = Some \<lparr>store = fst (groupResults0 (store (fst acc)) [0, 2] Group_filename),
                     fsLog = fsLog (fst acc)
                       @ [WriteFile ''code-review.html''
                            (template exampleFactory
                               (templateInput0 exampleFactory (store (fst acc)) [0, 2]))]\<rparr>
         \<and> mset (map category (concat (map snd
                 (templateInput0 exampleFactory (store (fst acc)) [0, 2]))))
             = {#Some ''Other'', Some ''Bug''#}"
    using acc hh by blast
  have "exportAsGitLabCsv_data exampleFactory ''o.csv'' ?wb 0 \<noteq> None"
    and "exportAsGitHubCsv_data exampleFactory ''o.csv'' ?wb 2 \<noteq> None"
    and "exportAsJiraCsv_data exampleFactory ''o.csv'' ?wb 0 \<noteq> None"
    by (simp_all add: exportAsGitLabCsv_data_def exportAsGitHubCsv_data_def
        exportAsJiraCsv_data_def withCode0_def exampleFactory_def)
  then obtain u1 u2 u3 where u1: "exportAsGitLabCsv_data exampleFactory ''o.csv'' ?wb 0 = Some u1"
    and u2: "exportAsGitHubCsv_data exampleFactory ''o.csv'' ?wb 2 = Some u2"
    and u3: "exportAsJiraCsv_data exampleFactory ''o.csv'' ?wb 0 = Some u3"
    by blast
  have r1: "store u1 0 = exampleRow"
    using u1 by (auto simp: exportAsGitLabCsv_data_def withCode0_def exampleFactory_def
        exampleStore_def storeOf_def exampleRow_def)
  have r2: "store u2 2 = exampleRow\<lparr>category := Some ''Bug''\<rparr>"
    using u2 by (auto simp: exportAsGitHubCsv_data_def withCode0_def exampleFactory_def
        exampleStore_def storeOf_def exampleRow_def)
  have r3: "store u3 0 = exampleRow"
    using u3 by (auto simp: exportAsJiraCsv_data_def withCode0_def exampleFactory_def
        exampleStore_def storeOf_def exampleRow_def)
  have p1: "category (store u1 0) = None
         \<and> fsLog u1
             = [AppendFile ''o.csv''
                  (csvLine [CHR 0x0A]
                     [''[code review] hi'',
                      ''## Affected'' @ [CHR 0x0A] @ ''a.ts'' @ [CHR 0x0A]
                      @ ''- lines: 3:0-3:5|1:0-2:4'' @ [CHR 0x0A]
                      @ ''## Comment'' @ [CHR 0x0A] @ ''hi'' @ [CHR 0x0A] @ [CHR 0x0A]])]"
    using t [where r = 0 and x = 0, THEN conjunct2, THEN conjunct2, THEN conjunct2, THEN conjunct2,
        THEN conjunct2, THEN conjunct2, THEN conjunct2, THEN conjunct2, THEN conjunct2,
        THEN conjunct2, THEN conjunct2, THEN conjunct2, THEN conjunct2, THEN conjunct2,
        THEN conjunct2, THEN conjunct1, rule_format, OF u1]
    by (simp add: r1 codeReads0_def csvTitle_def descShort_def markdownDescription_def
        prioritySection0_def exampleFactory_def exampleStore_def storeOf_def exampleRow_def)
  have p2: "category (store u2 2) = Some ''Bug''
         \<and> fsLog u2
             = [AppendFile ''o.csv''
                  (csvLine [CHR 0x0A]
                     [''[code review] hi'',
                      ''## Category'' @ [CHR 0x0A] @ ''Bug'' @ [CHR 0x0A] @ [CHR 0x0A]
                      @ ''## Affected'' @ [CHR 0x0A] @ ''a.ts'' @ [CHR 0x0A]
                      @ ''- lines: 3:0-3:5|1:0-2:4'' @ [CHR 0x0A]
                      @ ''## Comment'' @ [CHR 0x0A] @ ''hi'' @ [CHR 0x0A] @ [CHR 0x0A],
                      ''code-review'', ''open'', []])]"
    using t [where r = 2 and x = 2, THEN conjunct2, THEN conjunct2, THEN conjunct2, THEN conjunct2,
        THEN conjunct2, THEN conjunct2, THEN conjunct2, THEN conjunct2, THEN conjunct2,
        THEN conjunct2, THEN conjunct2, THEN conjunct2, THEN conjunct2, THEN conjunct2,
        THEN conjunct2, THEN conjunct2, THEN conjunct1, rule_format, OF u2]
    by (simp add: r2 codeReads0_def csvTitle_def descShort_def markdownDescription_def
        prioritySection0_def exampleFactory_def exampleStore_def storeOf_def exampleRow_def)
  have p3: "category (store u3 0) = None
         \<and> fsLog u3
             = [AppendFile ''o.csv''
                  (csvLine [CHR 0x0A]
                     [''[code review] hi'',
                      ''h2. Affected'' @ [CHR 0x0A] @ ''a.ts'' @ [CHR 0x0A]
                      @ ''* lines: 3:0-3:5|1:0-2:4'' @ [CHR 0x0A]
                      @ ''h2. Category'' @ [CHR 0x0A] @ ''undefined'' @ [CHR 0x0A] @ [CHR 0x0A]
                      @ ''h2. Comment'' @ [CHR 0x0A] @ ''hi'' @ [CHR 0x0A] @ [CHR 0x0A],
                      ''3'', ''undefined'', ''a.ts'', ''undefined'', ''3:0-3:5|1:0-2:4'',
                      ''undefined'', ''undefined'', ''hi'', ''undefined''])]"
    using t [where r = 0 and x = 0, THEN conjunct2, THEN conjunct2, THEN conjunct2, THEN conjunct2,
        THEN conjunct2, THEN conjunct2, THEN conjunct2, THEN conjunct2, THEN conjunct2,
        THEN conjunct2, THEN conjunct2, THEN conjunct2, THEN conjunct2, THEN conjunct2,
        THEN conjunct2, THEN conjunct2, THEN conjunct2, THEN conjunct1, rule_format, OF u3]
    by (simp add: r3 codeReads0_def csvTitle_def descShort_def jiraColumns_def jiraDescription_def
        jiraPriority0_def showNat.simps exampleFactory_def exampleStore_def storeOf_def
        exampleRow_def)
  have q1: "\<exists>w'. exportAsGitLabCsv_data exampleFactory ''o.csv'' ?wb 0 = Some w'
         \<and> category (store w' 0) = None
         \<and> fsLog w'
             = [AppendFile ''o.csv''
                  (csvLine [CHR 0x0A]
                     [''[code review] hi'',
                      ''## Affected'' @ [CHR 0x0A] @ ''a.ts'' @ [CHR 0x0A]
                      @ ''- lines: 3:0-3:5|1:0-2:4'' @ [CHR 0x0A]
                      @ ''## Comment'' @ [CHR 0x0A] @ ''hi'' @ [CHR 0x0A] @ [CHR 0x0A]])]"
    using u1 p1 by blast
  have q2: "\<exists>w'. exportAsGitHubCsv_data exampleFactory ''o.csv'' ?wb 2 = Some w'
         \<and> category (store w' 2) = Some ''Bug''
         \<and> fsLog w'
             = [AppendFile ''o.csv''
                  (csvLine [CHR 0x0A]
                     [''[code review] hi'',
                      ''## Category'' @ [CHR 0x0A] @ ''Bug'' @ [CHR 0x0A] @ [CHR 0x0A]
                      @ ''## Affected'' @ [CHR 0x0A] @ ''a.ts'' @ [CHR 0x0A]
                      @ ''- lines: 3:0-3:5|1:0-2:4'' @ [CHR 0x0A]
                      @ ''## Comment'' @ [CHR 0x0A] @ ''hi'' @ [CHR 0x0A] @ [CHR 0x0A],
                      ''code-review'', ''open'', []])]"
    using u2 p2 by blast
  have q3: "\<exists>w'. exportAsJiraCsv_data exampleFactory ''o.csv'' ?wb 0 = Some w'
         \<and> category (store w' 0) = None
         \<and> fsLog w'
             = [AppendFile ''o.csv''
                  (csvLine [CHR 0x0A]
                     [''[code review] hi'',
                      ''h2. Affected'' @ [CHR 0x0A] @ ''a.ts'' @ [CHR 0x0A]
                      @ ''* lines: 3:0-3:5|1:0-2:4'' @ [CHR 0x0A]
                      @ ''h2. Category'' @ [CHR 0x0A] @ ''undefined'' @ [CHR 0x0A] @ [CHR 0x0A]
                      @ ''h2. Comment'' @ [CHR 0x0A] @ ''hi'' @ [CHR 0x0A] @ [CHR 0x0A],
                      ''3'', ''undefined'', ''a.ts'', ''undefined'', ''3:0-3:5|1:0-2:4'',
                      ''undefined'', ''undefined'', ''hi'', ''undefined''])]"
    using u3 p3 by blast
  have "exportAsJson exampleFactory ?wb [0, 2] \<noteq> None"
    by (simp add: exportAsJson_def exportAsJson_data_def withCode0_def exampleFactory_def)
  then obtain W where W: "exportAsJson exampleFactory ?wb [0, 2] = Some W"
    by blast
  have j0: "category (store W 0) = None"
    using t [where x = 0, THEN conjunct2, THEN conjunct2, THEN conjunct2, THEN conjunct2,
        THEN conjunct2, THEN conjunct2, THEN conjunct2, THEN conjunct2, THEN conjunct2,
        THEN conjunct2, THEN conjunct2, THEN conjunct2, THEN conjunct2, THEN conjunct2,
        THEN conjunct2, THEN conjunct2, THEN conjunct2, THEN conjunct2, THEN conjunct1,
        rule_format, OF W, THEN conjunct1]
    by (simp add: exampleStore_def storeOf_def exampleRow_def)
  have j2: "category (store W 2) = Some ''Bug''"
    using t [where x = 2, THEN conjunct2, THEN conjunct2, THEN conjunct2, THEN conjunct2,
        THEN conjunct2, THEN conjunct2, THEN conjunct2, THEN conjunct2, THEN conjunct2,
        THEN conjunct2, THEN conjunct2, THEN conjunct2, THEN conjunct2, THEN conjunct2,
        THEN conjunct2, THEN conjunct2, THEN conjunct2, THEN conjunct2, THEN conjunct1,
        rule_format, OF W, THEN conjunct1]
    by (simp add: exampleStore_def storeOf_def exampleRow_def)
  have j: "\<exists>W. exportAsJson exampleFactory ?wb [0, 2] = Some W
         \<and> category (store W 0) = None \<and> category (store W 2) = Some ''Bug''"
    using W j0 j2 by blast
  from n a1 y a2 g1 g2 g3 g4 m1 k1 k2 nic h q1 q2 q3 j show ?thesis by (intro conjI)
qed

text \<open>
  C5 as the spec states it fails for the formats that do not group. The GitLab export
  of a row without a category leaves the category missing and writes a description
  that starts with \<^verbatim>\<open>## Affected\<close>, with no category section.
\<close>

theorem gitlab_row_without_category:
  "category (exampleRow :: priorityValue CsvEntry) = None
   \<and> category (store (exportForFormat exampleFactory Gitlab
         \<lparr>store = storeOf exampleRow, fsLog = []\<rparr> [0]) 0) = None
   \<and> fsLog (exportForFormat exampleFactory Gitlab \<lparr>store = storeOf exampleRow, fsLog = []\<rparr> [0])
       = [WriteFile ''code-review.gitlab.csv'' (''title,description'' @ [CHR 0x0A]),
          AppendFile ''code-review.gitlab.csv''
            (quoted ''[code review] hi'' @ '',''
             @ quoted (''## Affected'' @ [CHR 0x0A] @ ''a.ts'' @ [CHR 0x0A]
                       @ ''- lines: 3:0-3:5|1:0-2:4'' @ [CHR 0x0A]
                       @ ''## Comment'' @ [CHR 0x0A] @ ''hi'' @ [CHR 0x0A] @ [CHR 0x0A])
             @ [CHR 0x0A])]"
  by (simp add: storeOf_def exportForFormat_def onData_def unescapeRow_def handleData_gitlab_def Let_def
      withCode_def codeReads_def csvLine_def quoted_def csvTitle_def descShort_def
      markdownDescription_def prioritySection_def exampleFactory_def exampleRow_def)

section \<open>C6: the name of a priority\<close>

text \<open>
  C6 at a failing input. With the configured names \<^verbatim>\<open>["none", "low", "medium", "high"]\<close>,
  \<^verbatim>\<open>priorityName\<close> of \<^verbatim>\<open>src/export-factory.ts\<close> gives \<^verbatim>\<open>undefined\<close> for the
  priority 4, for a negative priority and for a missing priority, also for the text
  \<^verbatim>\<open>'4'\<close> that the parser gives for such a column, and the JIRA renderer prints
  \<^verbatim>\<open>undefined\<close> in the Priority column. The switch of the second file gives
  \<^verbatim>\<open>none\<close> for the same inputs.
\<close>

theorem priorityName_out_of_range_is_undefined:
  "priorityName exampleFactory (Some (PNumber 4)) = None
   \<and> priorityName exampleFactory (Some (PNumber (- 1))) = None
   \<and> priorityName exampleFactory None = None
   \<and> priorityName exampleFactory (Some (PNumber 3)) = Some ''high''
   \<and> priorityName exampleFactory (Some (PText ''4'')) = None
   \<and> priorityName exampleFactory (Some (PText ''3'')) = Some ''high''
   \<and> priorityName0 (Some ''4'') = ''none''
   \<and> priorityName0 None = ''none''
   \<and> fsLog (handleData exampleFactory Jira ''code-review.jira.csv''
         \<lparr>store = storeOf (exampleRow\<lparr>priority := Some (PNumber 4), category := Some ''Bug''\<rparr>),
          fsLog = []\<rparr> 0)
       = [AppendFile ''code-review.jira.csv''
            (csvLine [CHR 0x0A]
               [''[code review] hi'',
                ''h2. Affected'' @ [CHR 0x0A] @ ''a.ts'' @ [CHR 0x0A]
                @ ''* lines: 3:0-3:5|1:0-2:4'' @ [CHR 0x0A]
                @ ''h2. Category'' @ [CHR 0x0A] @ ''Bug'' @ [CHR 0x0A] @ [CHR 0x0A]
                @ ''h2. Comment'' @ [CHR 0x0A] @ ''hi'' @ [CHR 0x0A] @ [CHR 0x0A],
                ''undefined'', ''undefined'', ''a.ts'', ''undefined'', ''3:0-3:5|1:0-2:4'',
                ''undefined'', ''Bug'', ''hi'', ''undefined''])]
   \<and> fsLog (handleData exampleFactory Jira ''code-review.jira.csv''
         \<lparr>store = storeOf (exampleRow\<lparr>priority := Some (PText ''4''), category := Some ''Bug''\<rparr>),
          fsLog = []\<rparr> 0)
       = [AppendFile ''code-review.jira.csv''
            (csvLine [CHR 0x0A]
               [''[code review] hi'',
                ''h2. Affected'' @ [CHR 0x0A] @ ''a.ts'' @ [CHR 0x0A]
                @ ''* lines: 3:0-3:5|1:0-2:4'' @ [CHR 0x0A]
                @ ''h2. Category'' @ [CHR 0x0A] @ ''Bug'' @ [CHR 0x0A] @ [CHR 0x0A]
                @ ''h2. Comment'' @ [CHR 0x0A] @ ''hi'' @ [CHR 0x0A] @ [CHR 0x0A],
                ''undefined'', ''undefined'', ''a.ts'', ''undefined'', ''3:0-3:5|1:0-2:4'',
                ''undefined'', ''Bug'', ''hi'', ''undefined''])]"
  by (simp add: storeOf_def priorityName_def priorityName0_def arrayIndex_def parseNat_def
      isDigit_def showNat.simps handleData_jira_def Let_def withCode_def
      codeReads_def jiraColumns_def jiraDescription_def csvTitle_def descShort_def
      exampleFactory_def exampleRow_def)

section \<open>C7: the Priority column of the two JIRA renderers\<close>

text \<open>
  C7. The JIRA callback of the second file writes, as the third column of its line, the
  digits of the number its switch gives: 3 for the priority \<^verbatim>\<open>'1'\<close>, 2 for \<^verbatim>\<open>'2'\<close>,
  1 for \<^verbatim>\<open>'3'\<close> and 3 for anything else. The JIRA \<^verbatim>\<open>handleData\<close> of
  \<^verbatim>\<open>src/export-factory.ts\<close> writes in that column \<^verbatim>\<open>priorityName\<close> of the priority,
  which for a priority in the range of the configured names is the configured name.
  The two columns differ for the row without a priority, whatever names are configured,
  and for the priority 1, as a number and as the text that the parser gives, with the
  names of the example.
\<close>

theorem jira_priority_variants_differ:
  fixes fac :: "priorityValue ExportFactory" and fac0 :: "string ExportFactory" and row :: "'p CsvEntry"
  shows
    "jiraPriority0 (Some ''1'') = 3 \<and> jiraPriority0 (Some ''2'') = 2
   \<and> jiraPriority0 (Some ''3'') = 1
   \<and> (\<forall>p. p \<notin> {Some ''1'', Some ''2'', Some ''3''} \<longrightarrow> jiraPriority0 p = 3)
   \<and> (\<forall>w'. exportAsJiraCsv_data fac0 out w0 r = Some w' \<longrightarrow>
         fsLog w' = fsLog w0 @ codeReads0 fac0 (store w0 r)
           @ [AppendFile out
                (csvLine (EOL fac0)
                   (jiraColumns (EOL fac0) (showNat (jiraPriority0 (priority (store w0 r))))
                      (store w' r)))])
   \<and> fsLog (handleData fac Jira out w r)
       = fsLog w @ codeReads fac (store w r)
         @ [AppendFile out
              (csvLine (EOL fac)
                 (jiraColumns (EOL fac) (render (priorityName fac (priority (store w r))))
                    (store (handleData fac Jira out w r) r)))]
   \<and> jiraColumns eol col row ! 2 = col
   \<and> (0 \<le> i \<and> nat i < length (priorities fac) \<longrightarrow>
         priorityName fac (Some (PNumber i)) = Some (priorities fac ! nat i))
   \<and> showNat (jiraPriority0 None) \<noteq> render (priorityName fac None)
   \<and> showNat (jiraPriority0 (Some ''1'')) \<noteq> render (priorityName exampleFactory (Some (PNumber 1)))
   \<and> showNat (jiraPriority0 (Some ''1'')) \<noteq> render (priorityName exampleFactory (Some (PText ''1'')))"
proof -
  have a1: "jiraPriority0 (Some ''1'') = 3" and a2: "jiraPriority0 (Some ''2'') = 2"
    and a3: "jiraPriority0 (Some ''3'') = 1"
    by (simp_all add: jiraPriority0_def)
  have b: "\<forall>p. p \<notin> {Some ''1'', Some ''2'', Some ''3''} \<longrightarrow> jiraPriority0 p = 3"
    by (simp add: jiraPriority0_def)
  have c: "\<forall>w'. exportAsJiraCsv_data fac0 out w0 r = Some w' \<longrightarrow>
         fsLog w' = fsLog w0 @ codeReads0 fac0 (store w0 r)
           @ [AppendFile out
                (csvLine (EOL fac0)
                   (jiraColumns (EOL fac0) (showNat (jiraPriority0 (priority (store w0 r))))
                      (store w' r)))]"
    using exportAsJiraCsv_data_line [of fac0 out w0 r] by blast
  have d: "jiraColumns eol col row ! 2 = col"
    by (simp add: jiraColumns_def)
  have e: "0 \<le> i \<and> nat i < length (priorities fac) \<longrightarrow>
         priorityName fac (Some (PNumber i)) = Some (priorities fac ! nat i)"
    by (simp add: priorityName_def)
  have f: "showNat (jiraPriority0 None) \<noteq> render (priorityName fac None)"
    by (simp add: jiraPriority0_def priorityName_def showNat.simps)
  have g: "showNat (jiraPriority0 (Some ''1'')) \<noteq> render (priorityName exampleFactory (Some (PNumber 1)))"
    by (simp add: jiraPriority0_def priorityName_def showNat.simps exampleFactory_def)
  have g': "showNat (jiraPriority0 (Some ''1'')) \<noteq> render (priorityName exampleFactory (Some (PText ''1'')))"
    by (simp add: jiraPriority0_def priorityName_def arrayIndex_def parseNat_def isDigit_def
        showNat.simps exampleFactory_def)
  from a1 a2 a3 b c handleData_jira_line [of fac out w r] d e f g g'
  show ?thesis by (intro conjI)
qed

theorem jira_priority_variants_differ_witness:
  "Some ''7'' \<notin> {Some ''1'', Some ''2'', Some ''3''} \<and> jiraPriority0 (Some ''7'') = 3
   \<and> (0::int) \<le> 1 \<and> nat 1 < length (priorities (exampleFactory :: priorityValue ExportFactory))
   \<and> priorityName (exampleFactory :: priorityValue ExportFactory) (Some (PNumber 1)) = Some ''low''
   \<and> map_option fsLog (exportAsJiraCsv_data exampleFactory ''code-review.jira.csv''
         \<lparr>store = \<lambda>r. exampleRow\<lparr>priority := Some ''1'', category := Some ''Bug''\<rparr>, fsLog = []\<rparr> 0)
       = Some [AppendFile ''code-review.jira.csv''
            (csvLine [CHR 0x0A]
               [''[code review] hi'',
                ''h2. Affected'' @ [CHR 0x0A] @ ''a.ts'' @ [CHR 0x0A]
                @ ''* lines: 3:0-3:5|1:0-2:4'' @ [CHR 0x0A]
                @ ''h2. Category'' @ [CHR 0x0A] @ ''Bug'' @ [CHR 0x0A] @ [CHR 0x0A]
                @ ''h2. Comment'' @ [CHR 0x0A] @ ''hi'' @ [CHR 0x0A] @ [CHR 0x0A],
                ''3'', ''undefined'', ''a.ts'', ''undefined'', ''3:0-3:5|1:0-2:4'',
                ''undefined'', ''Bug'', ''hi'', ''undefined''])]
   \<and> fsLog (handleData exampleFactory Jira ''code-review.jira.csv''
         \<lparr>store = \<lambda>r. exampleRow\<lparr>priority := Some (PNumber 1), category := Some ''Bug''\<rparr>, fsLog = []\<rparr> 0)
       = [AppendFile ''code-review.jira.csv''
            (csvLine [CHR 0x0A]
               [''[code review] hi'',
                ''h2. Affected'' @ [CHR 0x0A] @ ''a.ts'' @ [CHR 0x0A]
                @ ''* lines: 3:0-3:5|1:0-2:4'' @ [CHR 0x0A]
                @ ''h2. Category'' @ [CHR 0x0A] @ ''Bug'' @ [CHR 0x0A] @ [CHR 0x0A]
                @ ''h2. Comment'' @ [CHR 0x0A] @ ''hi'' @ [CHR 0x0A] @ [CHR 0x0A],
                ''low'', ''undefined'', ''a.ts'', ''undefined'', ''3:0-3:5|1:0-2:4'',
                ''undefined'', ''Bug'', ''hi'', ''undefined''])]"
proof -
  have n: "Some ''7'' \<notin> {Some ''1'', Some ''2'', Some ''3''}" by simp
  have l0: "exportAsJiraCsv_data exampleFactory ''code-review.jira.csv''
         \<lparr>store = \<lambda>r. exampleRow\<lparr>priority := Some ''1'', category := Some ''Bug''\<rparr>, fsLog = []\<rparr> 0
       = Some \<lparr>store = (\<lambda>r. exampleRow\<lparr>priority := Some ''1'', category := Some ''Bug''\<rparr>)
                  (0 := exampleRow\<lparr>priority := Some ''1'', category := Some ''Bug''\<rparr>),
                fsLog = [AppendFile ''code-review.jira.csv''
            (csvLine [CHR 0x0A]
               [''[code review] hi'',
                ''h2. Affected'' @ [CHR 0x0A] @ ''a.ts'' @ [CHR 0x0A]
                @ ''* lines: 3:0-3:5|1:0-2:4'' @ [CHR 0x0A]
                @ ''h2. Category'' @ [CHR 0x0A] @ ''Bug'' @ [CHR 0x0A] @ [CHR 0x0A]
                @ ''h2. Comment'' @ [CHR 0x0A] @ ''hi'' @ [CHR 0x0A] @ [CHR 0x0A],
                ''3'', ''undefined'', ''a.ts'', ''undefined'', ''3:0-3:5|1:0-2:4'',
                ''undefined'', ''Bug'', ''hi'', ''undefined''])]\<rparr>"
    by (simp add: exportAsJiraCsv_data_def withCode0_def codeReads0_def jiraColumns_def
        jiraDescription_def csvTitle_def descShort_def jiraPriority0_def showNat.simps
        exampleFactory_def exampleRow_def)
  have p0: "map_option fsLog (exportAsJiraCsv_data exampleFactory ''code-review.jira.csv''
         \<lparr>store = \<lambda>r. exampleRow\<lparr>priority := Some ''1'', category := Some ''Bug''\<rparr>, fsLog = []\<rparr> 0)
       = Some [AppendFile ''code-review.jira.csv''
            (csvLine [CHR 0x0A]
               [''[code review] hi'',
                ''h2. Affected'' @ [CHR 0x0A] @ ''a.ts'' @ [CHR 0x0A]
                @ ''* lines: 3:0-3:5|1:0-2:4'' @ [CHR 0x0A]
                @ ''h2. Category'' @ [CHR 0x0A] @ ''Bug'' @ [CHR 0x0A] @ [CHR 0x0A]
                @ ''h2. Comment'' @ [CHR 0x0A] @ ''hi'' @ [CHR 0x0A] @ [CHR 0x0A],
                ''3'', ''undefined'', ''a.ts'', ''undefined'', ''3:0-3:5|1:0-2:4'',
                ''undefined'', ''Bug'', ''hi'', ''undefined''])]"
    by (simp add: l0)
  have p1: "fsLog (handleData exampleFactory Jira ''code-review.jira.csv''
         \<lparr>store = \<lambda>r. exampleRow\<lparr>priority := Some (PNumber 1), category := Some ''Bug''\<rparr>, fsLog = []\<rparr> 0)
       = [AppendFile ''code-review.jira.csv''
            (csvLine [CHR 0x0A]
               [''[code review] hi'',
                ''h2. Affected'' @ [CHR 0x0A] @ ''a.ts'' @ [CHR 0x0A]
                @ ''* lines: 3:0-3:5|1:0-2:4'' @ [CHR 0x0A]
                @ ''h2. Category'' @ [CHR 0x0A] @ ''Bug'' @ [CHR 0x0A] @ [CHR 0x0A]
                @ ''h2. Comment'' @ [CHR 0x0A] @ ''hi'' @ [CHR 0x0A] @ [CHR 0x0A],
                ''low'', ''undefined'', ''a.ts'', ''undefined'', ''3:0-3:5|1:0-2:4'',
                ''undefined'', ''Bug'', ''hi'', ''undefined''])]"
    by (simp add: handleData_jira_def Let_def withCode_def codeReads_def jiraColumns_def
        jiraDescription_def csvTitle_def descShort_def priorityName_def exampleFactory_def
        exampleRow_def)
  note t = jira_priority_variants_differ [where fac = "exampleFactory :: priorityValue ExportFactory" and i = 1]
  have j: "jiraPriority0 (Some ''7'') = 3"
    using t [THEN conjunct2, THEN conjunct2, THEN conjunct2, THEN conjunct1, rule_format, OF n] .
  have i1: "(0::int) \<le> 1" by simp
  have i2: "nat 1 < length (priorities (exampleFactory :: priorityValue ExportFactory))"
    by (simp add: exampleFactory_def)
  have q: "priorityName (exampleFactory :: priorityValue ExportFactory) (Some (PNumber 1)) = Some ''low''"
    using i1 i2 t [THEN conjunct2, THEN conjunct2, THEN conjunct2, THEN conjunct2, THEN conjunct2,
        THEN conjunct2, THEN conjunct2, THEN conjunct1]
    by (simp add: exampleFactory_def)
  from n j i1 i2 q p0 p1 show ?thesis by (intro conjI)
qed

section \<open>C8: the separator between spans\<close>

lemma joinStr_Cons: "joinStr sep (c # cs) = c @ concat (map (\<lambda>x. sep @ x) cs)"
  by (induction cs arbitrary: c) simp_all

lemma foldl_appendSpan_nonempty:
  "acc \<noteq> [] \<Longrightarrow>
   foldl (appendSpan eol) acc cs = acc @ concat (map (\<lambda>x. (eol @ ''...'' @ eol @ eol) @ x) cs)"
proof (induction cs arbitrary: acc)
  case Nil
  then show ?case by simp
next
  case (Cons c cs)
  have "appendSpan eol acc c = acc @ (eol @ ''...'' @ eol @ eol) @ c"
    using Cons.prems by (simp add: appendSpan_def)
  moreover have "appendSpan eol acc c \<noteq> []"
    using Cons.prems by (simp add: appendSpan_def)
  ultimately show ?case
    using Cons.IH [of "appendSpan eol acc c"] by simp
qed

lemma foldl_appendSpan_empty:
  "foldl (appendSpan eol) [] cs
     = joinStr (eol @ ''...'' @ eol @ eol) (dropWhile (\<lambda>c. c = []) cs)"
proof (induction cs)
  case Nil
  then show ?case by simp
next
  case (Cons c cs)
  show ?case
  proof (cases "c = []")
    case True
    then show ?thesis using Cons.IH by (simp add: appendSpan_def)
  next
    case False
    then have "foldl (appendSpan eol) [] (c # cs)
                 = c @ concat (map (\<lambda>x. (eol @ ''...'' @ eol @ eol) @ x) cs)"
      using foldl_appendSpan_nonempty [of c eol cs] by (simp add: appendSpan_def)
    then show ?thesis
      using False by (simp only: dropWhile.simps joinStr_Cons if_False)
  qed
qed

lemma foldl_appendSpan_map:
  "foldl (\<lambda>result t. appendSpan eol result (f t)) acc ts = foldl (appendSpan eol) acc (map f ts)"
  by (induction ts arbitrary: acc) simp_all

lemma codeResult_join:
  "codeResult fac file selector
     = joinStr (EOL fac @ ''...'' @ EOL fac @ EOL fac)
         (dropWhile (\<lambda>c. c = []) (map (rangeContent fac file) (rangeStrings selector)))"
  unfolding codeResult_def
  by (simp only: foldl_appendSpan_map [of "EOL fac" "rangeContent fac file"]
      foldl_appendSpan_empty)

lemma codeLoop0_foldl:
  "codeLoop0 fac file result ts
     = (if \<forall>rng \<in> set ts. spanLines rng \<noteq> None
        then Some (foldl (appendSpan (EOL fac)) result (map (spanText0 fac file) ts))
        else None)"
proof (induction ts arbitrary: result)
  case Nil
  then show ?case by simp
next
  case (Cons t ts)
  show ?case
  proof (cases "spanLines t")
    case None
    then show ?thesis by simp
  next
    case (Some p)
    obtain a b where p: "p = (a, b)" by (cases p)
    have t: "spanText0 fac file t = linesContent fac file a b"
      using Some p by (simp add: spanText0_def)
    show ?thesis
      using Some p by (simp add: Cons.IH t)
  qed
qed

text \<open>
  C8 (as the code has it). In both source files the extracted code is the texts of the
  spans, in the order of the selector, joined with the separator (a line break,
  \<^verbatim>\<open>...\<close>, two line breaks) between every two consecutive texts from the first
  non-empty text on; spans whose text is empty before that leave no trace. No test of
  adjacency is made. The first file skips the empty pieces of the selector and encodes
  the result; the second file throws when a piece has no \<^verbatim>\<open>-\<close>.
\<close>

theorem code_spans_joined_with_separator:
  "codeResult fac file selector
     = joinStr (EOL fac @ ''...'' @ EOL fac @ EOL fac)
         (dropWhile (\<lambda>c. c = []) (map (rangeContent fac file) (rangeStrings selector)))
   \<and> getCodeForFile fac file selector = encode fac (codeResult fac file selector)
   \<and> getCodeForFile0 fac0 file selector
     = (if \<forall>rng \<in> set (splitStr CHR ''|'' selector). spanLines rng \<noteq> None
        then Some (joinStr (EOL fac0 @ ''...'' @ EOL fac0 @ EOL fac0)
                     (dropWhile (\<lambda>c. c = [])
                        (map (spanText0 fac0 file) (splitStr CHR ''|'' selector))))
        else None)
   \<and> joinStr sep (t # u # ts) = t @ sep @ joinStr sep (u # ts)"
  by (simp only: codeResult_join getCodeForFile_def getCodeForFile0_def codeLoop0_foldl
      foldl_appendSpan_empty joinStr.simps simp_thms)

theorem code_spans_joined_with_separator_witness:
  "splitStr CHR ''|'' ''1:0-1:5|3:0-3:5'' = [''1:0-1:5'', ''3:0-3:5'']
   \<and> spanLines ''1:0-1:5'' = Some (''1'', ''1'') \<and> spanLines ''3:0-3:5'' = Some (''3'', ''3'')
   \<and> getCodeForFile0 exampleFactory ''a.ts'' ''1:0-1:5|3:0-3:5''
       = Some (''alpha'' @ [CHR 0x0A] @ ''...'' @ [CHR 0x0A] @ [CHR 0x0A] @ ''gamma'')
   \<and> codeResult exampleFactory ''a.ts'' ''1:0-1:5|3:0-3:5''
       = ''alpha'' @ [CHR 0x0A] @ ''...'' @ [CHR 0x0A] @ [CHR 0x0A] @ ''gamma''"
proof -
  have s: "splitStr CHR ''|'' ''1:0-1:5|3:0-3:5'' = [''1:0-1:5'', ''3:0-3:5'']"
    by simp
  have p: "spanLines ''1:0-1:5'' = Some (''1'', ''1'') \<and> spanLines ''3:0-3:5'' = Some (''3'', ''3'')"
    by (simp add: spanLines_def firstPiece_def)
  have l: "exampleLines ''a.ts'' ''1'' ''1'' = ''alpha'' \<and> exampleLines ''a.ts'' ''3'' ''3'' = ''gamma''"
    by (simp add: exampleLines_def exampleSource_def parseNat_def isDigit_def)
  have e: "EOL exampleFactory = [CHR 0x0A] \<and> linesContent exampleFactory = exampleLines
           \<and> rangeContent exampleFactory = exampleRange"
    by (simp add: exampleFactory_def)
  have a: "\<forall>rng \<in> set (splitStr CHR ''|'' ''1:0-1:5|3:0-3:5''). spanLines rng \<noteq> None"
    by (simp add: s p)
  note t = code_spans_joined_with_separator
      [of exampleFactory "''a.ts''" "''1:0-1:5|3:0-3:5''" exampleFactory]
  have v0: "joinStr (EOL exampleFactory @ ''...'' @ EOL exampleFactory @ EOL exampleFactory)
              (dropWhile (\<lambda>c. c = [])
                 (map (spanText0 exampleFactory ''a.ts'') (splitStr CHR ''|'' ''1:0-1:5|3:0-3:5'')))
            = ''alpha'' @ [CHR 0x0A] @ ''...'' @ [CHR 0x0A] @ [CHR 0x0A] @ ''gamma''"
    by (simp add: s p l e spanText0_def)
  have v1: "joinStr (EOL exampleFactory @ ''...'' @ EOL exampleFactory @ EOL exampleFactory)
              (dropWhile (\<lambda>c. c = [])
                 (map (rangeContent exampleFactory ''a.ts'') (rangeStrings ''1:0-1:5|3:0-3:5'')))
            = ''alpha'' @ [CHR 0x0A] @ ''...'' @ [CHR 0x0A] @ [CHR 0x0A] @ ''gamma''"
    by (simp add: s p l e rangeStrings_def exampleRange_def)
  have g0: "getCodeForFile0 exampleFactory ''a.ts'' ''1:0-1:5|3:0-3:5''
       = Some (''alpha'' @ [CHR 0x0A] @ ''...'' @ [CHR 0x0A] @ [CHR 0x0A] @ ''gamma'')"
    unfolding t [THEN conjunct2, THEN conjunct2, THEN conjunct1] if_P [OF a] v0 ..
  have g1: "codeResult exampleFactory ''a.ts'' ''1:0-1:5|3:0-3:5''
       = ''alpha'' @ [CHR 0x0A] @ ''...'' @ [CHR 0x0A] @ [CHR 0x0A] @ ''gamma''"
    unfolding t [THEN conjunct1] v1 ..
  from s p g0 g1 show ?thesis by simp
qed

text \<open>
  C8 as the spec states it fails: lines 1 and 2 of the file are adjacent (together they
  are the span \<^verbatim>\<open>1:0-2:4\<close>), and the selector \<^verbatim>\<open>1:0-1:5|2:0-2:4\<close> gives their texts
  with the separator between them, in both source files.
\<close>

theorem adjacent_spans_get_separator:
  "exampleLines ''a.ts'' ''1'' ''2'' = ''alpha'' @ [CHR 0x0A] @ ''beta''
   \<and> getCodeForFile0 exampleFactory ''a.ts'' ''1:0-1:5|2:0-2:4''
       = Some (''alpha'' @ [CHR 0x0A] @ ''...'' @ [CHR 0x0A] @ [CHR 0x0A] @ ''beta'')
   \<and> codeResult exampleFactory ''a.ts'' ''1:0-1:5|2:0-2:4''
       = ''alpha'' @ [CHR 0x0A] @ ''...'' @ [CHR 0x0A] @ [CHR 0x0A] @ ''beta''"
proof -
  have s: "splitStr CHR ''|'' ''1:0-1:5|2:0-2:4'' = [''1:0-1:5'', ''2:0-2:4'']"
    by simp
  have p: "spanLines ''1:0-1:5'' = Some (''1'', ''1'') \<and> spanLines ''2:0-2:4'' = Some (''2'', ''2'')"
    by (simp add: spanLines_def firstPiece_def)
  have l: "exampleLines ''a.ts'' ''1'' ''1'' = ''alpha'' \<and> exampleLines ''a.ts'' ''2'' ''2'' = ''beta''"
    by (simp add: exampleLines_def exampleSource_def parseNat_def isDigit_def)
  have l2: "exampleLines ''a.ts'' ''1'' ''2'' = ''alpha'' @ [CHR 0x0A] @ ''beta''"
    by (simp add: exampleLines_def exampleSource_def parseNat_def isDigit_def)
  have e: "EOL exampleFactory = [CHR 0x0A] \<and> linesContent exampleFactory = exampleLines
           \<and> rangeContent exampleFactory = exampleRange"
    by (simp add: exampleFactory_def)
  have g0: "getCodeForFile0 exampleFactory ''a.ts'' ''1:0-1:5|2:0-2:4''
       = Some (''alpha'' @ [CHR 0x0A] @ ''...'' @ [CHR 0x0A] @ [CHR 0x0A] @ ''beta'')"
    by (simp add: getCodeForFile0_def s p l e appendSpan_def)
  have g1: "codeResult exampleFactory ''a.ts'' ''1:0-1:5|2:0-2:4''
       = ''alpha'' @ [CHR 0x0A] @ ''...'' @ [CHR 0x0A] @ [CHR 0x0A] @ ''beta''"
    by (simp add: codeResult_def rangeStrings_def s p l e appendSpan_def exampleRange_def)
  from l2 g0 g1 show ?thesis by (intro conjI)
qed

section \<open>C9: the JSON export without the code selection\<close>

lemma toJson_code: "''code'' \<in> fst ` set (toJson row) \<longleftrightarrow> code row \<noteq> None"
  by (cases "code row") (auto simp: toJson_def jsonKey_def split: option.splits)

lemma onData_json_code:
  "\<not> includeCodeSelection fac \<Longrightarrow>
   code (store (fst (onData fac Json out acc x)) r)
     = (if r = x then None else code (store (fst acc) r))"
  by (simp add: onData_def Let_def handleData_json_def withCode_def unescapeRow_def)

lemma onData_json_log:
  "\<not> includeCodeSelection fac \<Longrightarrow> fsLog (fst (onData fac Json out acc x)) = fsLog (fst acc)"
  by (simp add: onData_def Let_def handleData_json_def codeReads_def unescapeRow_def)

lemma foldl_onData_json_code:
  "\<not> includeCodeSelection fac \<Longrightarrow>
   code (store (fst (foldl (onData fac Json out) acc rows)) r)
     = (if r \<in> set rows then None else code (store (fst acc) r))"
proof (induction rows arbitrary: acc)
  case Nil
  then show ?case by simp
next
  case (Cons x xs)
  show ?case
    using Cons.IH [OF Cons.prems, of "onData fac Json out acc x"]
    by (simp add: onData_json_code [OF Cons.prems])
qed

lemma foldl_onData_json_log:
  "\<not> includeCodeSelection fac \<Longrightarrow>
   fsLog (fst (foldl (onData fac Json out) acc rows)) = fsLog (fst acc)"
  by (induction rows arbitrary: acc) (simp_all add: onData_json_log)

lemma exportForFormat_json_store:
  "store (exportForFormat fac Json w rows)
     = store (fst (foldl (onData fac Json (basePath fac @ ''.json'')) (w, []) rows))"
  by (simp add: exportForFormat_def Let_def)

lemma exportForFormat_json_log:
  "\<not> includeCodeSelection fac \<Longrightarrow>
   fsLog (exportForFormat fac Json w rows)
     = fsLog w
       @ [WriteFile (basePath fac @ ''.json'')
            (stringify fac (map (\<lambda>r. toJson (store (exportForFormat fac Json w rows) r)) rows))]"
  by (simp add: exportForFormat_json_store)
     (simp add: exportForFormat_def Let_def foldl_onData_data foldl_onData_json_log)

lemma exportAsJson_data_plain:
  "\<not> includeCodeSelection fac \<Longrightarrow>
   exportAsJson_data fac acc r
     = Some (\<lparr>store = (store (fst acc))(r := (store (fst acc) r)\<lparr>code := None\<rparr>),
             fsLog = fsLog (fst acc)\<rparr>,
            snd acc @ [r])"
  by (simp add: exportAsJson_data_def withCode0_def codeReads0_def)

lemma foldOption_exportAsJson_data:
  "\<not> includeCodeSelection fac \<Longrightarrow>
   \<exists>acc'. foldOption (exportAsJson_data fac) acc rows = Some acc'
     \<and> snd acc' = snd acc @ rows
     \<and> fsLog (fst acc') = fsLog (fst acc)
     \<and> (\<forall>r. code (store (fst acc') r)
              = (if r \<in> set rows then None else code (store (fst acc) r)))"
proof (induction rows arbitrary: acc)
  case Nil
  then show ?case by simp
next
  case (Cons x xs)
  let ?a = "(\<lparr>store = (store (fst acc))(x := (store (fst acc) x)\<lparr>code := None\<rparr>),
              fsLog = fsLog (fst acc)\<rparr>,
             snd acc @ [x])"
  obtain acc' where acc': "foldOption (exportAsJson_data fac) ?a xs = Some acc'"
      "snd acc' = snd ?a @ xs" "fsLog (fst acc') = fsLog (fst ?a)"
      "\<forall>r. code (store (fst acc') r) = (if r \<in> set xs then None else code (store (fst ?a) r))"
    using Cons.IH [OF Cons.prems, of ?a] by blast
  have "foldOption (exportAsJson_data fac) acc (x # xs) = Some acc'"
    using acc'(1) by (simp add: exportAsJson_data_plain [OF Cons.prems])
  moreover have "snd acc' = snd acc @ x # xs"
    using acc'(2) by simp
  moreover have "fsLog (fst acc') = fsLog (fst acc)"
    using acc'(3) by simp
  moreover have "\<forall>r. code (store (fst acc') r)
                   = (if r \<in> set (x # xs) then None else code (store (fst acc) r))"
    using acc'(4) by simp
  ultimately show ?case by blast
qed

lemma exportAsJson_plain:
  assumes "\<not> includeCodeSelection fac"
  shows "\<exists>w'. exportAsJson fac w rows = Some w'
     \<and> fsLog w' = fsLog w
         @ [WriteFile (basePath fac @ ''.json'')
              (stringify fac (map (\<lambda>r. toJson (store w' r)) rows))]
     \<and> (\<forall>r \<in> set rows. code (store w' r) = None)"
proof -
  obtain acc' where acc': "foldOption (exportAsJson_data fac) (w, []) rows = Some acc'"
      "snd acc' = rows" "fsLog (fst acc') = fsLog w"
      "\<forall>r. code (store (fst acc') r) = (if r \<in> set rows then None else code (store w r))"
    using foldOption_exportAsJson_data [OF assms, of "(w, [])" rows] by auto
  show ?thesis
    using acc' by (simp add: exportAsJson_def)
qed

text \<open>
  C9. Without the code selection, in both source files: the JSON export writes one file,
  the text of the array of the objects of the parsed rows, and no object of the array
  has the key \<^verbatim>\<open>code\<close>, also when the stored row had a \<^verbatim>\<open>code\<close> column. The export
  of the second file returns.
\<close>

theorem json_without_code_has_no_code_key:
  assumes "\<not> includeCodeSelection fac" and "\<not> includeCodeSelection fac0"
  shows "fsLog (exportForFormat fac Json w rows)
           = fsLog w
             @ [WriteFile (basePath fac @ ''.json'')
                  (stringify fac (map (\<lambda>r. toJson (store (exportForFormat fac Json w rows) r)) rows))]
       \<and> (\<forall>r \<in> set rows.
             ''code'' \<notin> fst ` set (toJson (store (exportForFormat fac Json w rows) r)))
       \<and> (\<exists>w'. exportAsJson fac0 w0 rows = Some w'
             \<and> fsLog w' = fsLog w0
                 @ [WriteFile (basePath fac0 @ ''.json'')
                      (stringify fac0 (map (\<lambda>r. toJson (store w' r)) rows))]
             \<and> (\<forall>r \<in> set rows. ''code'' \<notin> fst ` set (toJson (store w' r))))"
proof -
  have a: "\<forall>r \<in> set rows.
             ''code'' \<notin> fst ` set (toJson (store (exportForFormat fac Json w rows) r))"
    by (simp add: toJson_code exportForFormat_json_store foldl_onData_json_code [OF assms(1)])
  have b: "\<exists>w'. exportAsJson fac0 w0 rows = Some w'
             \<and> fsLog w' = fsLog w0
                 @ [WriteFile (basePath fac0 @ ''.json'')
                      (stringify fac0 (map (\<lambda>r. toJson (store w' r)) rows))]
             \<and> (\<forall>r \<in> set rows. ''code'' \<notin> fst ` set (toJson (store w' r)))"
    using exportAsJson_plain [OF assms(2), of w0 rows] by (simp add: toJson_code)
  from exportForFormat_json_log [OF assms(1), of w rows] a b show ?thesis by (intro conjI)
qed

theorem json_without_code_has_no_code_key_witness:
  "\<not> includeCodeSelection (exampleFactory :: priorityValue ExportFactory)
   \<and> \<not> includeCodeSelection (exampleFactory :: string ExportFactory)
   \<and> fsLog (exportForFormat exampleFactory Json
        \<lparr>store = \<lambda>r. exampleRow\<lparr>code := Some ''old''\<rparr>, fsLog = []\<rparr> [0, 2])
       = [WriteFile ''code-review.json'' ''filenamelinescommentfilenamelinescomment'']
   \<and> map_option fsLog (exportAsJson exampleFactory
        \<lparr>store = \<lambda>r. exampleRow\<lparr>code := Some ''old''\<rparr>, fsLog = []\<rparr> [0, 2])
       = Some [WriteFile ''code-review.json'' ''filenamelinescommentfilenamelinescomment'']"
proof -
  have i: "\<not> includeCodeSelection (exampleFactory :: priorityValue ExportFactory)"
    and i0: "\<not> includeCodeSelection (exampleFactory :: string ExportFactory)"
    by (simp_all add: exampleFactory_def)
  note t = json_without_code_has_no_code_key [OF i i0,
      of "\<lparr>store = \<lambda>r. exampleRow\<lparr>code := Some ''old''\<rparr>, fsLog = []\<rparr>" "[0, 2]"
         "\<lparr>store = \<lambda>r. exampleRow\<lparr>code := Some ''old''\<rparr>, fsLog = []\<rparr>"]
  have s: "store (exportForFormat exampleFactory Json
        \<lparr>store = \<lambda>r. exampleRow\<lparr>code := Some ''old''\<rparr>, fsLog = []\<rparr> [0, 2]) r
       = (if r = 0 \<or> r = 2 then exampleRow else exampleRow\<lparr>code := Some ''old''\<rparr>)" for r
    by (simp add: exportForFormat_def onData_def unescapeRow_def handleData_json_def Let_def
        withCode_def exampleFactory_def exampleRow_def)
  have j: "toJson (exampleRow :: 'a CsvEntry)
       = [(''filename'', JText ''a.ts''), (''lines'', JText ''3:0-3:5|1:0-2:4''),
          (''comment'', JText ''hi'')]"
    by (simp add: toJson_def jsonKey_def exampleRow_def)
  have f: "basePath exampleFactory = ''code-review''
       \<and> stringify exampleFactory = (\<lambda>objs. concat (map (\<lambda>obj. concat (map fst obj)) objs))"
    by (simp add: exampleFactory_def)
  have a: "fsLog (exportForFormat exampleFactory Json
        \<lparr>store = \<lambda>r. exampleRow\<lparr>code := Some ''old''\<rparr>, fsLog = []\<rparr> [0, 2])
       = [WriteFile ''code-review.json'' ''filenamelinescommentfilenamelinescomment'']"
    using t [THEN conjunct1] by (simp add: s j f)
  have b: "map_option fsLog (exportAsJson exampleFactory
        \<lparr>store = \<lambda>r. exampleRow\<lparr>code := Some ''old''\<rparr>, fsLog = []\<rparr> [0, 2])
       = Some [WriteFile ''code-review.json'' ''filenamelinescommentfilenamelinescomment'']"
    by (simp add: exportAsJson_def exportAsJson_data_def withCode0_def codeReads0_def
        toJson_def jsonKey_def exampleFactory_def exampleRow_def)
  from i i0 a b show ?thesis by (intro conjI)
qed

section \<open>C10: handleData runs twice for the buffered formats\<close>







end
